theory Spec2Isabelle
  imports Complex_Main "HOL-Library.Word" "HOL-Library.Code_Target_Nat"
begin

unbundle bit_operations_syntax

section \<open>The type-checking oracle as the visitor sees it\<close>

text \<open>
  \<^verbatim>\<open>src/input/visit.ts\<close> walks objects of the TypeScript compiler: types, declaration
  nodes, symbols and signatures. They are JavaScript objects, they point at each other
  in cycles, and the visitor passes declaration nodes where a type is expected
  (\<^verbatim>\<open>includeExternal(context, decl)\<close>, \<^verbatim>\<open>includeType(context, hiddenType)\<close>). So an
  object is an address, the oracle maps an address to the fields the visitor reads,
  and one record holds the fields of types and of nodes alike; a field that the
  object does not have is \<open>None\<close> (JavaScript's \<^verbatim>\<open>undefined\<close>).
\<close>

type_synonym addr = nat

text \<open>The values of the compiler's \<^verbatim>\<open>SyntaxKind\<close> that the visitor compares with.\<close>

datatype SyntaxKind =
    ExtendsKeyword
  | ImplementsKeyword
  | Identifier
  | TypeAliasDeclaration
  | InterfaceDeclaration
  | ClassDeclaration
  | FunctionDeclaration
  | MethodSignature
  | OtherSyntaxKind nat

text \<open>A literal type's \<^verbatim>\<open>value\<close>, copied into the model unchanged.\<close>

datatype jsvalue = VUndefined | VString string | VNumber real | VBoolean bool
  | VPseudoBigInt bool string

record Symbol =
  symbol_id :: "nat option"
  symbol_name :: string
  symbol_flags :: "32 word"
  declarations :: "addr list option"
  valueDeclaration :: "addr option"
  symbol_target_id :: "nat option"  \<comment> \<open>\<^verbatim>\<open>symbol.target?.id\<close>\<close>
  documentationComment :: "string list"  \<comment> \<open>the \<^verbatim>\<open>text\<close> of each display part\<close>

record Signature =
  sig_typeParameters :: "addr list option"
  sig_parameters :: "Symbol list"  \<comment> \<open>\<^verbatim>\<open>getParameters()\<close>\<close>
  sig_returnType :: addr  \<comment> \<open>\<^verbatim>\<open>getReturnType()\<close>\<close>

record ConditionalRoot =
  extendsType :: addr
  checkType :: addr
  trueType :: addr
  falseType :: addr

record HeritageClause =
  token :: SyntaxKind
  clause_types :: "addr list option"

record IndexInfo =
  info_type :: addr
  info_declaration :: "addr option"

record Obj =
  isTypeObject :: bool
    \<comment> \<open>an instance of the compiler's type class: it has the methods
       \<^verbatim>\<open>isStringLiteral\<close>, \<^verbatim>\<open>isNumberLiteral\<close>, \<^verbatim>\<open>isUnion\<close>, \<^verbatim>\<open>isIntersection\<close>,
       \<^verbatim>\<open>getProperties\<close>, \<^verbatim>\<open>getCallSignatures\<close>, the index-type getters and
       \<^verbatim>\<open>getConstraint\<close>; a declaration node has none of them\<close>
  obj_id :: "nat option"
  flags :: "32 word"
  objectFlags :: "32 word option"
  symbol :: "Symbol option"
  aliasSymbol :: "Symbol option"
  aliasTypeArguments :: "addr list option"
  typeArguments :: "addr list option"
  typeParameters :: "addr list option"
  target :: "addr option"
  types :: "addr list option"
  obj_value :: jsvalue
  intrinsicName :: "string option"
  root :: "ConditionalRoot option"
  typeVariable :: "addr option"
  indexType :: "addr option"
  objectType :: "addr option"
  stringsOnly :: "bool option"
  obj_type :: "addr option"  \<comment> \<open>the field \<^verbatim>\<open>type\<close> of a \<^verbatim>\<open>keyof\<close> type or of a node\<close>
  typeParameter :: "addr option"
  properties :: "Symbol list option"  \<comment> \<open>\<^verbatim>\<open>getProperties()\<close>\<close>
  stringIndexType :: "addr option"  \<comment> \<open>\<^verbatim>\<open>getStringIndexType()\<close>\<close>
  numberIndexType :: "addr option"  \<comment> \<open>\<^verbatim>\<open>getNumberIndexType()\<close>\<close>
  declaredStringIndexInfo :: "IndexInfo option"
  declaredNumberIndexInfo :: "IndexInfo option"
  callSignatures :: "Signature list option"  \<comment> \<open>\<^verbatim>\<open>getCallSignatures()\<close>\<close>
  baseConstraint :: "addr option"  \<comment> \<open>\<^verbatim>\<open>getConstraint()\<close>\<close>
  kind :: "SyntaxKind option"
  obj_default :: "addr option"
  parent :: "addr option"
  heritageClauses :: "HeritageClause list option"
  constraint :: "addr option"
  questionToken :: bool  \<comment> \<open>\<^verbatim>\<open>questionToken !== undefined\<close>\<close>
  dotDotDotToken :: bool
  parameters :: "addr list"
  typeName_text :: "string option"  \<comment> \<open>\<^verbatim>\<open>typeName.text\<close>\<close>
  expression :: "addr option"
  obj_text :: string
  sourceFileName :: "string option"  \<comment> \<open>\<^verbatim>\<open>getSourceFile()?.fileName\<close>\<close>


text \<open>
  The compiler's bit flags, with the values of its \<^verbatim>\<open>TypeFlags\<close>, \<^verbatim>\<open>ObjectFlags\<close> and
  \<^verbatim>\<open>SymbolFlags\<close> enumerations. JavaScript's \<^verbatim>\<open>&\<close> works on 32-bit integers.
\<close>

definition TypeFlags_Any :: "32 word" where "TypeFlags_Any = 1"
definition TypeFlags_Unknown :: "32 word" where "TypeFlags_Unknown = 2"
definition TypeFlags_String :: "32 word" where "TypeFlags_String = 4"
definition TypeFlags_Number :: "32 word" where "TypeFlags_Number = 8"
definition TypeFlags_Boolean :: "32 word" where "TypeFlags_Boolean = 16"
definition TypeFlags_Enum :: "32 word" where "TypeFlags_Enum = 32"
definition TypeFlags_BigInt :: "32 word" where "TypeFlags_BigInt = 64"
definition TypeFlags_StringLiteral :: "32 word" where "TypeFlags_StringLiteral = 128"
definition TypeFlags_NumberLiteral :: "32 word" where "TypeFlags_NumberLiteral = 256"
definition TypeFlags_BooleanLiteral :: "32 word" where "TypeFlags_BooleanLiteral = 512"
definition TypeFlags_EnumLiteral :: "32 word" where "TypeFlags_EnumLiteral = 1024"
definition TypeFlags_BigIntLiteral :: "32 word" where "TypeFlags_BigIntLiteral = 2048"
definition TypeFlags_ESSymbol :: "32 word" where "TypeFlags_ESSymbol = 4096"
definition TypeFlags_UniqueESSymbol :: "32 word" where "TypeFlags_UniqueESSymbol = 8192"
definition TypeFlags_Void :: "32 word" where "TypeFlags_Void = 16384"
definition TypeFlags_Undefined :: "32 word" where "TypeFlags_Undefined = 32768"
definition TypeFlags_Null :: "32 word" where "TypeFlags_Null = 65536"
definition TypeFlags_Never :: "32 word" where "TypeFlags_Never = 131072"
definition TypeFlags_TypeParameter :: "32 word" where "TypeFlags_TypeParameter = 262144"
definition TypeFlags_Object :: "32 word" where "TypeFlags_Object = 524288"
definition TypeFlags_Union :: "32 word" where "TypeFlags_Union = 1048576"
definition TypeFlags_Intersection :: "32 word" where "TypeFlags_Intersection = 2097152"
definition TypeFlags_Index :: "32 word" where "TypeFlags_Index = 4194304"
definition TypeFlags_NonPrimitive :: "32 word" where "TypeFlags_NonPrimitive = 67108864"

definition ObjectFlags_Class :: "32 word" where "ObjectFlags_Class = 1"
definition ObjectFlags_Interface :: "32 word" where "ObjectFlags_Interface = 2"
definition ObjectFlags_Reference :: "32 word" where "ObjectFlags_Reference = 4"
definition ObjectFlags_Anonymous :: "32 word" where "ObjectFlags_Anonymous = 16"
definition ObjectFlags_Mapped :: "32 word" where "ObjectFlags_Mapped = 32"

definition SymbolFlags_ConstEnum :: "32 word" where "SymbolFlags_ConstEnum = 128"
definition SymbolFlags_Prototype :: "32 word" where "SymbolFlags_Prototype = 4194304"
definition SymbolFlags_Optional :: "32 word" where "SymbolFlags_Optional = 16777216"

text \<open>\<^verbatim>\<open>x & F\<close> in a condition: true when the conjunction is not zero.\<close>

definition hasFlag :: "32 word \<Rightarrow> 32 word \<Rightarrow> bool" where
  "hasFlag x f = (x AND f \<noteq> 0)"

text \<open>
  The compiler's queries. \<open>object\<close> reads the fields of the object at an address; the
  others are the methods of \<^verbatim>\<open>context.checker\<close> that the visitor calls.
\<close>

record TypeChecker =
  object :: "addr \<Rightarrow> Obj"
  getTypeAtLocation :: "addr option \<Rightarrow> addr"
  getTypeFromTypeNode :: "addr option \<Rightarrow> addr"
  getDeclaredTypeOfSymbol :: "Symbol option \<Rightarrow> addr"
  getTypeOfSymbolAtLocation :: "Symbol \<Rightarrow> addr \<Rightarrow> addr"
  getSignatureFromDeclaration :: "addr \<Rightarrow> Signature option"
  getExportsOfModule :: "Symbol option \<Rightarrow> Symbol list"

text \<open>
  The functions that \<^verbatim>\<open>visit.ts\<close> imports from \<^verbatim>\<open>../helpers\<close> and \<^verbatim>\<open>./utils\<close>. Their
  code is not in the file, so they are parameters of the model: every theorem holds
  for all of them. A helper that the visitor calls on a value that may be
  \<^verbatim>\<open>undefined\<close> takes an option. \<^verbatim>\<open>createBinding\<close> reads and updates the context's
  record of imports; it gets that record and returns the new one.
\<close>

record Helpers =
  getLib :: "string option \<Rightarrow> string list \<Rightarrow> string option"
  isBaseLib :: "string option \<Rightarrow> bool"
  isAnonymousObject :: "addr \<Rightarrow> bool"
  isObjectType :: "addr \<Rightarrow> bool"
  isReferenceType :: "addr \<Rightarrow> bool"
  isBigIntLiteral :: "addr \<Rightarrow> bool"
  getKeyName :: "IndexInfo option \<Rightarrow> string"
  isIndexType :: "addr \<Rightarrow> bool"
  isGlobal :: "Symbol option \<Rightarrow> bool"
  getGlobalName :: "Symbol option \<Rightarrow> string"
  isTupleType :: "addr \<Rightarrow> bool"
  isKeyOfType :: "addr option \<Rightarrow> bool"
  isIdentifierType :: "addr option \<Rightarrow> bool"
  isConditionalType :: "addr \<Rightarrow> bool"
  isInferType :: "addr option \<Rightarrow> bool"
  isSubstitutionType :: "addr \<Rightarrow> bool"
  isAnonymous :: "string option \<Rightarrow> bool"
  getConstructors :: "addr \<Rightarrow> addr list option"
  getModifiers :: "Symbol \<Rightarrow> string"
  isHiddenAnonymousType :: "addr option \<Rightarrow> bool"
  isUnionType :: "addr option \<Rightarrow> bool"
  createBinding :: "string list \<Rightarrow> string \<Rightarrow> string option \<Rightarrow> string \<times> string list"

section \<open>The type model\<close>

text \<open>
  A node of the output graph: an object tagged by its \<^verbatim>\<open>kind\<close>. \<^verbatim>\<open>../types\<close> is not
  in the file; the constructors carry the fields that \<^verbatim>\<open>visit.ts\<close> writes, in the
  order it writes them. \<open>NoNode\<close> is JavaScript's \<^verbatim>\<open>undefined\<close>, which the visitor
  returns for "no match" and stores in fields such as a type parameter's
  \<^verbatim>\<open>constraint\<close>. The nodes with no field but the tag are \<open>TypeModelBasic\<close> of the
  tag: \<^verbatim>\<open>any\<close>, \<^verbatim>\<open>unknown\<close>, \<^verbatim>\<open>string\<close>, \<^verbatim>\<open>boolean\<close>, \<^verbatim>\<open>number\<close>, \<^verbatim>\<open>bigint\<close>,
  \<^verbatim>\<open>esSymbol\<close>, \<^verbatim>\<open>uniqueEsSymbol\<close>, \<^verbatim>\<open>void\<close>, \<^verbatim>\<open>undefined\<close>, \<^verbatim>\<open>null\<close>, \<^verbatim>\<open>never\<close> and
  \<^verbatim>\<open>unidentified\<close>.
\<close>

datatype TypeModel =
    NoNode
  | TypeModelBasic string
  | TypeModelRef "TypeModel list" "string option" "addr option"
      \<comment> \<open>types, refName, external\<close>
  | TypeModelInfer TypeModel
  | TypeModelFunctionParameter string string bool bool TypeModel
      \<comment> \<open>param, modifiers, spread, optional, value\<close>
  | TypeModelFunction "TypeModel list" "TypeModel list" TypeModel "string option"
      \<comment> \<open>types, parameters, returnType, comment\<close>
  | TypeModelConstructor "TypeModel list" "TypeModel list" TypeModel "string option"
  | TypeModelPrefix string TypeModel
  | TypeModelProp string string "nat option" bool "string option" TypeModel
      \<comment> \<open>name, modifiers, id, optional, comment, valueType\<close>
  | TypeModelIndex "TypeModel list" bool TypeModel
      \<comment> \<open>parameters, optional, valueType\<close>
  | TypeModelUnion "TypeModel list"
  | TypeModelIntersection "TypeModel list"
  | TypeModelTuple "TypeModel list"
  | TypeMemberModel string TypeModel "string option"
      \<comment> \<open>name, value, comment\<close>
  | TypeModelLiteral jsvalue
  | TypeModelBigIntLiteral jsvalue
  | TypeModelEnumLiteral bool "string option" "TypeModel list"
      \<comment> \<open>const, comment, values\<close>
  | TypeModelEnum "string option" "TypeModel list"
  | TypeModelConditional TypeModel TypeModel TypeModel TypeModel
      \<comment> \<open>extends, check, primary, alternate\<close>
  | TypeModelSubstitution TypeModel
  | TypeModelNonPrimitive "string option"
  | TypeModelTypeParameter TypeModel TypeModel TypeModel
      \<comment> \<open>parameter, constraint, default\<close>
  | TypeModelInterface "TypeModel list" "string option" "TypeModel list" "TypeModel list"
      TypeModel
      \<comment> \<open>extends, comment, props, types, mapped\<close>
  | TypeModelClass "TypeModel list" "string option" "TypeModel list" "TypeModel list"
      TypeModel "TypeModel list"
      \<comment> \<open>extends, comment, props, types, mapped, implements\<close>
  | TypeModelMapped string TypeModel bool TypeModel
      \<comment> \<open>name, constraint, optional, value\<close>
  | TypeModelIndexedAccess TypeModel TypeModel
      \<comment> \<open>index, object\<close>
  | TypeModelAlias "string option" "TypeModel list" TypeModel
      \<comment> \<open>comment, types, child\<close>


text \<open>The \<^verbatim>\<open>kind\<close> tag of a node.\<close>

fun kindOf :: "TypeModel \<Rightarrow> string" where
  "kindOf NoNode = []"
| "kindOf (TypeModelBasic k) = k"
| "kindOf (TypeModelRef ts n e) = ''ref''"
| "kindOf (TypeModelInfer p) = ''infer''"
| "kindOf (TypeModelFunctionParameter p m s opt v) = ''parameter''"
| "kindOf (TypeModelFunction ts ps r c) = ''function''"
| "kindOf (TypeModelConstructor ts ps r c) = ''constructor''"
| "kindOf (TypeModelPrefix p v) = ''prefix''"
| "kindOf (TypeModelProp n m i opt c v) = ''prop''"
| "kindOf (TypeModelIndex ps opt v) = ''index''"
| "kindOf (TypeModelUnion ts) = ''union''"
| "kindOf (TypeModelIntersection ts) = ''intersection''"
| "kindOf (TypeModelTuple ts) = ''tuple''"
| "kindOf (TypeMemberModel n v c) = ''member''"
| "kindOf (TypeModelLiteral v) = ''literal''"
| "kindOf (TypeModelBigIntLiteral v) = ''bigintLiteral''"
| "kindOf (TypeModelEnumLiteral k c vs) = ''enumLiteral''"
| "kindOf (TypeModelEnum c vs) = ''enum''"
| "kindOf (TypeModelConditional e c p a) = ''conditional''"
| "kindOf (TypeModelSubstitution v) = ''substitution''"
| "kindOf (TypeModelNonPrimitive n) = ''nonPrimitive''"
| "kindOf (TypeModelTypeParameter p c d) = ''typeParameter''"
| "kindOf (TypeModelInterface es c ps ts m) = ''interface''"
| "kindOf (TypeModelClass es c ps ts m is) = ''class''"
| "kindOf (TypeModelMapped n c opt v) = ''mapped''"
| "kindOf (TypeModelIndexedAccess i ob) = ''indexedAccess''"
| "kindOf (TypeModelAlias c ts ch) = ''alias''"

text \<open>The fields \<^verbatim>\<open>types\<close>, \<^verbatim>\<open>props\<close>, \<^verbatim>\<open>extends\<close>, \<^verbatim>\<open>refName\<close>, \<^verbatim>\<open>external\<close> and \<^verbatim>\<open>id\<close> of a
  node; \<open>None\<close> where a node of that kind has no such field.\<close>

fun typesField :: "TypeModel \<Rightarrow> TypeModel list option" where
  "typesField (TypeModelRef ts n e) = Some ts"
| "typesField (TypeModelFunction ts ps r c) = Some ts"
| "typesField (TypeModelConstructor ts ps r c) = Some ts"
| "typesField (TypeModelUnion ts) = Some ts"
| "typesField (TypeModelIntersection ts) = Some ts"
| "typesField (TypeModelTuple ts) = Some ts"
| "typesField (TypeModelInterface es c ps ts m) = Some ts"
| "typesField (TypeModelClass es c ps ts m is) = Some ts"
| "typesField (TypeModelAlias c ts ch) = Some ts"
| "typesField _ = None"

fun propsField :: "TypeModel \<Rightarrow> TypeModel list option" where
  "propsField (TypeModelInterface es c ps ts m) = Some ps"
| "propsField (TypeModelClass es c ps ts m is) = Some ps"
| "propsField _ = None"

fun extendsField :: "TypeModel \<Rightarrow> TypeModel list option" where
  "extendsField (TypeModelInterface es c ps ts m) = Some es"
| "extendsField (TypeModelClass es c ps ts m is) = Some es"
| "extendsField _ = None"

fun refNameField :: "TypeModel \<Rightarrow> string option" where
  "refNameField (TypeModelRef ts n e) = n"
| "refNameField _ = None"

fun externalField :: "TypeModel \<Rightarrow> addr option" where
  "externalField (TypeModelRef ts n e) = e"
| "externalField _ = None"

fun idField :: "TypeModel \<Rightarrow> nat option" where
  "idField (TypeModelProp n m i opt c v) = i"
| "idField _ = None"

section \<open>The visitor's context and its effects\<close>

text \<open>
  \<^verbatim>\<open>context.refs\<close> is the registry: a JavaScript object used as a dictionary from a
  name to a node. \<open>refs\<close> holds the object's own entries; a name can be present with the
  value \<^verbatim>\<open>undefined\<close> (\<open>Some NoNode\<close>).
\<close>

record DeclVisitorContext =
  refs :: "string \<rightharpoonup> TypeModel"
  availableImports :: "string list"
  usedImports :: "string list"

text \<open>
  The registry is an ordinary object, so besides its own entries it has the keys that
  every object inherits from \<^verbatim>\<open>Object.prototype\<close>. \<^verbatim>\<open>name in context.refs\<close> is true for
  an inherited key and for an own entry: \<open>hasKey\<close>. The value that \<^verbatim>\<open>context.refs[name]\<close> reads for an inherited key is a
  function of the prototype (the prototype itself for \<^verbatim>\<open>__proto__\<close>), which has no
  \<^verbatim>\<open>kind\<close>, \<^verbatim>\<open>types\<close>, \<^verbatim>\<open>props\<close> or \<^verbatim>\<open>extends\<close>: where the visitor reads these fields of an
  entry, an inherited key behaves as an absent one.
\<close>

definition objectPrototypeKeys :: "string list" where
  "objectPrototypeKeys =
     [''constructor'', ''__defineGetter__'', ''__defineSetter__'', ''hasOwnProperty'',
      ''__lookupGetter__'', ''__lookupSetter__'', ''isPrototypeOf'', ''propertyIsEnumerable'',
      ''toString'', ''valueOf'', ''__proto__'', ''toLocaleString'']"

definition hasKey :: "DeclVisitorContext \<Rightarrow> string \<Rightarrow> bool" where
  "hasKey c name \<longleftrightarrow> name \<in> set objectPrototypeKeys \<or> refs c name \<noteq> None"

text \<open>
  A function of the visitor reads and updates the context and either returns a value
  or throws (a \<^verbatim>\<open>TypeError\<close> on a field of \<^verbatim>\<open>undefined\<close>) or, in the model, runs out
  of the fuel that bounds the depth of its recursion: \<open>None\<close>.
\<close>

type_synonym 'a visit = "DeclVisitorContext \<Rightarrow> ('a \<times> DeclVisitorContext) option"

definition returnM :: "'a \<Rightarrow> 'a visit" where
  "returnM x = (\<lambda>c. Some (x, c))"

definition throwM :: "'a visit" where
  "throwM = (\<lambda>c. None)"

definition bindM :: "'a visit \<Rightarrow> ('a \<Rightarrow> 'b visit) \<Rightarrow> 'b visit" where
  "bindM m f = (\<lambda>c. case m c of None \<Rightarrow> None | Some (x, c') \<Rightarrow> f x c')"

definition getContext :: "DeclVisitorContext visit" where
  "getContext = (\<lambda>c. Some (c, c))"

text \<open>\<^verbatim>\<open>context.refs[name] = node\<close>\<close>

definition setRef :: "string \<Rightarrow> TypeModel \<Rightarrow> unit visit" where
  "setRef name node = (\<lambda>c. Some ((), c\<lparr>refs := (refs c)(name \<mapsto> node)\<rparr>))"

text \<open>Reading a field of a value that may be \<^verbatim>\<open>undefined\<close>: a \<^verbatim>\<open>TypeError\<close> when it is.\<close>

definition deref :: "'a option \<Rightarrow> 'a visit" where
  "deref x = (case x of None \<Rightarrow> throwM | Some v \<Rightarrow> returnM v)"

text \<open>\<^verbatim>\<open>xs.map(x => f(context, x))\<close>: left to right, each call in the context the one
  before left.\<close>

fun mapM :: "('a \<Rightarrow> 'b visit) \<Rightarrow> 'a list \<Rightarrow> 'b list visit" where
  "mapM f [] = returnM []"
| "mapM f (x # xs) = bindM (f x) (\<lambda>y. bindM (mapM f xs) (\<lambda>ys. returnM (y # ys)))"

text \<open>\<^verbatim>\<open>a ?? b\<close> on nodes: \<open>b\<close> is evaluated only when \<open>a\<close> is \<^verbatim>\<open>undefined\<close>.\<close>

definition orElse :: "TypeModel visit \<Rightarrow> TypeModel visit \<Rightarrow> TypeModel visit" where
  "orElse a b = bindM a (\<lambda>r. if r = NoNode then b else returnM r)"

text \<open>JavaScript's truth of a number or \<^verbatim>\<open>undefined\<close>, of a string or \<^verbatim>\<open>undefined\<close>, and
  \<^verbatim>\<open>a || b\<close> on identity ids.\<close>

definition truthyId :: "nat option \<Rightarrow> bool" where
  "truthyId i = (case i of None \<Rightarrow> False | Some n \<Rightarrow> n \<noteq> 0)"

definition truthyString :: "string option \<Rightarrow> bool" where
  "truthyString s = (case s of None \<Rightarrow> False | Some t \<Rightarrow> t \<noteq> [])"

definition orId :: "nat option \<Rightarrow> nat option \<Rightarrow> nat option" where
  "orId a b = (if truthyId a then a else b)"

text \<open>A property key: \<^verbatim>\<open>undefined\<close> as a key is the string \<^verbatim>\<open>"undefined"\<close>.\<close>

definition propertyKey :: "string option \<Rightarrow> string" where
  "propertyKey n = (case n of None \<Rightarrow> ''undefined'' | Some s \<Rightarrow> s)"

text \<open>\<^verbatim>\<open>symbol?.declarations?.[0]\<close>\<close>

definition firstDeclaration :: "Symbol option \<Rightarrow> addr option" where
  "firstDeclaration s =
     (case s of None \<Rightarrow> None
      | Some sy \<Rightarrow> (case declarations sy of None \<Rightarrow> None | Some ds \<Rightarrow>
          (case ds of [] \<Rightarrow> None | d # _ \<Rightarrow> Some d)))"

text \<open>\<^verbatim>\<open>symbol.declarations[0]\<close>: throws when there is no \<^verbatim>\<open>declarations\<close> array, and is
  \<^verbatim>\<open>undefined\<close> when the array is empty.\<close>

definition declarations0 :: "Symbol \<Rightarrow> addr option visit" where
  "declarations0 sy =
     (case declarations sy of None \<Rightarrow> throwM
      | Some ds \<Rightarrow> returnM (case ds of [] \<Rightarrow> None | d # _ \<Rightarrow> Some d))"

text \<open>The type class's methods \<^verbatim>\<open>isStringLiteral\<close>, \<^verbatim>\<open>isNumberLiteral\<close>, \<^verbatim>\<open>isUnion\<close> and
  \<^verbatim>\<open>isIntersection\<close> test one flag each.\<close>

definition isStringLiteral :: "Obj \<Rightarrow> bool" where
  "isStringLiteral t = hasFlag (flags t) TypeFlags_StringLiteral"

definition isNumberLiteral :: "Obj \<Rightarrow> bool" where
  "isNumberLiteral t = hasFlag (flags t) TypeFlags_NumberLiteral"

definition isUnion :: "Obj \<Rightarrow> bool" where
  "isUnion t = hasFlag (flags t) TypeFlags_Union"

definition isIntersection :: "Obj \<Rightarrow> bool" where
  "isIntersection t = hasFlag (flags t) TypeFlags_Intersection"


section \<open>The visitor\<close>

text \<open>
  The functions of \<^verbatim>\<open>visit.ts\<close> call each other in cycles, and a walk need not end
  (the oracle's objects may be cyclic). Every cycle of calls goes through
  \<^verbatim>\<open>includeType\<close>, \<^verbatim>\<open>getTypeModel\<close> or \<^verbatim>\<open>includeAnonymous\<close>; a function below takes
  these three as its argument \<open>rec\<close>, and \<open>run\<close> at the end ties the knot with fuel
  that bounds the depth of these calls.
\<close>

datatype call =
    CIncludeType addr
  | CGetTypeModel addr "string option"
  | CIncludeAnonymous addr

type_synonym recur = "call \<Rightarrow> TypeModel visit"

definition getTypeArguments :: "TypeChecker \<Rightarrow> recur \<Rightarrow> addr \<Rightarrow> TypeModel list visit" where
  "getTypeArguments ck rec t =
     (case typeArguments (object ck t) of
        None \<Rightarrow> returnM []
      | Some ts \<Rightarrow> mapM (\<lambda>a. rec (CIncludeType a)) ts)"

definition getDefaultTypeId :: "TypeChecker \<Rightarrow> addr \<Rightarrow> nat option" where
  "getDefaultTypeId ck t =
     (case firstDeclaration (symbol (object ck t)) of
        None \<Rightarrow> None
      | Some decl \<Rightarrow>
          (case obj_default (object ck decl) of
             None \<Rightarrow> None
           | Some defaultNode \<Rightarrow> obj_id (object ck (getTypeAtLocation ck (Some defaultNode)))))"

fun joinLines :: "string list \<Rightarrow> string" where
  "joinLines [] = []"
| "joinLines [x] = x"
| "joinLines (x # y # ys) = x @ [CHR 0x0A] @ joinLines (y # ys)"

definition getComment :: "Symbol option \<Rightarrow> string option" where
  "getComment s = map_option (\<lambda>sy. joinLines (documentationComment sy)) s"

text \<open>\<^verbatim>\<open>while (types.length > maxTypes) types.pop()\<close>\<close>

function popWhileLonger :: "nat \<Rightarrow> 'a list \<Rightarrow> 'a list" where
  "popWhileLonger maxTypes ts =
     (if length ts > maxTypes then popWhileLonger maxTypes (butlast ts) else ts)"
  by pat_completeness auto
termination
  by (relation "measure (\<lambda>(m, ts). length ts)") auto

text \<open>\<^verbatim>\<open>ids[i]\<close>: \<^verbatim>\<open>undefined\<close> beyond the end of the array.\<close>

definition idAt :: "nat option list \<Rightarrow> nat \<Rightarrow> nat option" where
  "idAt ids i = (if i < length ids then ids ! i else None)"

text \<open>\<^verbatim>\<open>for (let i = n; i--; )\<close> with \<open>n\<close> the first argument: the body runs at
  \<open>n - 1\<close>, then \<open>n - 2\<close>, down to \<open>0\<close>, unless it breaks.\<close>

primrec popDefaults :: "nat \<Rightarrow> nat option list \<Rightarrow> nat option list \<Rightarrow> 'a list \<Rightarrow> 'a list" where
  "popDefaults 0 typeParameterIds typeArgumentIds ts = ts"
| "popDefaults (Suc i) typeParameterIds typeArgumentIds ts =
     (let ident = idAt typeParameterIds i in
      if \<not> truthyId ident \<or> ident \<noteq> idAt typeArgumentIds i then ts
      else popDefaults i typeParameterIds typeArgumentIds (butlast ts))"

definition MAX_SAFE_INTEGER :: nat where
  "MAX_SAFE_INTEGER = 9007199254740991"

text \<open>The three constants that \<^verbatim>\<open>normalizeTypeParameters\<close> computes first.\<close>

definition maxTypes :: "DeclVisitorContext \<Rightarrow> string option \<Rightarrow> nat" where
  "maxTypes context refName =
     (case refs context (propertyKey refName) of
        None \<Rightarrow> MAX_SAFE_INTEGER
      | Some node \<Rightarrow>
          (case typesField node of None \<Rightarrow> MAX_SAFE_INTEGER | Some nts \<Rightarrow> length nts))"

definition typeParameterIds :: "TypeChecker \<Rightarrow> addr option \<Rightarrow> nat option list" where
  "typeParameterIds ck decl =
     (case Option.bind decl (\<lambda>d. typeParameters (object ck d)) of
        None \<Rightarrow> []
      | Some ps \<Rightarrow> map (getDefaultTypeId ck) ps)"

definition typeArgumentIds :: "TypeChecker \<Rightarrow> addr \<Rightarrow> nat option list" where
  "typeArgumentIds ck t =
     (case aliasTypeArguments (object ck t) of
        Some targs \<Rightarrow> map (\<lambda>a. obj_id (object ck a)) targs
      | None \<Rightarrow>
          (case typeArguments (object ck t) of
             Some targs \<Rightarrow> map (\<lambda>a. obj_id (object ck a)) targs
           | None \<Rightarrow> []))"

definition normalizeTypeParameters ::
  "TypeChecker \<Rightarrow> DeclVisitorContext \<Rightarrow> addr \<Rightarrow> addr option \<Rightarrow> TypeModel list \<Rightarrow> string option
     \<Rightarrow> TypeModel list" where
  "normalizeTypeParameters ck context t decl ts refName =
     popDefaults (length (typeParameterIds ck decl)) (typeParameterIds ck decl)
       (typeArgumentIds ck t) (popWhileLonger (maxTypes context refName) ts)"

definition includeRef ::
  "TypeChecker \<Rightarrow> recur \<Rightarrow> addr \<Rightarrow> string option \<Rightarrow> addr option \<Rightarrow> TypeModel visit" where
  "includeRef ck rec t refName external =
     bindM (case symbol (object ck t) of None \<Rightarrow> returnM None | Some sy \<Rightarrow> declarations0 sy)
       (\<lambda>decl.
     bindM (getTypeArguments ck rec t) (\<lambda>ts.
     bindM getContext (\<lambda>context.
     returnM (TypeModelRef (normalizeTypeParameters ck context t decl ts refName)
                refName external))))"

definition getKeyOfType :: "recur \<Rightarrow> addr \<Rightarrow> TypeModel visit" where
  "getKeyOfType rec t =
     bindM (rec (CIncludeType t)) (\<lambda>v. returnM (TypeModelPrefix ''keyof'' v))"

definition getUnion :: "recur \<Rightarrow> addr list \<Rightarrow> TypeModel visit" where
  "getUnion rec ts =
     bindM (mapM (\<lambda>a. rec (CIncludeType a)) ts) (\<lambda>vs. returnM (TypeModelUnion vs))"

definition includeNode :: "TypeChecker \<Rightarrow> Helpers \<Rightarrow> recur \<Rightarrow> addr option \<Rightarrow> TypeModel visit" where
  "includeNode ck hp rec node =
     (if isKeyOfType hp node then
        bindM (deref node) (\<lambda>n.
        getKeyOfType rec (getTypeFromTypeNode ck (obj_type (object ck n))))
      else if isUnionType hp node then
        bindM (deref node) (\<lambda>n.
        bindM (deref (types (object ck n))) (\<lambda>ts.
        getUnion rec (map (\<lambda>a. getTypeFromTypeNode ck (Some a)) ts)))
      else returnM NoNode)"

definition includeHiddenAnonymous ::
  "TypeChecker \<Rightarrow> Helpers \<Rightarrow> recur \<Rightarrow> addr \<Rightarrow> TypeModel visit" where
  "includeHiddenAnonymous ck hp rec t =
     (let sy = symbol (object ck t); name = map_option symbol_name sy in
      if isAnonymous hp name then
        (let par = Option.bind (firstDeclaration sy) (\<lambda>d. parent (object ck d));
             hiddenType =
               Option.bind par (\<lambda>p.
               Option.bind (obj_type (object ck p)) (\<lambda>a.
               Option.bind (parent (object ck a)) (\<lambda>b.
               Option.bind (parent (object ck b)) (\<lambda>c. parent (object ck c)))))
         in if isHiddenAnonymousType hp hiddenType then
              (case hiddenType of
                 None \<Rightarrow> returnM NoNode
               | Some h \<Rightarrow>
                   if truthyString (map_option symbol_name (symbol (object ck h)))
                   then rec (CIncludeType h) else returnM NoNode)
            else returnM NoNode)
      else returnM NoNode)"

text \<open>\<^verbatim>\<open>createBinding(context, lib, name)\<close>, the one helper with an effect.\<close>

definition createBindingM :: "Helpers \<Rightarrow> string \<Rightarrow> string option \<Rightarrow> string visit" where
  "createBindingM hp lib name =
     (\<lambda>c. case createBinding hp (usedImports c) lib name of
             (b, used) \<Rightarrow> Some (b, c\<lparr>usedImports := used\<rparr>))"

definition includeExternal :: "TypeChecker \<Rightarrow> Helpers \<Rightarrow> recur \<Rightarrow> addr \<Rightarrow> TypeModel visit" where
  "includeExternal ck hp rec t =
     (let sy = symbol (object ck t) in
      if isGlobal hp sy then includeRef ck rec t (Some (getGlobalName hp sy)) None
      else
        (let name = map_option symbol_name sy;
             fn = Option.bind (Option.bind (firstDeclaration sy) (\<lambda>d. parent (object ck d)))
                    (\<lambda>p. sourceFileName (object ck p))
         in if isBaseLib hp fn then includeRef ck rec t name (Some t)
            else
              bindM getContext (\<lambda>context.
              (case getLib hp fn (availableImports context) of
                 None \<Rightarrow> returnM NoNode
               | Some lib \<Rightarrow>
                   if lib = [] then returnM NoNode
                   else if isAnonymous hp name then includeHiddenAnonymous ck hp rec t
                   else if \<not> isAnonymousObject hp t then
                     bindM (createBindingM hp lib name) (\<lambda>b.
                     includeRef ck rec t (Some b) (Some t))
                   else returnM NoNode))))"

definition includeConstraint :: "TypeChecker \<Rightarrow> Helpers \<Rightarrow> recur \<Rightarrow> addr \<Rightarrow> TypeModel visit" where
  "includeConstraint ck hp rec t =
     bindM (deref (symbol (object ck t))) (\<lambda>sy.
     (let decl = firstDeclaration (Some sy);
          c = Option.bind decl (\<lambda>d. constraint (object ck d))
      in if isKeyOfType hp c then
           bindM (deref c) (\<lambda>cn.
           getKeyOfType rec (getTypeAtLocation ck (obj_type (object ck cn))))
         else
           (case c of
              Some cn \<Rightarrow> rec (CIncludeType (getTypeAtLocation ck c))
            | None \<Rightarrow>
                (case (if isTypeObject (object ck t) then baseConstraint (object ck t) else None) of
                   Some ct \<Rightarrow> rec (CIncludeType ct)
                 | None \<Rightarrow> returnM NoNode))))"

definition includeDefaultTypeArgument :: "TypeChecker \<Rightarrow> recur \<Rightarrow> addr \<Rightarrow> TypeModel visit" where
  "includeDefaultTypeArgument ck rec t =
     bindM (deref (symbol (object ck t))) (\<lambda>sy.
     (case Option.bind (firstDeclaration (Some sy)) (\<lambda>d. obj_default (object ck d)) of
        Some defaultNode \<Rightarrow> rec (CIncludeType (getTypeAtLocation ck (Some defaultNode)))
      | None \<Rightarrow> returnM NoNode))"

definition includeTypeParameter ::
  "TypeChecker \<Rightarrow> Helpers \<Rightarrow> recur \<Rightarrow> addr \<Rightarrow> TypeModel visit" where
  "includeTypeParameter ck hp rec t =
     (case symbol (object ck t) of
        Some sy \<Rightarrow>
          bindM (includeConstraint ck hp rec t) (\<lambda>c.
          bindM (includeDefaultTypeArgument ck rec t) (\<lambda>d.
          returnM (TypeModelTypeParameter (TypeModelRef [] (Some (symbol_name sy)) None) c d)))
      | None \<Rightarrow> returnM NoNode)"

text \<open>\<^verbatim>\<open>getTypeParameters(context, x)\<close> reads \<^verbatim>\<open>x.typeParameters\<close> of a type, a
  declaration or a signature; its argument here is that field.\<close>

definition getTypeParameters ::
  "TypeChecker \<Rightarrow> Helpers \<Rightarrow> recur \<Rightarrow> addr list option \<Rightarrow> TypeModel list visit" where
  "getTypeParameters ck hp rec tps =
     (case tps of None \<Rightarrow> returnM [] | Some ts \<Rightarrow> mapM (includeTypeParameter ck hp rec) ts)"

definition includeAnonymousNode ::
  "TypeChecker \<Rightarrow> Helpers \<Rightarrow> recur \<Rightarrow> addr option \<Rightarrow> TypeModel visit" where
  "includeAnonymousNode ck hp rec node =
     orElse (includeNode ck hp rec node) (rec (CIncludeAnonymous (getTypeFromTypeNode ck node)))"

definition getParameterType ::
  "TypeChecker \<Rightarrow> Helpers \<Rightarrow> recur \<Rightarrow> addr option \<Rightarrow> TypeModel visit" where
  "getParameterType ck hp rec node =
     (if isIdentifierType hp node then
        bindM (deref node) (\<lambda>n.
        rec (CGetTypeModel (getTypeAtLocation ck node) (typeName_text (object ck n))))
      else if isInferType hp node then
        bindM (deref node) (\<lambda>n.
        bindM (deref (typeParameter (object ck n))) (\<lambda>tp.
        bindM (rec (CIncludeType (getDeclaredTypeOfSymbol ck (symbol (object ck tp))))) (\<lambda>p.
        returnM (TypeModelInfer p))))
      else includeAnonymousNode ck hp rec node)"

definition getFunctionParameter ::
  "TypeChecker \<Rightarrow> Helpers \<Rightarrow> recur \<Rightarrow> Symbol option \<Rightarrow> TypeModel visit" where
  "getFunctionParameter ck hp rec param =
     bindM (deref param) (\<lambda>p.
     bindM (deref (valueDeclaration p)) (\<lambda>vd.
     bindM (getParameterType ck hp rec (obj_type (object ck vd))) (\<lambda>v.
     returnM (TypeModelFunctionParameter (symbol_name p) []
                (dotDotDotToken (object ck vd)) (questionToken (object ck vd)) v))))"

definition getFunctionParameters ::
  "TypeChecker \<Rightarrow> Helpers \<Rightarrow> recur \<Rightarrow> Symbol option list \<Rightarrow> TypeModel list visit" where
  "getFunctionParameters ck hp rec params = mapM (getFunctionParameter ck hp rec) params"

text \<open>The fields of the \<^verbatim>\<open>function\<close> node that \<^verbatim>\<open>getFunctionType\<close> builds, which
  \<^verbatim>\<open>getConstructorTypes\<close> copies under the tag \<^verbatim>\<open>constructor\<close>.\<close>

definition getFunctionFields ::
  "TypeChecker \<Rightarrow> Helpers \<Rightarrow> recur \<Rightarrow> Signature
     \<Rightarrow> (TypeModel list \<times> TypeModel list \<times> TypeModel) visit" where
  "getFunctionFields ck hp rec sign =
     bindM (getTypeParameters ck hp rec (sig_typeParameters sign)) (\<lambda>ts.
     bindM (getFunctionParameters ck hp rec (map Some (sig_parameters sign))) (\<lambda>ps.
     bindM (rec (CIncludeType (sig_returnType sign))) (\<lambda>r.
     returnM (ts, ps, r))))"

definition getFunctionType ::
  "TypeChecker \<Rightarrow> Helpers \<Rightarrow> recur \<Rightarrow> Signature \<Rightarrow> TypeModel visit" where
  "getFunctionType ck hp rec sign =
     bindM (getFunctionFields ck hp rec sign) (\<lambda>(ts, ps, r).
     returnM (TypeModelFunction ts ps r None))"

definition getConstructorTypes ::
  "TypeChecker \<Rightarrow> Helpers \<Rightarrow> recur \<Rightarrow> addr \<Rightarrow> TypeModel list visit" where
  "getConstructorTypes ck hp rec t =
     (case getConstructors hp t of
        None \<Rightarrow> returnM []
      | Some ctors \<Rightarrow>
          mapM (\<lambda>ctor.
            bindM (deref (getSignatureFromDeclaration ck ctor)) (\<lambda>signature.
            bindM (getFunctionFields ck hp rec signature) (\<lambda>(ts, ps, r).
            returnM (TypeModelConstructor ts ps r None)))) ctors)"


definition getPropValue :: "TypeChecker \<Rightarrow> Helpers \<Rightarrow> recur \<Rightarrow> Symbol \<Rightarrow> TypeModel visit" where
  "getPropValue ck hp rec prop =
     bindM (declarations0 prop) (\<lambda>d0.
     bindM (deref d0) (\<lambda>decl.
     bindM (orElse (includeNode ck hp rec (obj_type (object ck decl)))
              (rec (CIncludeType (getTypeOfSymbolAtLocation ck prop decl)))) (\<lambda>ty.
     if kind (object ck decl) = Some MethodSignature then
       bindM (getFunctionParameters ck hp rec
                (map (\<lambda>p. symbol (object ck p)) (parameters (object ck decl)))) (\<lambda>ps.
       bindM (getTypeParameters ck hp rec (typeParameters (object ck decl))) (\<lambda>ts.
       returnM (TypeModelFunction ts ps ty None)))
     else returnM ty)))"

definition propId :: "Symbol \<Rightarrow> nat option" where
  "propId prop = orId (symbol_id prop) (symbol_target_id prop)"

definition getPropType :: "TypeChecker \<Rightarrow> Helpers \<Rightarrow> recur \<Rightarrow> Symbol \<Rightarrow> TypeModel visit" where
  "getPropType ck hp rec prop =
     bindM (getPropValue ck hp rec prop) (\<lambda>valueType.
     returnM (TypeModelProp (symbol_name prop) (getModifiers hp prop) (propId prop)
                (hasFlag (symbol_flags prop) SymbolFlags_Optional) (getComment (Some prop))
                valueType))"

definition getIndexType ::
  "Helpers \<Rightarrow> recur \<Rightarrow> addr \<Rightarrow> TypeModel \<Rightarrow> IndexInfo option \<Rightarrow> TypeModel visit" where
  "getIndexType hp rec t keyType info =
     bindM (rec (CIncludeType t)) (\<lambda>valueType.
     returnM (TypeModelIndex
                [TypeModelFunctionParameter (getKeyName hp info) [] False False keyType]
                False valueType))"

definition includeMember :: "TypeChecker \<Rightarrow> recur \<Rightarrow> addr \<Rightarrow> TypeModel visit" where
  "includeMember ck rec t =
     bindM (deref (symbol (object ck t))) (\<lambda>sy.
     bindM (rec (CIncludeAnonymous t)) (\<lambda>v.
     returnM (TypeMemberModel (symbol_name sy) v (getComment (Some sy)))))"

text \<open>\<^verbatim>\<open>type.isUnion()\<close> with no test that the method exists: a \<^verbatim>\<open>TypeError\<close> on an
  object that is not a type.\<close>

definition callIsUnion :: "Obj \<Rightarrow> bool option" where
  "callIsUnion ty = (if isTypeObject ty then Some (isUnion ty) else None)"

definition includeBasic :: "TypeChecker \<Rightarrow> Helpers \<Rightarrow> recur \<Rightarrow> addr \<Rightarrow> TypeModel visit" where
  "includeBasic ck hp rec t =
     (let ty = object ck t in
      if hasFlag (flags ty) TypeFlags_Any then returnM (TypeModelBasic ''any'')
      else if hasFlag (flags ty) TypeFlags_Unknown then returnM (TypeModelBasic ''unknown'')
      else if isTypeObject ty \<and> isStringLiteral ty then returnM (TypeModelLiteral (obj_value ty))
      else if isTypeObject ty \<and> isNumberLiteral ty then returnM (TypeModelLiteral (obj_value ty))
      else if hasFlag (flags ty) TypeFlags_BooleanLiteral then
        returnM (TypeModelLiteral (VBoolean (intrinsicName ty = Some ''true'')))
      else
      (case (if hasFlag (flags ty) TypeFlags_EnumLiteral then callIsUnion ty else Some False) of
         None \<Rightarrow> throwM
       | Some True \<Rightarrow>
           bindM (deref (symbol ty)) (\<lambda>sy.
           bindM (deref (types ty)) (\<lambda>ms.
           bindM (mapM (includeMember ck rec) ms) (\<lambda>vs.
           returnM (TypeModelEnumLiteral (symbol_flags sy = SymbolFlags_ConstEnum)
                      (getComment (Some sy)) vs))))
       | Some False \<Rightarrow>
      (case (if hasFlag (flags ty) TypeFlags_Enum then callIsUnion ty else Some False) of
         None \<Rightarrow> throwM
       | Some True \<Rightarrow>
           bindM (deref (types ty)) (\<lambda>ms.
           bindM (mapM (includeMember ck rec) ms) (\<lambda>vs.
           returnM (TypeModelEnum (getComment (symbol ty)) vs)))
       | Some False \<Rightarrow>
      if isBigIntLiteral hp t then returnM (TypeModelBigIntLiteral (obj_value ty))
      else if hasFlag (flags ty) TypeFlags_String then returnM (TypeModelBasic ''string'')
      else if hasFlag (flags ty) TypeFlags_Boolean then returnM (TypeModelBasic ''boolean'')
      else if hasFlag (flags ty) TypeFlags_Number then returnM (TypeModelBasic ''number'')
      else if hasFlag (flags ty) TypeFlags_BigInt then returnM (TypeModelBasic ''bigint'')
      else if hasFlag (flags ty) TypeFlags_ESSymbol then returnM (TypeModelBasic ''esSymbol'')
      else if hasFlag (flags ty) TypeFlags_UniqueESSymbol then
        returnM (TypeModelBasic ''uniqueEsSymbol'')
      else if hasFlag (flags ty) TypeFlags_Void then returnM (TypeModelBasic ''void'')
      else if hasFlag (flags ty) TypeFlags_Undefined then returnM (TypeModelBasic ''undefined'')
      else if hasFlag (flags ty) TypeFlags_Null then returnM (TypeModelBasic ''null'')
      else if hasFlag (flags ty) TypeFlags_Never then returnM (TypeModelBasic ''never'')
      else if isConditionalType hp t then
        bindM (deref (root ty)) (\<lambda>r.
        bindM (rec (CIncludeType (extendsType r))) (\<lambda>e.
        bindM (rec (CIncludeType (checkType r))) (\<lambda>c.
        bindM (rec (CIncludeType (trueType r))) (\<lambda>p.
        bindM (rec (CIncludeType (falseType r))) (\<lambda>a.
        returnM (TypeModelConditional e c p a))))))
      else if isSubstitutionType hp t then
        bindM (deref (typeVariable ty)) (\<lambda>tv.
        bindM (rec (CIncludeType tv)) (\<lambda>v.
        returnM (TypeModelSubstitution v)))
      else if hasFlag (flags ty) TypeFlags_NonPrimitive then
        returnM (TypeModelNonPrimitive (intrinsicName ty))
      else returnM NoNode)))"

text \<open>One entry of a heritage clause, the callback of \<^verbatim>\<open>type.types?.map\<close> in
  \<^verbatim>\<open>includeInheritedTypes\<close>.\<close>

definition heritageItem :: "TypeChecker \<Rightarrow> recur \<Rightarrow> addr \<Rightarrow> TypeModel visit" where
  "heritageItem ck rec tn =
     (let ti = getTypeAtLocation ck (Some tn) in
      bindM (rec (CIncludeType ti)) (\<lambda>res.
      if res = NoNode then throwM
      else if kindOf res \<noteq> ''ref'' then
        bindM (deref (expression (object ck tn))) (\<lambda>e.
        if kind (object ck e) = Some Identifier
        then returnM (TypeModelRef [] (Some (obj_text (object ck e))) (Some ti))
        else returnM res)
      else returnM res))"

text \<open>The loop over the heritage clauses; the pair is \<^verbatim>\<open>result.extends\<close> and
  \<^verbatim>\<open>result.implements\<close>.\<close>

fun heritageLoop ::
  "TypeChecker \<Rightarrow> recur \<Rightarrow> HeritageClause list \<Rightarrow> TypeModel list \<times> TypeModel list
     \<Rightarrow> (TypeModel list \<times> TypeModel list) visit" where
  "heritageLoop ck rec [] result = returnM result"
| "heritageLoop ck rec (cl # cls) result =
     bindM (case clause_types cl of
              None \<Rightarrow> returnM []
            | Some ts \<Rightarrow> mapM (heritageItem ck rec) ts) (\<lambda>items.
     heritageLoop ck rec cls
       (if token cl = ExtendsKeyword then (fst result @ items, snd result)
        else if token cl = ImplementsKeyword then (fst result, snd result @ items)
        else result))"

definition includeInheritedTypes ::
  "TypeChecker \<Rightarrow> recur \<Rightarrow> addr \<Rightarrow> (TypeModel list \<times> TypeModel list) visit" where
  "includeInheritedTypes ck rec t =
     (case firstDeclaration (symbol (object ck t)) of
        None \<Rightarrow> returnM ([], [])
      | Some decl \<Rightarrow>
          if kind (object ck decl) = Some InterfaceDeclaration
             \<or> kind (object ck decl) = Some ClassDeclaration
          then heritageLoop ck rec
                 (case heritageClauses (object ck decl) of None \<Rightarrow> [] | Some cls \<Rightarrow> cls)
                 ([], [])
          else returnM ([], []))"

definition allowedBaseTypes :: "string list" where
  "allowedBaseTypes = [''object'', ''class'']"

text \<open>\<^verbatim>\<open>isClassOrObject(context.refs[name])\<close>: the argument is the registry's entry,
  absent or \<^verbatim>\<open>undefined\<close> or a node.\<close>

definition isClassOrObject :: "TypeModel option \<Rightarrow> bool" where
  "isClassOrObject entry =
     (case entry of
        None \<Rightarrow> False
      | Some node \<Rightarrow> node \<noteq> NoNode \<and> kindOf node \<in> set allowedBaseTypes)"

text \<open>Running a loop body that may throw over a list and appending what it pushes.\<close>

fun pushAll :: "('a \<Rightarrow> 'b list option) \<Rightarrow> 'a list \<Rightarrow> 'b list option" where
  "pushAll f [] = Some []"
| "pushAll f (x # xs) =
     (case f x of
        None \<Rightarrow> None
      | Some ys \<Rightarrow> (case pushAll f xs of None \<Rightarrow> None | Some zs \<Rightarrow> Some (ys @ zs)))"

text \<open>\<^verbatim>\<open>getAllPropIds\<close> reads the registry and calls itself on a registered base's own
  \<^verbatim>\<open>extends\<close>; the first argument bounds the depth of that recursion, and \<open>None\<close> is a
  \<^verbatim>\<open>TypeError\<close> or the end of the fuel.\<close>

primrec getAllPropIds ::
  "nat \<Rightarrow> TypeChecker \<Rightarrow> DeclVisitorContext \<Rightarrow> TypeModel list \<Rightarrow> nat option list option" where
  "getAllPropIds 0 ck context ts = None"
| "getAllPropIds (Suc n) ck context ts =
     pushAll (\<lambda>ty.
       if ty = NoNode then None
       else
         (let baseType = refs context (propertyKey (refNameField ty)) in
          if isClassOrObject baseType then
            (case Option.bind baseType propsField of
               None \<Rightarrow> None
             | Some props \<Rightarrow>
                 (case pushAll (\<lambda>prop. if prop = NoNode then None
                                  else if truthyId (idField prop) then Some [idField prop]
                                  else Some []) props of
                    None \<Rightarrow> None
                  | Some own \<Rightarrow>
                      (case Option.bind baseType extendsField of
                         None \<Rightarrow> None
                       | Some exts \<Rightarrow>
                           (case getAllPropIds n ck context exts of
                              None \<Rightarrow> None
                            | Some inh \<Rightarrow> Some (own @ inh)))))
          else
            (case externalField ty of
               None \<Rightarrow> Some []
             | Some e \<Rightarrow>
                 if isTypeObject (object ck e)
                 then Some (map propId
                        (case properties (object ck e) of None \<Rightarrow> [] | Some ps \<Rightarrow> ps))
                 else None))) ts"

text \<open>\<^verbatim>\<open>inherited.some(m => m.external?.getNumberIndexType() === indexType)\<close>, and the
  same for the string index type: \<open>getter\<close> is the method, and two types are the
  same object when their addresses are equal.\<close>

fun someInheritedIndex ::
  "TypeChecker \<Rightarrow> (Obj \<Rightarrow> addr option) \<Rightarrow> addr \<Rightarrow> TypeModel list \<Rightarrow> bool option" where
  "someInheritedIndex ck getter ixType [] = Some False"
| "someInheritedIndex ck getter ixType (m # ms) =
     (if m = NoNode then None
      else
        (case externalField m of
           None \<Rightarrow> someInheritedIndex ck getter ixType ms
         | Some e \<Rightarrow>
             if \<not> isTypeObject (object ck e) then None
             else if getter (object ck e) = Some ixType then Some True
             else someInheritedIndex ck getter ixType ms))"

text \<open>One of the two index-signature blocks of \<^verbatim>\<open>includeStandardObject\<close>: what it
  pushes onto \<^verbatim>\<open>propsDescriptor\<close>.\<close>

definition includeIndexSignature ::
  "TypeChecker \<Rightarrow> Helpers \<Rightarrow> recur \<Rightarrow> (Obj \<Rightarrow> addr option) \<Rightarrow> TypeModel \<Rightarrow> IndexInfo option
     \<Rightarrow> addr \<Rightarrow> TypeModel list \<Rightarrow> TypeModel list visit" where
  "includeIndexSignature ck hp rec getter keyType info t inherited =
     (case getter (object ck t) of
        None \<Rightarrow> returnM []
      | Some ixType \<Rightarrow>
          bindM (deref (someInheritedIndex ck getter ixType inherited)) (\<lambda>found.
          if found then returnM []
          else bindM (getIndexType hp rec ixType keyType info) (\<lambda>ix. returnM [ix])))"

text \<open>The fields of the \<^verbatim>\<open>interface\<close> node that \<^verbatim>\<open>includeStandardObject\<close> builds
  (extends, comment, props, types), which \<^verbatim>\<open>includeClassObject\<close> copies under the
  tag \<^verbatim>\<open>class\<close>. The natural number is the fuel of \<open>getAllPropIds\<close>.\<close>

definition standardObjectFields ::
  "TypeChecker \<Rightarrow> Helpers \<Rightarrow> recur \<Rightarrow> nat \<Rightarrow> addr
     \<Rightarrow> (TypeModel list \<times> string option \<times> TypeModel list \<times> TypeModel list) visit" where
  "standardObjectFields ck hp rec n t =
     (let ty = object ck t in
      bindM (includeInheritedTypes ck rec t) (\<lambda>inheritedTypes.
      (let inherited = fst inheritedTypes @ snd inheritedTypes in
       bindM getContext (\<lambda>context.
       bindM (deref (getAllPropIds n ck context inherited)) (\<lambda>targets.
       bindM (deref (if isTypeObject ty then properties ty else None)) (\<lambda>props.
       bindM (mapM (getPropType ck hp rec)
                (filter (\<lambda>prop. propId prop \<notin> set targets) props)) (\<lambda>own.
       bindM (includeIndexSignature ck hp rec numberIndexType (TypeModelBasic ''number'')
                (declaredNumberIndexInfo ty) t inherited) (\<lambda>numberIndex.
       bindM (includeIndexSignature ck hp rec stringIndexType (TypeModelBasic ''string'')
                (declaredStringIndexInfo ty) t inherited) (\<lambda>stringIndex.
       bindM (case callSignatures ty of
                None \<Rightarrow> returnM []
              | Some signs \<Rightarrow> mapM (getFunctionType ck hp rec) signs) (\<lambda>calls.
       bindM (getTypeParameters ck hp rec (typeParameters ty)) (\<lambda>tps.
       returnM (fst inheritedTypes, getComment (symbol ty),
                own @ numberIndex @ stringIndex @ calls, tps))))))))))))"

definition includeStandardObject ::
  "TypeChecker \<Rightarrow> Helpers \<Rightarrow> recur \<Rightarrow> nat \<Rightarrow> addr \<Rightarrow> TypeModel visit" where
  "includeStandardObject ck hp rec n t =
     bindM (standardObjectFields ck hp rec n t) (\<lambda>(ext, comment, props, tps).
     returnM (TypeModelInterface ext comment props tps NoNode))"

definition includeClassObject ::
  "TypeChecker \<Rightarrow> Helpers \<Rightarrow> recur \<Rightarrow> nat \<Rightarrow> addr \<Rightarrow> TypeModel visit" where
  "includeClassObject ck hp rec n t =
     bindM (standardObjectFields ck hp rec n t) (\<lambda>(ext, comment, props, tps).
     bindM (includeInheritedTypes ck rec t) (\<lambda>inheritedTypes.
     bindM (mapM (\<lambda>m. bindM (deref (valueDeclaration m)) (\<lambda>vd.
                       bindM (deref (symbol (object ck vd))) (getPropType ck hp rec)))
              (filter (\<lambda>m. symbol_flags m AND SymbolFlags_Prototype = 0)
                 (getExportsOfModule ck (symbol (object ck t))))) (\<lambda>statics.
     bindM (getConstructorTypes ck hp rec t) (\<lambda>ctors.
     returnM (TypeModelClass ext comment
                (props @ filter (\<lambda>m. m \<noteq> NoNode) statics @ ctors) tps NoNode
                (snd inheritedTypes))))))"

definition includeMappedObject ::
  "TypeChecker \<Rightarrow> Helpers \<Rightarrow> recur \<Rightarrow> addr \<Rightarrow> TypeModel visit" where
  "includeMappedObject ck hp rec t =
     (let ty = object ck t in
      bindM (deref (typeParameter ty)) (\<lambda>tp.
      bindM (deref (symbol (object ck tp))) (\<lambda>tpSymbol.
      bindM (declarations0 tpSymbol) (\<lambda>d0.
      bindM (deref d0) (\<lambda>d.
      bindM (deref (parent (object ck d))) (\<lambda>par.
      bindM (deref (symbol ty)) (\<lambda>sy.
      bindM (declarations0 sy) (\<lambda>e0.
      bindM (deref e0) (\<lambda>e.
      (let valueType = getTypeFromTypeNode ck (obj_type (object ck e)) in
       bindM (deref (typeParameter (object ck par))) (\<lambda>index.
       bindM (deref (symbol (object ck index))) (\<lambda>indexSymbol.
       bindM (includeConstraint ck hp rec index) (\<lambda>c.
       bindM (rec (CIncludeType valueType)) (\<lambda>v.
       returnM (TypeModelInterface [] (getComment (Some sy)) [] []
                  (TypeModelMapped (symbol_name indexSymbol) c
                     (questionToken (object ck par)) v))))))))))))))))"

definition includeObject ::
  "TypeChecker \<Rightarrow> Helpers \<Rightarrow> recur \<Rightarrow> nat \<Rightarrow> addr \<Rightarrow> TypeModel visit" where
  "includeObject ck hp rec n t =
     (if isObjectType hp t then
        (if objectFlags (object ck t) = Some ObjectFlags_Mapped
         then includeMappedObject ck hp rec t
         else if objectFlags (object ck t) = Some (ObjectFlags_Class OR ObjectFlags_Reference)
         then includeClassObject ck hp rec n t
         else includeStandardObject ck hp rec n t)
      else returnM NoNode)"

definition includeIndex :: "TypeChecker \<Rightarrow> recur \<Rightarrow> addr option \<Rightarrow> TypeModel visit" where
  "includeIndex ck rec t =
     (case t of
        None \<Rightarrow> returnM NoNode
      | Some a \<Rightarrow>
          if flags (object ck a) = TypeFlags_TypeParameter then rec (CIncludeType a)
          else if flags (object ck a) = TypeFlags_Index
          then bindM (deref (obj_type (object ck a))) (getKeyOfType rec)
          else returnM NoNode)"

definition includeCombinator ::
  "TypeChecker \<Rightarrow> Helpers \<Rightarrow> recur \<Rightarrow> addr \<Rightarrow> TypeModel visit" where
  "includeCombinator ck hp rec t =
     (let ty = object ck t in
      if isTupleType hp t then
        bindM (deref (typeArguments ty)) (\<lambda>elems.
        bindM (mapM (\<lambda>a. rec (CIncludeType a)) elems) (\<lambda>vs.
        returnM (TypeModelTuple vs)))
      else if isReferenceType hp t then
        bindM (deref (symbol ty)) (\<lambda>sy.
        bindM (getTypeArguments ck rec t) (\<lambda>ts.
        returnM (TypeModelRef ts (Some (symbol_name sy)) (Some t))))
      else if isTypeObject ty \<and> isUnion ty then
        bindM (deref (types ty)) (getUnion rec)
      else if isTypeObject ty \<and> isIntersection ty then
        bindM (deref (types ty)) (\<lambda>ms.
        bindM (mapM (\<lambda>a. rec (CIncludeType a)) ms) (\<lambda>vs.
        returnM (TypeModelIntersection vs)))
      else if isIndexType hp t then
        bindM (includeIndex ck rec (indexType ty)) (\<lambda>i.
        bindM (case objectType ty of
                 None \<Rightarrow> returnM NoNode
               | Some ob \<Rightarrow> rec (CIncludeType ob)) (\<lambda>ob.
        returnM (TypeModelIndexedAccess i ob)))
      else returnM NoNode)"

definition includeReference ::
  "TypeChecker \<Rightarrow> Helpers \<Rightarrow> recur \<Rightarrow> addr \<Rightarrow> TypeModel visit" where
  "includeReference ck hp rec t =
     (let ty = object ck t in
      if kind ty = Some TypeAliasDeclaration then
        bindM (getTypeParameters ck hp rec (typeParameters ty)) (\<lambda>ts.
        bindM (getParameterType ck hp rec (obj_type ty)) (\<lambda>child.
        returnM (TypeModelAlias (getComment (symbol ty)) ts child)))
      else returnM NoNode)"

definition includeNamed ::
  "TypeChecker \<Rightarrow> Helpers \<Rightarrow> recur \<Rightarrow> nat \<Rightarrow> addr \<Rightarrow> TypeModel visit" where
  "includeNamed ck hp rec n t =
     orElse (orElse (includeBasic ck hp rec t) (includeObject ck hp rec n t))
       (includeReference ck hp rec t)"

text \<open>The placeholder that \<^verbatim>\<open>makeRef\<close> and \<^verbatim>\<open>makeAliasRef\<close> store under a name before
  they build its node.\<close>

definition placeholder :: "string \<Rightarrow> TypeModel" where
  "placeholder name = TypeModelRef [] (Some name) None"

definition makeAliasRef ::
  "TypeChecker \<Rightarrow> Helpers \<Rightarrow> recur \<Rightarrow> addr \<Rightarrow> string \<Rightarrow> TypeModel visit" where
  "makeAliasRef ck hp rec t name =
     bindM (deref (aliasSymbol (object ck t))) (\<lambda>alias.
     bindM (declarations0 alias) (\<lambda>d0.
     bindM (deref d0) (\<lambda>decl.
     bindM (includeExternal ck hp rec decl) (\<lambda>ext.
     bindM (if ext \<noteq> NoNode \<and> kindOf ext = ''ref'' then returnM (refNameField ext)
            else
              bindM getContext (\<lambda>context.
              if \<not> hasKey context name then
                bindM (setRef name (placeholder name)) (\<lambda>_.
                bindM (case typeParameters (object ck decl) of
                         None \<Rightarrow> returnM []
                       | Some ps \<Rightarrow> mapM (includeTypeParameter ck hp rec) ps) (\<lambda>tps.
                bindM (rec (CIncludeAnonymous (getTypeAtLocation ck (Some decl)))) (\<lambda>child.
                bindM (setRef name
                         (TypeModelAlias (getComment (symbol (object ck decl))) tps child))
                  (\<lambda>_. returnM (Some name)))))
              else returnM (Some name))) (\<lambda>refName.
     bindM (case aliasTypeArguments (object ck t) of
              None \<Rightarrow> returnM []
            | Some targs \<Rightarrow> mapM (\<lambda>a. rec (CIncludeType a)) targs) (\<lambda>ts.
     bindM getContext (\<lambda>context.
     returnM (TypeModelRef (normalizeTypeParameters ck context t (Some decl) ts refName)
                refName None))))))))"

definition makeRef ::
  "TypeChecker \<Rightarrow> Helpers \<Rightarrow> recur \<Rightarrow> addr \<Rightarrow> string \<Rightarrow> (addr \<Rightarrow> TypeModel visit)
     \<Rightarrow> TypeModel visit" where
  "makeRef ck hp rec t name cb =
     bindM getContext (\<lambda>context.
     bindM (if \<not> hasKey context name then
              bindM (setRef name (placeholder name)) (\<lambda>_.
              bindM (if isObjectType hp t \<and> isReferenceType hp t
                     then deref (target (object ck t)) else returnM t) (\<lambda>t'.
              bindM (cb t') (\<lambda>node.
              setRef name node)))
            else returnM ()) (\<lambda>_.
     includeRef ck rec t (Some name) None))"

text \<open>The bodies of the three functions that the recursion goes through.\<close>

definition getTypeModelBody ::
  "TypeChecker \<Rightarrow> Helpers \<Rightarrow> recur \<Rightarrow> nat \<Rightarrow> addr \<Rightarrow> string option \<Rightarrow> TypeModel visit" where
  "getTypeModelBody ck hp rec n t name =
     (case name of
        None \<Rightarrow> rec (CIncludeAnonymous t)
      | Some nm \<Rightarrow>
          if nm = [] then rec (CIncludeAnonymous t)
          else if (case aliasSymbol (object ck t) of
                     None \<Rightarrow> False
                   | Some alias \<Rightarrow>
                       (case symbol (object ck t) of
                          None \<Rightarrow> True
                        | Some sy \<Rightarrow> symbol_id alias \<noteq> symbol_id sy))
          then makeAliasRef ck hp rec t nm
          else
            bindM (includeExternal ck hp rec t) (\<lambda>ext.
            if ext \<noteq> NoNode then returnM ext
            else if \<not> isAnonymous hp name \<and> \<not> isAnonymousObject hp t
            then makeRef ck hp rec t nm (includeNamed ck hp rec n)
            else rec (CIncludeAnonymous t)))"

definition includeTypeBody :: "TypeChecker \<Rightarrow> recur \<Rightarrow> addr \<Rightarrow> TypeModel visit" where
  "includeTypeBody ck rec t =
     (let ty = object ck t in
      if stringsOnly ty = Some False then
        bindM (deref (obj_type ty)) (\<lambda>a.
        bindM (rec (CIncludeType a)) (\<lambda>v.
        returnM (TypeModelPrefix ''keyof'' v)))
      else
        (let alias = map_option symbol_name (aliasSymbol ty) in
         rec (CGetTypeModel t
                (if truthyString alias then alias else map_option symbol_name (symbol ty)))))"

definition includeAnonymousBody ::
  "TypeChecker \<Rightarrow> Helpers \<Rightarrow> recur \<Rightarrow> nat \<Rightarrow> addr \<Rightarrow> TypeModel visit" where
  "includeAnonymousBody ck hp rec n t =
     orElse (orElse (orElse (orElse (includeBasic ck hp rec t) (includeCombinator ck hp rec t))
                       (includeHiddenAnonymous ck hp rec t))
               (includeObject ck hp rec n t))
       (returnM (TypeModelBasic ''unidentified''))"

definition visitBody :: "TypeChecker \<Rightarrow> Helpers \<Rightarrow> recur \<Rightarrow> nat \<Rightarrow> recur" where
  "visitBody ck hp rec n c =
     (case c of
        CIncludeType t \<Rightarrow> includeTypeBody ck rec t
      | CGetTypeModel t name \<Rightarrow> getTypeModelBody ck hp rec n t name
      | CIncludeAnonymous t \<Rightarrow> includeAnonymousBody ck hp rec n t)"

text \<open>The knot: \<open>run ck hp n\<close> answers the three calls with \<open>n\<close> levels of them to
  spend; with none left it does not return.\<close>

primrec run :: "TypeChecker \<Rightarrow> Helpers \<Rightarrow> nat \<Rightarrow> recur" where
  "run ck hp 0 = (\<lambda>c. throwM)"
| "run ck hp (Suc n) = visitBody ck hp (run ck hp n) n"

definition includeType :: "TypeChecker \<Rightarrow> Helpers \<Rightarrow> nat \<Rightarrow> addr \<Rightarrow> TypeModel visit" where
  "includeType ck hp n t = run ck hp n (CIncludeType t)"

definition getTypeModel ::
  "TypeChecker \<Rightarrow> Helpers \<Rightarrow> nat \<Rightarrow> addr \<Rightarrow> string option \<Rightarrow> TypeModel visit" where
  "getTypeModel ck hp n t name = run ck hp n (CGetTypeModel t name)"

definition includeAnonymous :: "TypeChecker \<Rightarrow> Helpers \<Rightarrow> nat \<Rightarrow> addr \<Rightarrow> TypeModel visit" where
  "includeAnonymous ck hp n t = run ck hp n (CIncludeAnonymous t)"

definition includeExportedType :: "TypeChecker \<Rightarrow> Helpers \<Rightarrow> nat \<Rightarrow> addr \<Rightarrow> unit visit" where
  "includeExportedType ck hp n t =
     bindM (deref (symbol (object ck t))) (\<lambda>sy.
     bindM (includeType ck hp n t) (\<lambda>node.
     if node = NoNode then throwM
     else if kindOf node \<noteq> ''ref'' then setRef (symbol_name sy) node
     else returnM ()))"

section \<open>The registry's frame\<close>

text \<open>
  A function of the visitor preserves the registry when every name that is registered
  before a call that returns is registered with the same node after it: the call adds
  names and changes none.
\<close>

definition preserves :: "'a visit \<Rightarrow> bool" where
  "preserves m \<longleftrightarrow> (\<forall>c x c'. m c = Some (x, c') \<longrightarrow> refs c \<subseteq>\<^sub>m refs c')"

text \<open>The statements of \<^verbatim>\<open>makeAliasRef\<close> under \<^verbatim>\<open>!(name in context.refs)\<close>, as one step.\<close>

definition registerAlias ::
  "TypeChecker \<Rightarrow> Helpers \<Rightarrow> recur \<Rightarrow> addr \<Rightarrow> string \<Rightarrow> unit visit" where
  "registerAlias ck hp rec decl name =
     bindM (setRef name (placeholder name)) (\<lambda>_.
     bindM (case typeParameters (object ck decl) of
              None \<Rightarrow> returnM []
            | Some ps \<Rightarrow> mapM (includeTypeParameter ck hp rec) ps) (\<lambda>tps.
     bindM (rec (CIncludeAnonymous (getTypeAtLocation ck (Some decl)))) (\<lambda>child.
     setRef name (TypeModelAlias (getComment (symbol (object ck decl))) tps child))))"


section \<open>Notions that the claims use\<close>



text \<open>
  The order of the primitive and literal classifier as the specification lists it: each
  kind with its test, first to last. \<open>firstMatch\<close> is the kind of the first test that
  holds.
\<close>

definition basicClassifiers :: "TypeChecker \<Rightarrow> Helpers \<Rightarrow> (string \<times> (addr \<Rightarrow> bool)) list" where
  "basicClassifiers ck hp =
     [(''any'', \<lambda>t. hasFlag (flags (object ck t)) TypeFlags_Any),
      (''unknown'', \<lambda>t. hasFlag (flags (object ck t)) TypeFlags_Unknown),
      (''literal'', \<lambda>t. isTypeObject (object ck t) \<and> isStringLiteral (object ck t)),
      (''literal'', \<lambda>t. isTypeObject (object ck t) \<and> isNumberLiteral (object ck t)),
      (''literal'', \<lambda>t. hasFlag (flags (object ck t)) TypeFlags_BooleanLiteral),
      (''enumLiteral'', \<lambda>t. hasFlag (flags (object ck t)) TypeFlags_EnumLiteral
                            \<and> isUnion (object ck t)),
      (''enum'', \<lambda>t. hasFlag (flags (object ck t)) TypeFlags_Enum \<and> isUnion (object ck t)),
      (''bigintLiteral'', \<lambda>t. isBigIntLiteral hp t),
      (''string'', \<lambda>t. hasFlag (flags (object ck t)) TypeFlags_String),
      (''boolean'', \<lambda>t. hasFlag (flags (object ck t)) TypeFlags_Boolean),
      (''number'', \<lambda>t. hasFlag (flags (object ck t)) TypeFlags_Number),
      (''bigint'', \<lambda>t. hasFlag (flags (object ck t)) TypeFlags_BigInt),
      (''esSymbol'', \<lambda>t. hasFlag (flags (object ck t)) TypeFlags_ESSymbol),
      (''uniqueEsSymbol'', \<lambda>t. hasFlag (flags (object ck t)) TypeFlags_UniqueESSymbol),
      (''void'', \<lambda>t. hasFlag (flags (object ck t)) TypeFlags_Void),
      (''undefined'', \<lambda>t. hasFlag (flags (object ck t)) TypeFlags_Undefined),
      (''null'', \<lambda>t. hasFlag (flags (object ck t)) TypeFlags_Null),
      (''never'', \<lambda>t. hasFlag (flags (object ck t)) TypeFlags_Never),
      (''conditional'', \<lambda>t. isConditionalType hp t),
      (''substitution'', \<lambda>t. isSubstitutionType hp t),
      (''nonPrimitive'', \<lambda>t. hasFlag (flags (object ck t)) TypeFlags_NonPrimitive)]"

fun firstMatch :: "(string \<times> (addr \<Rightarrow> bool)) list \<Rightarrow> addr \<Rightarrow> string option" where
  "firstMatch [] t = None"
| "firstMatch ((k, p) # cls) t = (if p t then Some k else firstMatch cls t)"


section \<open>Normalizing type arguments, as the specification words it\<close>

text \<open>
  \<open>registeredParameterCount\<close> is the number of entries of the \<^verbatim>\<open>types\<close> list of the node
  registered under a name, when there is such a node with such a list;
  \<open>truncateToRegistered\<close> cuts a list of arguments to that number and leaves it whole
  when there is none. \<open>suppliedDefault defaults supplied i\<close>: the declared parameter
  \<open>i\<close> has a default, and the identity of the default's type is that of the argument
  supplied at \<open>i\<close>. \<open>trailingDefaults\<close> counts the declared parameters, last to first, up
  to the first one that is not a supplied default, and \<open>dropTrailingDefaults\<close> removes as
  many arguments from the end of the list.
\<close>

definition registeredParameterCount :: "DeclVisitorContext \<Rightarrow> string option \<Rightarrow> nat option" where
  "registeredParameterCount c refName =
     (case refs c (propertyKey refName) of
        None \<Rightarrow> None
      | Some node \<Rightarrow> map_option length (typesField node))"

definition truncateToRegistered ::
  "DeclVisitorContext \<Rightarrow> string option \<Rightarrow> 'a list \<Rightarrow> 'a list" where
  "truncateToRegistered c refName ts =
     (case registeredParameterCount c refName of None \<Rightarrow> ts | Some m \<Rightarrow> take m ts)"

definition suppliedDefault :: "nat option list \<Rightarrow> nat option list \<Rightarrow> nat \<Rightarrow> bool" where
  "suppliedDefault defaults supplied i \<longleftrightarrow>
     truthyId (idAt defaults i) \<and> idAt defaults i = idAt supplied i"

definition trailingDefaults :: "nat option list \<Rightarrow> nat option list \<Rightarrow> nat" where
  "trailingDefaults defaults supplied =
     length (takeWhile (suppliedDefault defaults supplied) (rev [0..<length defaults]))"

definition dropTrailingDefaults :: "nat option list \<Rightarrow> nat option list \<Rightarrow> 'a list \<Rightarrow> 'a list" where
  "dropTrailingDefaults defaults supplied ts =
     take (length ts - trailingDefaults defaults supplied) ts"


section \<open>Index members, as the specification words them\<close>

text \<open>
  \<open>reportsIndex ck getter a m\<close>: the inherited reference \<open>m\<close> carries a live oracle type
  (\<^verbatim>\<open>external\<close>) whose index type, read by \<open>getter\<close>, is the object \<open>a\<close>.
  \<open>indexMember\<close> is the \<^verbatim>\<open>index\<close> node with its one synthesized parameter.
  \<open>indexMembers\<close> is what one index block contributes to the member list: nothing when the
  type has no such index type or an inherited reference reports the identical one, and
  otherwise the one index member, whose value is a classification of the index type.
  \<open>signaturesOf\<close> is the list of call signatures.
\<close>

definition reportsIndex :: "TypeChecker \<Rightarrow> (Obj \<Rightarrow> addr option) \<Rightarrow> addr \<Rightarrow> TypeModel \<Rightarrow> bool" where
  "reportsIndex ck getter a m =
     (case externalField m of None \<Rightarrow> False | Some e \<Rightarrow> getter (object ck e) = Some a)"

definition indexMember :: "Helpers \<Rightarrow> IndexInfo option \<Rightarrow> TypeModel \<Rightarrow> TypeModel \<Rightarrow> TypeModel" where
  "indexMember hp info keyType v =
     TypeModelIndex [TypeModelFunctionParameter (getKeyName hp info) [] False False keyType]
       False v"

definition indexMembers ::
  "TypeChecker \<Rightarrow> Helpers \<Rightarrow> recur \<Rightarrow> (Obj \<Rightarrow> addr option) \<Rightarrow> TypeModel \<Rightarrow> IndexInfo option
     \<Rightarrow> addr \<Rightarrow> TypeModel list \<Rightarrow> TypeModel list \<Rightarrow> bool" where
  "indexMembers ck hp rec getter keyType info t inherited xs =
     (case getter (object ck t) of
        None \<Rightarrow> xs = []
      | Some a \<Rightarrow>
          if list_ex (reportsIndex ck getter a) inherited then xs = []
          else (\<exists>v c1 c2. rec (CIncludeType a) c1 = Some (v, c2)
                  \<and> xs = [indexMember hp info keyType v]))"

definition signaturesOf :: "Obj \<Rightarrow> Signature list" where
  "signaturesOf ty = (case callSignatures ty of None \<Rightarrow> [] | Some signs \<Rightarrow> signs)"


section \<open>The primitive and literal classifier, as the specification words it\<close>

text \<open>
  The node of each kind: \<open>basicConstructors\<close> lists, in the order of \<open>basicClassifiers\<close>,
  what the classifier builds for a type that is of that kind; the four kinds that hold
  other types (enum-literal union, enum union, conditional, substitution) classify these
  first. \<open>basicStages\<close> pairs each test with its constructor, \<open>firstStage\<close> runs the
  constructor of the first stage whose test the type passes and gives \<^verbatim>\<open>undefined\<close> when
  it passes none, and \<open>basicKinds\<close> is the order of the kinds.
\<close>

definition enumLiteralNode :: "TypeChecker \<Rightarrow> recur \<Rightarrow> addr \<Rightarrow> TypeModel visit" where
  "enumLiteralNode ck rec t =
     bindM (deref (symbol (object ck t))) (\<lambda>sy.
     bindM (deref (types (object ck t))) (\<lambda>ms.
     bindM (mapM (includeMember ck rec) ms) (\<lambda>vs.
     returnM (TypeModelEnumLiteral (symbol_flags sy = SymbolFlags_ConstEnum)
                (getComment (Some sy)) vs))))"

definition enumNode :: "TypeChecker \<Rightarrow> recur \<Rightarrow> addr \<Rightarrow> TypeModel visit" where
  "enumNode ck rec t =
     bindM (deref (types (object ck t))) (\<lambda>ms.
     bindM (mapM (includeMember ck rec) ms) (\<lambda>vs.
     returnM (TypeModelEnum (getComment (symbol (object ck t))) vs)))"

definition conditionalNode :: "TypeChecker \<Rightarrow> recur \<Rightarrow> addr \<Rightarrow> TypeModel visit" where
  "conditionalNode ck rec t =
     bindM (deref (root (object ck t))) (\<lambda>r.
     bindM (rec (CIncludeType (extendsType r))) (\<lambda>e.
     bindM (rec (CIncludeType (checkType r))) (\<lambda>c.
     bindM (rec (CIncludeType (trueType r))) (\<lambda>p.
     bindM (rec (CIncludeType (falseType r))) (\<lambda>a.
     returnM (TypeModelConditional e c p a))))))"

definition substitutionNode :: "TypeChecker \<Rightarrow> recur \<Rightarrow> addr \<Rightarrow> TypeModel visit" where
  "substitutionNode ck rec t =
     bindM (deref (typeVariable (object ck t))) (\<lambda>tv.
     bindM (rec (CIncludeType tv)) (\<lambda>v.
     returnM (TypeModelSubstitution v)))"

definition basicConstructors :: "TypeChecker \<Rightarrow> recur \<Rightarrow> (addr \<Rightarrow> TypeModel visit) list" where
  "basicConstructors ck rec =
     [\<lambda>t. returnM (TypeModelBasic ''any''),
      \<lambda>t. returnM (TypeModelBasic ''unknown''),
      \<lambda>t. returnM (TypeModelLiteral (obj_value (object ck t))),
      \<lambda>t. returnM (TypeModelLiteral (obj_value (object ck t))),
      \<lambda>t. returnM (TypeModelLiteral (VBoolean (intrinsicName (object ck t) = Some ''true''))),
      enumLiteralNode ck rec,
      enumNode ck rec,
      \<lambda>t. returnM (TypeModelBigIntLiteral (obj_value (object ck t))),
      \<lambda>t. returnM (TypeModelBasic ''string''),
      \<lambda>t. returnM (TypeModelBasic ''boolean''),
      \<lambda>t. returnM (TypeModelBasic ''number''),
      \<lambda>t. returnM (TypeModelBasic ''bigint''),
      \<lambda>t. returnM (TypeModelBasic ''esSymbol''),
      \<lambda>t. returnM (TypeModelBasic ''uniqueEsSymbol''),
      \<lambda>t. returnM (TypeModelBasic ''void''),
      \<lambda>t. returnM (TypeModelBasic ''undefined''),
      \<lambda>t. returnM (TypeModelBasic ''null''),
      \<lambda>t. returnM (TypeModelBasic ''never''),
      conditionalNode ck rec,
      substitutionNode ck rec,
      \<lambda>t. returnM (TypeModelNonPrimitive (intrinsicName (object ck t)))]"

definition basicStages ::
  "TypeChecker \<Rightarrow> Helpers \<Rightarrow> recur
     \<Rightarrow> ((string \<times> (addr \<Rightarrow> bool)) \<times> (addr \<Rightarrow> TypeModel visit)) list" where
  "basicStages ck hp rec = zip (basicClassifiers ck hp) (basicConstructors ck rec)"

fun firstStage ::
  "((string \<times> (addr \<Rightarrow> bool)) \<times> (addr \<Rightarrow> TypeModel visit)) list \<Rightarrow> addr \<Rightarrow> TypeModel visit" where
  "firstStage [] t = returnM NoNode"
| "firstStage (((k, p), b) # stages) t = (if p t then b t else firstStage stages t)"

definition basicKinds :: "string list" where
  "basicKinds =
     [''any'', ''unknown'', ''literal'', ''literal'', ''literal'', ''enumLiteral'', ''enum'',
      ''bigintLiteral'', ''string'', ''boolean'', ''number'', ''bigint'', ''esSymbol'',
      ''uniqueEsSymbol'', ''void'', ''undefined'', ''null'', ''never'', ''conditional'',
      ''substitution'', ''nonPrimitive'']"

section \<open>Example programs\<close>

definition emptySymbol :: Symbol where
  "emptySymbol = \<lparr>symbol_id = None, symbol_name = [], symbol_flags = 0, declarations = None,
     valueDeclaration = None, symbol_target_id = None, documentationComment = []\<rparr>"

definition emptyObj :: Obj where
  "emptyObj = \<lparr>isTypeObject = False, obj_id = None, flags = 0, objectFlags = None, symbol = None,
     aliasSymbol = None, aliasTypeArguments = None, typeArguments = None, typeParameters = None,
     target = None, types = None, obj_value = VUndefined, intrinsicName = None, root = None,
     typeVariable = None, indexType = None, objectType = None, stringsOnly = None,
     obj_type = None, typeParameter = None, properties = None, stringIndexType = None,
     numberIndexType = None, declaredStringIndexInfo = None, declaredNumberIndexInfo = None,
     callSignatures = None, baseConstraint = None, kind = None, obj_default = None,
     parent = None, heritageClauses = None, constraint = None, questionToken = False,
     dotDotDotToken = False, parameters = [], typeName_text = None, expression = None,
     obj_text = [], sourceFileName = None\<rparr>"

definition stdHelpers :: "(addr \<Rightarrow> Obj) \<Rightarrow> Helpers" where
  "stdHelpers ob = \<lparr>
     getLib = (\<lambda>fn imports. None),
     isBaseLib = (\<lambda>fn. False),
     isAnonymousObject = (\<lambda>t. case objectFlags (ob t) of None \<Rightarrow> False | Some f \<Rightarrow> hasFlag f ObjectFlags_Anonymous),
     isObjectType = (\<lambda>t. hasFlag (flags (ob t)) TypeFlags_Object),
     isReferenceType = (\<lambda>t. case objectFlags (ob t) of None \<Rightarrow> False | Some f \<Rightarrow> hasFlag f ObjectFlags_Reference),
     isBigIntLiteral = (\<lambda>t. hasFlag (flags (ob t)) TypeFlags_BigIntLiteral),
     getKeyName = (\<lambda>info. ''index''),
     isIndexType = (\<lambda>t. False),
     isGlobal = (\<lambda>s. False),
     getGlobalName = (\<lambda>s. []),
     isTupleType = (\<lambda>t. False),
     isKeyOfType = (\<lambda>n. False),
     isIdentifierType = (\<lambda>n. False),
     isConditionalType = (\<lambda>t. False),
     isInferType = (\<lambda>n. False),
     isSubstitutionType = (\<lambda>t. False),
     isAnonymous = (\<lambda>n. n = Some ''__type''),
     getConstructors = (\<lambda>t. None),
     getModifiers = (\<lambda>s. []),
     isHiddenAnonymousType = (\<lambda>n. False),
     isUnionType = (\<lambda>n. False),
     createBinding = (\<lambda>used lib name. (lib @ ''.'' @ propertyKey name, used))\<rparr>"

definition symA :: Symbol where "symA = emptySymbol\<lparr>symbol_id := Some 1001, symbol_name := ''a'', declarations := Some [30]\<rparr>"
definition symB :: Symbol where "symB = emptySymbol\<lparr>symbol_id := Some 1002, symbol_name := ''b'', declarations := Some [40]\<rparr>"
definition symBase :: Symbol where "symBase = emptySymbol\<lparr>symbol_id := Some 11, symbol_name := ''Base'', declarations := Some [10]\<rparr>"
definition symDerived :: Symbol where "symDerived = emptySymbol\<lparr>symbol_id := Some 12, symbol_name := ''Derived'', declarations := Some [20]\<rparr>"

definition inhObjects :: "addr \<Rightarrow> Obj" where
  "inhObjects a =
    (if a = 1 then emptyObj\<lparr>isTypeObject := True, obj_id := Some 101, flags := TypeFlags_Object, objectFlags := Some ObjectFlags_Interface, symbol := Some symBase, properties := Some [symA]\<rparr>
     else if a = 2 then emptyObj\<lparr>isTypeObject := True, obj_id := Some 102, flags := TypeFlags_Object, objectFlags := Some ObjectFlags_Interface, symbol := Some symDerived, properties := Some [symB, symA]\<rparr>
     else if a = 3 then emptyObj\<lparr>isTypeObject := True, obj_id := Some 103, flags := TypeFlags_String, intrinsicName := Some ''string''\<rparr>
     else if a = 4 then emptyObj\<lparr>isTypeObject := True, obj_id := Some 104, flags := TypeFlags_Number, intrinsicName := Some ''number''\<rparr>
     else if a = 10 then emptyObj\<lparr>kind := Some InterfaceDeclaration, symbol := Some symBase, parent := Some 90\<rparr>
     else if a = 20 then emptyObj\<lparr>kind := Some InterfaceDeclaration, symbol := Some symDerived, parent := Some 90, heritageClauses := Some [\<lparr>token = ExtendsKeyword, clause_types = Some [21]\<rparr>]\<rparr>
     else if a = 21 then emptyObj\<lparr>expression := Some 22, parent := Some 20\<rparr>
     else if a = 22 then emptyObj\<lparr>kind := Some Identifier, obj_text := ''Base'', parent := Some 21\<rparr>
     else if a = 30 then emptyObj\<lparr>symbol := Some symA, obj_type := Some 31, parent := Some 10\<rparr>
     else if a = 40 then emptyObj\<lparr>symbol := Some symB, obj_type := Some 41, parent := Some 20\<rparr>
     else if a = 90 then emptyObj\<lparr>sourceFileName := Some ''/app/index.ts''\<rparr>
     else emptyObj)"

definition inhChecker :: TypeChecker where
  "inhChecker = \<lparr>object = inhObjects,
     getTypeAtLocation = (\<lambda>n. if n = Some 21 then 1 else 0),
     getTypeFromTypeNode = (\<lambda>n. if n = Some 31 then 3 else if n = Some 41 then 4 else 0),
     getDeclaredTypeOfSymbol = (\<lambda>s. 0),
     getTypeOfSymbolAtLocation = (\<lambda>s d. if d = 30 then 3 else if d = 40 then 4 else 0),
     getSignatureFromDeclaration = (\<lambda>d. None),
     getExportsOfModule = (\<lambda>s. [])\<rparr>"

definition emptyContext :: DeclVisitorContext where
  "emptyContext = \<lparr>refs = Map.empty, availableImports = [], usedImports = []\<rparr>"



definition ObjectFlags_Tuple :: "32 word" where "ObjectFlags_Tuple = 8"

definition exHelpers :: "(addr \<Rightarrow> Obj) \<Rightarrow> Helpers" where
  "exHelpers ob = (stdHelpers ob)\<lparr>
     isTupleType := (\<lambda>t. case target (ob t) of None \<Rightarrow> False
        | Some g \<Rightarrow> (case objectFlags (ob g) of None \<Rightarrow> False | Some f \<Rightarrow> hasFlag f ObjectFlags_Tuple))\<rparr>"





text \<open>Types for the primitive and literal classifier: \<^verbatim>\<open>boolean\<close> at address 1 with its
  members \<^verbatim>\<open>true\<close> and \<^verbatim>\<open>false\<close> at 2 and 3, and a type parameter at 4, which is of no
  kind. The types at 5, 6 and 8 pass more than one test: 5 has the flags \<^verbatim>\<open>String\<close>,
  \<^verbatim>\<open>Number\<close> and \<^verbatim>\<open>NonPrimitive\<close>, 6 is a union with both \<^verbatim>\<open>EnumLiteral\<close> and \<^verbatim>\<open>Enum\<close> whose
  one member is the string literal at 7, and 8 is a string literal with the flag
  \<^verbatim>\<open>String\<close> as well.\<close>

definition symE :: Symbol where
  "symE = emptySymbol\<lparr>symbol_id := Some 71, symbol_name := ''E'', declarations := Some [10]\<rparr>"
definition symEA :: Symbol where
  "symEA = emptySymbol\<lparr>symbol_id := Some 72, symbol_name := ''A'', declarations := Some [11]\<rparr>"

definition basicObjects :: "addr \<Rightarrow> Obj" where
  "basicObjects a =
    (if a = 1 then emptyObj\<lparr>isTypeObject := True, obj_id := Some 101,
        flags := TypeFlags_Boolean OR TypeFlags_Union, types := Some [2, 3]\<rparr>
     else if a = 2 then emptyObj\<lparr>isTypeObject := True, obj_id := Some 102,
        flags := TypeFlags_BooleanLiteral, intrinsicName := Some ''true''\<rparr>
     else if a = 3 then emptyObj\<lparr>isTypeObject := True, obj_id := Some 103,
        flags := TypeFlags_BooleanLiteral, intrinsicName := Some ''false''\<rparr>
     else if a = 4 then emptyObj\<lparr>isTypeObject := True, obj_id := Some 104,
        flags := TypeFlags_TypeParameter\<rparr>
     else if a = 5 then emptyObj\<lparr>isTypeObject := True, obj_id := Some 105,
        flags := TypeFlags_String OR TypeFlags_Number OR TypeFlags_NonPrimitive\<rparr>
     else if a = 6 then emptyObj\<lparr>isTypeObject := True, obj_id := Some 106,
        flags := TypeFlags_EnumLiteral OR TypeFlags_Enum OR TypeFlags_Union, symbol := Some symE,
        types := Some [7]\<rparr>
     else if a = 7 then emptyObj\<lparr>isTypeObject := True, obj_id := Some 107,
        flags := TypeFlags_StringLiteral OR TypeFlags_EnumLiteral, symbol := Some symEA,
        obj_value := VString ''a''\<rparr>
     else if a = 8 then emptyObj\<lparr>isTypeObject := True, obj_id := Some 108,
        flags := TypeFlags_StringLiteral OR TypeFlags_String, obj_value := VString ''b''\<rparr>
     else emptyObj)"

definition basicChecker :: TypeChecker where
  "basicChecker = \<lparr>object = basicObjects,
     getTypeAtLocation = (\<lambda>n. 0), getTypeFromTypeNode = (\<lambda>n. 0),
     getDeclaredTypeOfSymbol = (\<lambda>s. 0), getTypeOfSymbolAtLocation = (\<lambda>s d. 0),
     getSignatureFromDeclaration = (\<lambda>d. None), getExportsOfModule = (\<lambda>s. [])\<rparr>"


text \<open>A mapped type \<^verbatim>\<open>{ [K in Keys]?: V }\<close> at address 1, with
  \<^verbatim>\<open>type Keys = 'a' | 'b'\<close> at address 3 and the type parameter \<^verbatim>\<open>V\<close> at address 4;
  node 10 is the mapped type's declaration and node 11 the declaration of \<^verbatim>\<open>K\<close>.\<close>

definition symMappedType :: Symbol where
  "symMappedType = emptySymbol\<lparr>symbol_id := Some 20, symbol_name := ''__type'', declarations := Some [10]\<rparr>"
definition symK :: Symbol where
  "symK = emptySymbol\<lparr>symbol_id := Some 21, symbol_name := ''K'', declarations := Some [11]\<rparr>"
definition symKeys :: Symbol where
  "symKeys = emptySymbol\<lparr>symbol_id := Some 22, symbol_name := ''Keys'', declarations := Some [14]\<rparr>"
definition symV :: Symbol where
  "symV = emptySymbol\<lparr>symbol_id := Some 23, symbol_name := ''V'', declarations := Some [15]\<rparr>"

definition mappedObjects :: "addr \<Rightarrow> Obj" where
  "mappedObjects a =
    (if a = 1 then emptyObj\<lparr>isTypeObject := True, obj_id := Some 101, flags := TypeFlags_Object,
        objectFlags := Some ObjectFlags_Mapped, symbol := Some symMappedType, typeParameter := Some 2\<rparr>
     else if a = 2 then emptyObj\<lparr>isTypeObject := True, obj_id := Some 102,
        flags := TypeFlags_TypeParameter, symbol := Some symK\<rparr>
     else if a = 3 then emptyObj\<lparr>isTypeObject := True, obj_id := Some 103, flags := TypeFlags_Union,
        aliasSymbol := Some symKeys, types := Some [5, 6]\<rparr>
     else if a = 4 then emptyObj\<lparr>isTypeObject := True, obj_id := Some 104,
        flags := TypeFlags_TypeParameter, symbol := Some symV\<rparr>
     else if a = 5 then emptyObj\<lparr>isTypeObject := True, obj_id := Some 105,
        flags := TypeFlags_StringLiteral, obj_value := VString ''a''\<rparr>
     else if a = 6 then emptyObj\<lparr>isTypeObject := True, obj_id := Some 106,
        flags := TypeFlags_StringLiteral, obj_value := VString ''b''\<rparr>
     else if a = 10 then emptyObj\<lparr>symbol := Some symMappedType, typeParameter := Some 11,
        questionToken := True, obj_type := Some 13, parent := Some 16\<rparr>
     else if a = 11 then emptyObj\<lparr>symbol := Some symK, constraint := Some 12, parent := Some 10\<rparr>
     else if a = 12 then emptyObj\<lparr>parent := Some 11\<rparr>
     else if a = 13 then emptyObj\<lparr>parent := Some 10\<rparr>
     else if a = 14 then emptyObj\<lparr>kind := Some TypeAliasDeclaration, symbol := Some symKeys,
        parent := Some 90\<rparr>
     else if a = 15 then emptyObj\<lparr>symbol := Some symV, parent := Some 16\<rparr>
     else if a = 16 then emptyObj\<lparr>kind := Some TypeAliasDeclaration, parent := Some 90\<rparr>
     else if a = 90 then emptyObj\<lparr>sourceFileName := Some ''/app/index.ts''\<rparr>
     else emptyObj)"

definition mappedChecker :: TypeChecker where
  "mappedChecker = \<lparr>object = mappedObjects,
     getTypeAtLocation = (\<lambda>n. if n = Some 12 \<or> n = Some 14 then 3 else 0),
     getTypeFromTypeNode = (\<lambda>n. if n = Some 13 then 4 else 0),
     getDeclaredTypeOfSymbol = (\<lambda>s. 0), getTypeOfSymbolAtLocation = (\<lambda>s d. 0),
     getSignatureFromDeclaration = (\<lambda>d. None), getExportsOfModule = (\<lambda>s. [])\<rparr>"

definition mappedNode :: TypeModel where
  "mappedNode = TypeModelInterface [] (Some []) [] []
     (TypeModelMapped ''K'' (TypeModelRef [] (Some ''Keys'') None) True
        (TypeModelRef [] (Some ''V'') None))"


text \<open>The nodes that the interfaces \<^verbatim>\<open>Base\<close> and \<^verbatim>\<open>Derived\<close> above are registered with.\<close>

definition baseNode :: TypeModel where
  "baseNode = TypeModelInterface [] (Some [])
     [TypeModelProp ''a'' [] (Some 1001) False (Some []) (TypeModelBasic ''string'')] [] NoNode"

definition derivedNode :: TypeModel where
  "derivedNode = TypeModelInterface [TypeModelRef [] (Some ''Base'') None] (Some [])
     [TypeModelProp ''b'' [] (Some 1002) False (Some []) (TypeModelBasic ''number''),
      TypeModelProp ''a'' [] (Some 1001) False (Some []) (TypeModelBasic ''string'')] [] NoNode"


text \<open>A generic interface \<^verbatim>\<open>G<T, U = string>\<close> at address 1 (declaration 10), its
  instances \<^verbatim>\<open>G<number, string>\<close> at address 8 and \<^verbatim>\<open>G<number, boolean>\<close> at address 9.\<close>

definition symG :: Symbol where
  "symG = emptySymbol\<lparr>symbol_id := Some 30, symbol_name := ''G'', declarations := Some [10]\<rparr>"
definition symT :: Symbol where
  "symT = emptySymbol\<lparr>symbol_id := Some 31, symbol_name := ''T'', declarations := Some [11]\<rparr>"
definition symU :: Symbol where
  "symU = emptySymbol\<lparr>symbol_id := Some 32, symbol_name := ''U'', declarations := Some [12]\<rparr>"
definition genericObjects :: "addr \<Rightarrow> Obj" where
  "genericObjects a =
    (if a = 1 then emptyObj\<lparr>isTypeObject := True, obj_id := Some 101, flags := TypeFlags_Object,
        objectFlags := Some (ObjectFlags_Interface OR ObjectFlags_Reference), symbol := Some symG,
        typeParameters := Some [2, 3], typeArguments := Some [2, 3], target := Some 1,
        properties := Some []\<rparr>
     else if a = 2 then emptyObj\<lparr>isTypeObject := True, obj_id := Some 102,
        flags := TypeFlags_TypeParameter, symbol := Some symT\<rparr>
     else if a = 3 then emptyObj\<lparr>isTypeObject := True, obj_id := Some 103,
        flags := TypeFlags_TypeParameter, symbol := Some symU\<rparr>
     else if a = 5 then emptyObj\<lparr>isTypeObject := True, obj_id := Some 105, flags := TypeFlags_String\<rparr>
     else if a = 6 then emptyObj\<lparr>isTypeObject := True, obj_id := Some 106, flags := TypeFlags_Number\<rparr>
     else if a = 7 then emptyObj\<lparr>isTypeObject := True, obj_id := Some 107, flags := TypeFlags_Boolean\<rparr>
     else if a = 8 then emptyObj\<lparr>isTypeObject := True, obj_id := Some 108, flags := TypeFlags_Object,
        objectFlags := Some ObjectFlags_Reference, symbol := Some symG, target := Some 1,
        typeArguments := Some [6, 5], properties := Some []\<rparr>
     else if a = 9 then emptyObj\<lparr>isTypeObject := True, obj_id := Some 109, flags := TypeFlags_Object,
        objectFlags := Some ObjectFlags_Reference, symbol := Some symG, target := Some 1,
        typeArguments := Some [6, 7], properties := Some []\<rparr>
     else if a = 10 then emptyObj\<lparr>kind := Some InterfaceDeclaration, symbol := Some symG,
        typeParameters := Some [11, 12], parent := Some 90\<rparr>
     else if a = 11 then emptyObj\<lparr>symbol := Some symT, parent := Some 10\<rparr>
     else if a = 12 then emptyObj\<lparr>symbol := Some symU, obj_default := Some 13, parent := Some 10\<rparr>
     else if a = 13 then emptyObj\<lparr>parent := Some 12\<rparr>
     else if a = 90 then emptyObj\<lparr>sourceFileName := Some ''/app/index.ts''\<rparr>
     else emptyObj)"

definition genericChecker :: TypeChecker where
  "genericChecker = \<lparr>object = genericObjects,
     getTypeAtLocation = (\<lambda>n. if n = Some 13 then 5 else 0),
     getTypeFromTypeNode = (\<lambda>n. 0),
     getDeclaredTypeOfSymbol = (\<lambda>s. 0), getTypeOfSymbolAtLocation = (\<lambda>s d. 0),
     getSignatureFromDeclaration = (\<lambda>d. None), getExportsOfModule = (\<lambda>s. [])\<rparr>"

definition genericNode :: TypeModel where
  "genericNode = TypeModelInterface [] (Some []) []
     [TypeModelTypeParameter (TypeModelRef [] (Some ''T'') None) NoNode NoNode,
      TypeModelTypeParameter (TypeModelRef [] (Some ''U'') None) NoNode (TypeModelBasic ''string'')]
     NoNode"


text \<open>Index signatures. \<^verbatim>\<open>ExtBase\<close> at address 1 is an interface of the base library with
  \<^verbatim>\<open>[key: string]: number\<close>; \<^verbatim>\<open>Indexed\<close> at address 2 extends it and has
  \<^verbatim>\<open>[key: number]: string\<close> and the call signature \<^verbatim>\<open>(): number\<close>. \<^verbatim>\<open>Local\<close> at address 3
  is an interface of the program's own file with \<^verbatim>\<open>[key: string]: number\<close>, and \<^verbatim>\<open>Sub\<close>
  at address 6 extends it with no member of its own. Address 4 is \<^verbatim>\<open>number\<close> and
  address 5 is \<^verbatim>\<open>string\<close>.\<close>

definition symExtBase :: Symbol where
  "symExtBase = emptySymbol\<lparr>symbol_id := Some 41, symbol_name := ''ExtBase'', declarations := Some [10]\<rparr>"
definition symIndexed :: Symbol where
  "symIndexed = emptySymbol\<lparr>symbol_id := Some 42, symbol_name := ''Indexed'', declarations := Some [20]\<rparr>"
definition symLocal :: Symbol where
  "symLocal = emptySymbol\<lparr>symbol_id := Some 43, symbol_name := ''Local'', declarations := Some [30]\<rparr>"
definition symSub :: Symbol where
  "symSub = emptySymbol\<lparr>symbol_id := Some 44, symbol_name := ''Sub'', declarations := Some [40]\<rparr>"

definition indexObjects :: "addr \<Rightarrow> Obj" where
  "indexObjects a =
    (if a = 1 then emptyObj\<lparr>isTypeObject := True, obj_id := Some 101, flags := TypeFlags_Object,
        objectFlags := Some ObjectFlags_Interface, symbol := Some symExtBase,
        properties := Some [], stringIndexType := Some 4\<rparr>
     else if a = 2 then emptyObj\<lparr>isTypeObject := True, obj_id := Some 102, flags := TypeFlags_Object,
        objectFlags := Some ObjectFlags_Interface, symbol := Some symIndexed,
        properties := Some [], stringIndexType := Some 4, numberIndexType := Some 5,
        callSignatures := Some [\<lparr>sig_typeParameters = None, sig_parameters = [],
                                  sig_returnType = 4\<rparr>]\<rparr>
     else if a = 3 then emptyObj\<lparr>isTypeObject := True, obj_id := Some 103, flags := TypeFlags_Object,
        objectFlags := Some ObjectFlags_Interface, symbol := Some symLocal,
        properties := Some [], stringIndexType := Some 4\<rparr>
     else if a = 4 then emptyObj\<lparr>isTypeObject := True, obj_id := Some 104, flags := TypeFlags_Number\<rparr>
     else if a = 5 then emptyObj\<lparr>isTypeObject := True, obj_id := Some 105, flags := TypeFlags_String\<rparr>
     else if a = 6 then emptyObj\<lparr>isTypeObject := True, obj_id := Some 106, flags := TypeFlags_Object,
        objectFlags := Some ObjectFlags_Interface, symbol := Some symSub,
        properties := Some [], stringIndexType := Some 4\<rparr>
     else if a = 10 then emptyObj\<lparr>kind := Some InterfaceDeclaration, symbol := Some symExtBase,
        parent := Some 91\<rparr>
     else if a = 20 then emptyObj\<lparr>kind := Some InterfaceDeclaration, symbol := Some symIndexed,
        parent := Some 90,
        heritageClauses := Some [\<lparr>token = ExtendsKeyword, clause_types = Some [21]\<rparr>]\<rparr>
     else if a = 21 then emptyObj\<lparr>expression := Some 22, parent := Some 20\<rparr>
     else if a = 22 then emptyObj\<lparr>kind := Some Identifier, obj_text := ''ExtBase'', parent := Some 21\<rparr>
     else if a = 30 then emptyObj\<lparr>kind := Some InterfaceDeclaration, symbol := Some symLocal,
        parent := Some 90\<rparr>
     else if a = 40 then emptyObj\<lparr>kind := Some InterfaceDeclaration, symbol := Some symSub,
        parent := Some 90,
        heritageClauses := Some [\<lparr>token = ExtendsKeyword, clause_types = Some [41]\<rparr>]\<rparr>
     else if a = 41 then emptyObj\<lparr>expression := Some 42, parent := Some 40\<rparr>
     else if a = 42 then emptyObj\<lparr>kind := Some Identifier, obj_text := ''Local'', parent := Some 41\<rparr>
     else if a = 90 then emptyObj\<lparr>sourceFileName := Some ''/app/index.ts''\<rparr>
     else if a = 91 then emptyObj\<lparr>sourceFileName := Some ''/lib/lib.es5.d.ts''\<rparr>
     else emptyObj)"

definition indexChecker :: TypeChecker where
  "indexChecker = \<lparr>object = indexObjects,
     getTypeAtLocation = (\<lambda>n. if n = Some 21 then 1 else if n = Some 41 then 3 else 0),
     getTypeFromTypeNode = (\<lambda>n. 0),
     getDeclaredTypeOfSymbol = (\<lambda>s. 0), getTypeOfSymbolAtLocation = (\<lambda>s d. 0),
     getSignatureFromDeclaration = (\<lambda>d. None), getExportsOfModule = (\<lambda>s. [])\<rparr>"

definition indexHelpers :: Helpers where
  "indexHelpers = (stdHelpers indexObjects)\<lparr>isBaseLib := (\<lambda>fn. fn = Some ''/lib/lib.es5.d.ts'')\<rparr>"

definition numberIndexMember :: TypeModel where
  "numberIndexMember = TypeModelIndex
     [TypeModelFunctionParameter ''index'' [] False False (TypeModelBasic ''number'')] False
     (TypeModelBasic ''string'')"

definition stringIndexMember :: TypeModel where
  "stringIndexMember = TypeModelIndex
     [TypeModelFunctionParameter ''index'' [] False False (TypeModelBasic ''string'')] False
     (TypeModelBasic ''number'')"

definition callMember :: TypeModel where
  "callMember = TypeModelFunction [] [] (TypeModelBasic ''number'') None"


text \<open>\<^verbatim>\<open>export interface toString { a: string }\<close>: an interface whose name is a key that
  every object inherits.\<close>

definition symToString :: Symbol where
  "symToString = emptySymbol\<lparr>symbol_id := Some 51, symbol_name := ''toString'',
     declarations := Some [10]\<rparr>"

definition protoObjects :: "addr \<Rightarrow> Obj" where
  "protoObjects a =
    (if a = 1 then emptyObj\<lparr>isTypeObject := True, obj_id := Some 101, flags := TypeFlags_Object,
        objectFlags := Some ObjectFlags_Interface, symbol := Some symToString,
        properties := Some [symA]\<rparr>
     else if a = 3 then emptyObj\<lparr>isTypeObject := True, obj_id := Some 103, flags := TypeFlags_String,
        intrinsicName := Some ''string''\<rparr>
     else if a = 10 then emptyObj\<lparr>kind := Some InterfaceDeclaration, symbol := Some symToString,
        parent := Some 90\<rparr>
     else if a = 30 then emptyObj\<lparr>symbol := Some symA, obj_type := Some 31, parent := Some 10\<rparr>
     else if a = 90 then emptyObj\<lparr>sourceFileName := Some ''/app/index.ts''\<rparr>
     else emptyObj)"

definition protoChecker :: TypeChecker where
  "protoChecker = \<lparr>object = protoObjects,
     getTypeAtLocation = (\<lambda>n. 0),
     getTypeFromTypeNode = (\<lambda>n. if n = Some 31 then 3 else 0),
     getDeclaredTypeOfSymbol = (\<lambda>s. 0),
     getTypeOfSymbolAtLocation = (\<lambda>s d. if d = 30 then 3 else 0),
     getSignatureFromDeclaration = (\<lambda>d. None),
     getExportsOfModule = (\<lambda>s. [])\<rparr>"


text \<open>\<^verbatim>\<open>export interface Box<T> { next: Box<T> }\<close>: the generic interface at address 1
  (declaration 10) with its parameter \<^verbatim>\<open>T\<close> at address 2; the type of the property
  \<^verbatim>\<open>next\<close> is the interface itself, with \<^verbatim>\<open>T\<close> as its argument. \<open>boxNode\<close> is the node that
  the walk registers for it.\<close>

definition symBox :: Symbol where
  "symBox = emptySymbol\<lparr>symbol_id := Some 61, symbol_name := ''Box'', declarations := Some [10]\<rparr>"
definition symBoxT :: Symbol where
  "symBoxT = emptySymbol\<lparr>symbol_id := Some 62, symbol_name := ''T'', declarations := Some [11]\<rparr>"
definition symNext :: Symbol where
  "symNext = emptySymbol\<lparr>symbol_id := Some 1003, symbol_name := ''next'', declarations := Some [30]\<rparr>"

definition boxObjects :: "addr \<Rightarrow> Obj" where
  "boxObjects a =
    (if a = 1 then emptyObj\<lparr>isTypeObject := True, obj_id := Some 101, flags := TypeFlags_Object,
        objectFlags := Some (ObjectFlags_Interface OR ObjectFlags_Reference), symbol := Some symBox,
        typeParameters := Some [2], typeArguments := Some [2], target := Some 1,
        properties := Some [symNext]\<rparr>
     else if a = 2 then emptyObj\<lparr>isTypeObject := True, obj_id := Some 102,
        flags := TypeFlags_TypeParameter, symbol := Some symBoxT\<rparr>
     else if a = 10 then emptyObj\<lparr>kind := Some InterfaceDeclaration, symbol := Some symBox,
        typeParameters := Some [11], parent := Some 90\<rparr>
     else if a = 11 then emptyObj\<lparr>symbol := Some symBoxT, parent := Some 10\<rparr>
     else if a = 30 then emptyObj\<lparr>symbol := Some symNext, obj_type := Some 31, parent := Some 10\<rparr>
     else if a = 31 then emptyObj\<lparr>parent := Some 30\<rparr>
     else if a = 90 then emptyObj\<lparr>sourceFileName := Some ''/app/index.ts''\<rparr>
     else emptyObj)"

definition boxChecker :: TypeChecker where
  "boxChecker = \<lparr>object = boxObjects,
     getTypeAtLocation = (\<lambda>n. 0),
     getTypeFromTypeNode = (\<lambda>n. if n = Some 31 then 1 else 0),
     getDeclaredTypeOfSymbol = (\<lambda>s. 0),
     getTypeOfSymbolAtLocation = (\<lambda>s d. if d = 30 then 1 else 0),
     getSignatureFromDeclaration = (\<lambda>d. None),
     getExportsOfModule = (\<lambda>s. [])\<rparr>"

definition boxNode :: TypeModel where
  "boxNode = TypeModelInterface [] (Some [])
     [TypeModelProp ''next'' [] (Some 1003) False (Some []) (TypeModelRef [] (Some ''Box'') None)]
     [TypeModelTypeParameter (TypeModelRef [] (Some ''T'') None) NoNode NoNode]
     NoNode"


text \<open>Object types by their object flags: a class \<^verbatim>\<open>C\<close> at address 1 with
  \<^verbatim>\<open>Class | Reference\<close>, an object type with \<^verbatim>\<open>Class\<close> alone at 2, one with
  \<^verbatim>\<open>Mapped | Anonymous\<close> at 5 and an instantiated mapped type, such as
  \<^verbatim>\<open>Partial<{ a: string }>\<close>, with \<^verbatim>\<open>Mapped | Instantiated\<close> at 6; each has the one property
  \<^verbatim>\<open>a: string\<close>, whose node is \<open>propA\<close>.\<close>

definition ObjectFlags_Instantiated :: "32 word" where "ObjectFlags_Instantiated = 64"

definition symC :: Symbol where
  "symC = emptySymbol\<lparr>symbol_id := Some 81, symbol_name := ''C'', declarations := Some [10]\<rparr>"
definition symD :: Symbol where
  "symD = emptySymbol\<lparr>symbol_id := Some 82, symbol_name := ''D'', declarations := Some [20]\<rparr>"
definition symAnonymous :: Symbol where
  "symAnonymous = emptySymbol\<lparr>symbol_id := Some 83, symbol_name := ''__type'',
     declarations := Some [40]\<rparr>"

definition dispatchObjects :: "addr \<Rightarrow> Obj" where
  "dispatchObjects a =
    (if a = 1 then emptyObj\<lparr>isTypeObject := True, obj_id := Some 101, flags := TypeFlags_Object,
        objectFlags := Some (ObjectFlags_Class OR ObjectFlags_Reference), symbol := Some symC,
        target := Some 1, properties := Some [symA]\<rparr>
     else if a = 2 then emptyObj\<lparr>isTypeObject := True, obj_id := Some 102, flags := TypeFlags_Object,
        objectFlags := Some ObjectFlags_Class, symbol := Some symD, properties := Some [symA]\<rparr>
     else if a = 3 then emptyObj\<lparr>isTypeObject := True, obj_id := Some 103, flags := TypeFlags_String\<rparr>
     else if a = 5 then emptyObj\<lparr>isTypeObject := True, obj_id := Some 105, flags := TypeFlags_Object,
        objectFlags := Some (ObjectFlags_Mapped OR ObjectFlags_Anonymous),
        symbol := Some symAnonymous, properties := Some [symA]\<rparr>
     else if a = 6 then emptyObj\<lparr>isTypeObject := True, obj_id := Some 106, flags := TypeFlags_Object,
        objectFlags := Some (ObjectFlags_Mapped OR ObjectFlags_Instantiated),
        symbol := Some symAnonymous, properties := Some [symA]\<rparr>
     else if a = 10 then emptyObj\<lparr>kind := Some ClassDeclaration, symbol := Some symC,
        parent := Some 90\<rparr>
     else if a = 20 then emptyObj\<lparr>kind := Some ClassDeclaration, symbol := Some symD,
        parent := Some 90\<rparr>
     else if a = 30 then emptyObj\<lparr>symbol := Some symA, obj_type := Some 31, parent := Some 10\<rparr>
     else if a = 40 then emptyObj\<lparr>symbol := Some symAnonymous, parent := Some 90\<rparr>
     else if a = 90 then emptyObj\<lparr>sourceFileName := Some ''/app/index.ts''\<rparr>
     else emptyObj)"

definition dispatchChecker :: TypeChecker where
  "dispatchChecker = \<lparr>object = dispatchObjects,
     getTypeAtLocation = (\<lambda>n. 0),
     getTypeFromTypeNode = (\<lambda>n. if n = Some 31 then 3 else 0),
     getDeclaredTypeOfSymbol = (\<lambda>s. 0),
     getTypeOfSymbolAtLocation = (\<lambda>s d. if d = 30 then 3 else 0),
     getSignatureFromDeclaration = (\<lambda>d. None),
     getExportsOfModule = (\<lambda>s. [])\<rparr>"

definition propA :: TypeModel where
  "propA = TypeModelProp ''a'' [] (Some 1001) False (Some []) (TypeModelBasic ''string'')"


text \<open>The mapped type above without its question token, \<^verbatim>\<open>{ [K in Keys]: V }\<close>, and its
  node.\<close>

definition requiredObjects :: "addr \<Rightarrow> Obj" where
  "requiredObjects a =
     (if a = 10 then (mappedObjects 10)\<lparr>questionToken := False\<rparr> else mappedObjects a)"

definition requiredChecker :: TypeChecker where
  "requiredChecker = mappedChecker\<lparr>object := requiredObjects\<rparr>"

definition requiredNode :: TypeModel where
  "requiredNode = TypeModelInterface [] (Some []) [] []
     (TypeModelMapped ''K'' (TypeModelRef [] (Some ''Keys'') None) False
        (TypeModelRef [] (Some ''V'') None))"

section \<open>Lemmas\<close>

named_theorems pres

lemma bindM_eq_Some:
  "bindM m f c = Some (y, c'') \<longleftrightarrow> (\<exists>x c'. m c = Some (x, c') \<and> f x c' = Some (y, c''))"
  by (auto simp: bindM_def split: option.splits)

lemma returnM_eq_Some [simp]: "returnM x c = Some (y, c') \<longleftrightarrow> y = x \<and> c' = c"
  by (auto simp: returnM_def)

lemma throwM_eq_Some [simp]: "throwM c \<noteq> Some r"
  by (simp add: throwM_def)

lemma getContext_eq_Some [simp]: "getContext c = Some (x, c') \<longleftrightarrow> x = c \<and> c' = c"
  by (auto simp: getContext_def)

lemma deref_eq_Some [simp]: "deref x c = Some (v, c') \<longleftrightarrow> x = Some v \<and> c' = c"
  by (auto simp: deref_def split: option.splits)

lemma setRef_eq_Some [simp]:
  "setRef name node c = Some (u, c') \<longleftrightarrow> c' = c\<lparr>refs := (refs c)(name \<mapsto> node)\<rparr>"
  by (auto simp: setRef_def)

lemma preserves_returnM [pres]: "preserves (returnM x)"
  by (simp add: preserves_def)

lemma preserves_throwM [pres]: "preserves throwM"
  by (simp add: preserves_def)

lemma preserves_getContext [pres]: "preserves getContext"
  by (simp add: preserves_def)

lemma preserves_deref [pres]: "preserves (deref x)"
  by (simp add: preserves_def)

lemma preserves_declarations0 [pres]: "preserves (declarations0 sy)"
  by (simp add: declarations0_def preserves_returnM preserves_throwM split: option.splits)

lemma preserves_createBindingM [pres]: "preserves (createBindingM hp lib name)"
  by (auto simp: preserves_def createBindingM_def split: prod.splits)

lemma preserves_bindM [pres]:
  "preserves m \<Longrightarrow> (\<And>x. preserves (f x)) \<Longrightarrow> preserves (bindM m f)"
  unfolding preserves_def bindM_eq_Some
  by (blast intro: map_le_trans)

lemma preserves_if [pres]:
  "(b \<Longrightarrow> preserves x) \<Longrightarrow> (\<not> b \<Longrightarrow> preserves y) \<Longrightarrow> preserves (if b then x else y)"
  by simp

lemma preserves_case_option [pres]:
  "preserves a \<Longrightarrow> (\<And>v. preserves (f v)) \<Longrightarrow> preserves (case x of None \<Rightarrow> a | Some v \<Rightarrow> f v)"
  by (simp split: option.splits)

lemma preserves_case_bool [pres]:
  "preserves a \<Longrightarrow> preserves b \<Longrightarrow> preserves (case x of True \<Rightarrow> a | False \<Rightarrow> b)"
  by (simp split: bool.splits)

lemma preserves_case_prod [pres]:
  "(\<And>a b. preserves (f a b)) \<Longrightarrow> preserves (case p of (a, b) \<Rightarrow> f a b)"
  by (simp split: prod.splits)

lemma preserves_Let [pres]: "preserves (f x) \<Longrightarrow> preserves (Let x f)"
  by simp

lemma preserves_mapM [pres]: "(\<And>x. preserves (f x)) \<Longrightarrow> preserves (mapM f xs)"
  by (induction xs) (simp_all add: pres)

lemma preserves_orElse [pres]: "preserves a \<Longrightarrow> preserves b \<Longrightarrow> preserves (orElse a b)"
  unfolding orElse_def by (intro pres)

lemma preserves_getTypeArguments [pres]:
  "(\<And>c. preserves (rec c)) \<Longrightarrow> preserves (getTypeArguments ck rec t)"
  unfolding getTypeArguments_def by (intro pres)

lemma preserves_includeRef [pres]:
  "(\<And>c. preserves (rec c)) \<Longrightarrow> preserves (includeRef ck rec t refName external)"
  unfolding includeRef_def by (intro pres)

lemma preserves_getKeyOfType [pres]:
  "(\<And>c. preserves (rec c)) \<Longrightarrow> preserves (getKeyOfType rec t)"
  unfolding getKeyOfType_def by (intro pres)

lemma preserves_getUnion [pres]:
  "(\<And>c. preserves (rec c)) \<Longrightarrow> preserves (getUnion rec ts)"
  unfolding getUnion_def by (intro pres)

lemma preserves_includeNode [pres]:
  "(\<And>c. preserves (rec c)) \<Longrightarrow> preserves (includeNode ck hp rec node)"
  unfolding includeNode_def by (intro pres)

lemma preserves_includeHiddenAnonymous [pres]:
  "(\<And>c. preserves (rec c)) \<Longrightarrow> preserves (includeHiddenAnonymous ck hp rec t)"
  unfolding includeHiddenAnonymous_def by (intro pres)

lemma preserves_includeExternal [pres]:
  "(\<And>c. preserves (rec c)) \<Longrightarrow> preserves (includeExternal ck hp rec t)"
  unfolding includeExternal_def by (intro pres)

lemma preserves_includeConstraint [pres]:
  "(\<And>c. preserves (rec c)) \<Longrightarrow> preserves (includeConstraint ck hp rec t)"
  unfolding includeConstraint_def by (intro pres)

lemma preserves_includeDefaultTypeArgument [pres]:
  "(\<And>c. preserves (rec c)) \<Longrightarrow> preserves (includeDefaultTypeArgument ck rec t)"
  unfolding includeDefaultTypeArgument_def by (intro pres)

lemma preserves_includeTypeParameter [pres]:
  "(\<And>c. preserves (rec c)) \<Longrightarrow> preserves (includeTypeParameter ck hp rec t)"
  unfolding includeTypeParameter_def by (intro pres)

lemma preserves_getTypeParameters [pres]:
  "(\<And>c. preserves (rec c)) \<Longrightarrow> preserves (getTypeParameters ck hp rec tps)"
  unfolding getTypeParameters_def by (intro pres)

lemma preserves_includeAnonymousNode [pres]:
  "(\<And>c. preserves (rec c)) \<Longrightarrow> preserves (includeAnonymousNode ck hp rec node)"
  unfolding includeAnonymousNode_def by (intro pres)

lemma preserves_getParameterType [pres]:
  "(\<And>c. preserves (rec c)) \<Longrightarrow> preserves (getParameterType ck hp rec node)"
  unfolding getParameterType_def by (intro pres)

lemma preserves_getFunctionParameters [pres]:
  "(\<And>c. preserves (rec c)) \<Longrightarrow> preserves (getFunctionParameters ck hp rec ps)"
  unfolding getFunctionParameters_def getFunctionParameter_def by (intro pres)

lemma preserves_getFunctionFields [pres]:
  "(\<And>c. preserves (rec c)) \<Longrightarrow> preserves (getFunctionFields ck hp rec sign)"
  unfolding getFunctionFields_def by (intro pres)

lemma preserves_getFunctionType [pres]:
  "(\<And>c. preserves (rec c)) \<Longrightarrow> preserves (getFunctionType ck hp rec sign)"
  unfolding getFunctionType_def by (intro pres)

lemma preserves_getConstructorTypes [pres]:
  "(\<And>c. preserves (rec c)) \<Longrightarrow> preserves (getConstructorTypes ck hp rec t)"
  unfolding getConstructorTypes_def by (intro pres)

lemma preserves_getPropValue [pres]:
  "(\<And>c. preserves (rec c)) \<Longrightarrow> preserves (getPropValue ck hp rec prop)"
  unfolding getPropValue_def by (intro pres)

lemma preserves_getPropType [pres]:
  "(\<And>c. preserves (rec c)) \<Longrightarrow> preserves (getPropType ck hp rec prop)"
  unfolding getPropType_def by (intro pres)

lemma preserves_getIndexType [pres]:
  "(\<And>c. preserves (rec c)) \<Longrightarrow> preserves (getIndexType hp rec t keyType info)"
  unfolding getIndexType_def by (intro pres)

lemma preserves_includeMember [pres]:
  "(\<And>c. preserves (rec c)) \<Longrightarrow> preserves (includeMember ck rec t)"
  unfolding includeMember_def by (intro pres)

lemma preserves_includeBasic [pres]:
  "(\<And>c. preserves (rec c)) \<Longrightarrow> preserves (includeBasic ck hp rec t)"
  unfolding includeBasic_def by (intro pres)

lemma preserves_heritageItem [pres]:
  "(\<And>c. preserves (rec c)) \<Longrightarrow> preserves (heritageItem ck rec tn)"
  unfolding heritageItem_def by (intro pres)

lemma preserves_heritageLoop [pres]:
  "(\<And>c. preserves (rec c)) \<Longrightarrow> preserves (heritageLoop ck rec cls result)"
proof (induction cls arbitrary: result)
  case Nil
  show ?case by (simp add: pres)
next
  case (Cons cl cls)
  show ?case unfolding heritageLoop.simps by (intro pres Cons)
qed

lemma preserves_includeInheritedTypes [pres]:
  "(\<And>c. preserves (rec c)) \<Longrightarrow> preserves (includeInheritedTypes ck rec t)"
  unfolding includeInheritedTypes_def by (intro pres)

lemma preserves_includeIndexSignature [pres]:
  "(\<And>c. preserves (rec c)) \<Longrightarrow>
   preserves (includeIndexSignature ck hp rec getter keyType info t inherited)"
  unfolding includeIndexSignature_def by (intro pres)

lemma preserves_standardObjectFields [pres]:
  "(\<And>c. preserves (rec c)) \<Longrightarrow> preserves (standardObjectFields ck hp rec n t)"
  unfolding standardObjectFields_def by (intro pres)

lemma preserves_includeStandardObject [pres]:
  "(\<And>c. preserves (rec c)) \<Longrightarrow> preserves (includeStandardObject ck hp rec n t)"
  unfolding includeStandardObject_def by (intro pres)

lemma preserves_includeClassObject [pres]:
  "(\<And>c. preserves (rec c)) \<Longrightarrow> preserves (includeClassObject ck hp rec n t)"
  unfolding includeClassObject_def by (intro pres)

lemma preserves_includeMappedObject [pres]:
  "(\<And>c. preserves (rec c)) \<Longrightarrow> preserves (includeMappedObject ck hp rec t)"
  unfolding includeMappedObject_def by (intro pres)

lemma preserves_includeObject [pres]:
  "(\<And>c. preserves (rec c)) \<Longrightarrow> preserves (includeObject ck hp rec n t)"
  unfolding includeObject_def by (intro pres)

lemma preserves_includeIndex [pres]:
  "(\<And>c. preserves (rec c)) \<Longrightarrow> preserves (includeIndex ck rec t)"
  unfolding includeIndex_def by (intro pres)

lemma preserves_includeCombinator [pres]:
  "(\<And>c. preserves (rec c)) \<Longrightarrow> preserves (includeCombinator ck hp rec t)"
  unfolding includeCombinator_def by (intro pres)

lemma preserves_includeReference [pres]:
  "(\<And>c. preserves (rec c)) \<Longrightarrow> preserves (includeReference ck hp rec t)"
  unfolding includeReference_def by (intro pres)

lemma preserves_includeNamed [pres]:
  "(\<And>c. preserves (rec c)) \<Longrightarrow> preserves (includeNamed ck hp rec n t)"
  unfolding includeNamed_def by (intro pres)


lemma preservesD: "preserves m \<Longrightarrow> m c = Some (x, c') \<Longrightarrow> refs c \<subseteq>\<^sub>m refs c'"
  by (auto simp: preserves_def)

lemma map_le_upd_fresh: "m k = None \<Longrightarrow> m(k \<mapsto> v) \<subseteq>\<^sub>m m' \<Longrightarrow> m \<subseteq>\<^sub>m m'(k \<mapsto> w)"
  by (auto simp: map_le_def dom_def)

lemma map_le_lookup: "m \<subseteq>\<^sub>m m' \<Longrightarrow> m k = Some v \<Longrightarrow> m' k = Some v"
  by (metis domI map_le_def)

lemma makeRef_present:
  "hasKey c name \<Longrightarrow>
   makeRef ck hp rec t name cb c = includeRef ck rec t (Some name) None c"
  by (simp add: makeRef_def bindM_def getContext_def returnM_def)

lemma makeRef_inherited_key:
  "name \<in> set objectPrototypeKeys \<Longrightarrow>
   makeRef ck hp rec t name cb c = includeRef ck rec t (Some name) None c"
  by (simp add: makeRef_present hasKey_def)

lemma hasKey_own: "refs c name = Some node \<Longrightarrow> hasKey c name"
  by (simp add: hasKey_def)

lemma not_hasKey_fresh: "\<not> hasKey c name \<Longrightarrow> refs c name = None"
  by (simp add: hasKey_def)

lemma bindM_assoc: "bindM (bindM m f) g = bindM m (\<lambda>x. bindM (f x) g)"
  by (auto simp: bindM_def fun_eq_iff split: option.splits)

lemma makeRef_absent:
  "\<not> hasKey c name \<Longrightarrow>
   makeRef ck hp rec t name cb c =
     (case (if isObjectType hp t \<and> isReferenceType hp t then target (object ck t) else Some t) of
        None \<Rightarrow> None
      | Some t' \<Rightarrow>
          (case cb t' (c\<lparr>refs := (refs c)(name \<mapsto> placeholder name)\<rparr>) of
             None \<Rightarrow> None
           | Some (node, c1) \<Rightarrow>
               includeRef ck rec t (Some name) None (c1\<lparr>refs := (refs c1)(name \<mapsto> node)\<rparr>)))"
  by (simp add: makeRef_def bindM_def getContext_def returnM_def setRef_def deref_def throwM_def
      split: option.splits)

lemma preserves_makeRef [pres]:
  assumes rec: "\<And>c. preserves (rec c)" and cb: "\<And>a. preserves (cb a)"
  shows "preserves (makeRef ck hp rec t name cb)"
  unfolding preserves_def
proof (intro allI impI)
  fix c x c'
  assume run: "makeRef ck hp rec t name cb c = Some (x, c')"
  have iref: "\<And>d. includeRef ck rec t (Some name) None d = Some (x, c') \<Longrightarrow> refs d \<subseteq>\<^sub>m refs c'"
    using preserves_includeRef [OF rec] by (rule preservesD)
  show "refs c \<subseteq>\<^sub>m refs c'"
  proof (cases "hasKey c name")
    case True
    with run show ?thesis by (simp add: makeRef_present iref)
  next
    case False
    then have None: "refs c name = None" by (rule not_hasKey_fresh)
    from run obtain t' node c1 where
      cbrun: "cb t' (c\<lparr>refs := (refs c)(name \<mapsto> placeholder name)\<rparr>) = Some (node, c1)" and
      last: "includeRef ck rec t (Some name) None (c1\<lparr>refs := (refs c1)(name \<mapsto> node)\<rparr>) = Some (x, c')"
      by (auto simp: makeRef_absent [OF False] split: option.splits if_splits)
    from preservesD [OF cb cbrun] have "(refs c)(name \<mapsto> placeholder name) \<subseteq>\<^sub>m refs c1"
      by simp
    with None have "refs c \<subseteq>\<^sub>m (refs c1)(name \<mapsto> node)"
      by (rule map_le_upd_fresh)
    moreover from iref [OF last] have "(refs c1)(name \<mapsto> node) \<subseteq>\<^sub>m refs c'" by simp
    ultimately show ?thesis by (rule map_le_trans)
  qed
qed

lemma registerAlias_frame:
  assumes rec: "\<And>c. preserves (rec c)" and fresh: "refs c name = None"
    and run: "registerAlias ck hp rec decl name c = Some (u, c')"
  shows "refs c \<subseteq>\<^sub>m refs c'"
proof -
  let ?build = "bindM (case typeParameters (object ck decl) of
              None \<Rightarrow> returnM []
            | Some ps \<Rightarrow> mapM (includeTypeParameter ck hp rec) ps) (\<lambda>tps.
     bindM (rec (CIncludeAnonymous (getTypeAtLocation ck (Some decl)))) (\<lambda>child.
     returnM (TypeModelAlias (getComment (symbol (object ck decl))) tps child)))"
  have pb: "preserves ?build" using rec by (intro pres)
  from run obtain node c1 where
    b: "?build (c\<lparr>refs := (refs c)(name \<mapsto> placeholder name)\<rparr>) = Some (node, c1)" and
    c': "c' = c1\<lparr>refs := (refs c1)(name \<mapsto> node)\<rparr>"
    by (auto simp: registerAlias_def bindM_eq_Some)
  from preservesD [OF pb b] have "(refs c)(name \<mapsto> placeholder name) \<subseteq>\<^sub>m refs c1" by simp
  with fresh have "refs c \<subseteq>\<^sub>m (refs c1)(name \<mapsto> node)" by (rule map_le_upd_fresh)
  with c' show ?thesis by simp
qed

lemma makeAliasRef_unfold:
  "makeAliasRef ck hp rec t name =
     bindM (deref (aliasSymbol (object ck t))) (\<lambda>alias.
     bindM (declarations0 alias) (\<lambda>d0.
     bindM (deref d0) (\<lambda>decl.
     bindM (includeExternal ck hp rec decl) (\<lambda>ext.
     bindM (if ext \<noteq> NoNode \<and> kindOf ext = ''ref'' then returnM (refNameField ext)
            else
              bindM getContext (\<lambda>context.
              if \<not> hasKey context name then
                bindM (registerAlias ck hp rec decl name) (\<lambda>_. returnM (Some name))
              else returnM (Some name))) (\<lambda>refName.
     bindM (case aliasTypeArguments (object ck t) of
              None \<Rightarrow> returnM []
            | Some targs \<Rightarrow> mapM (\<lambda>a. rec (CIncludeType a)) targs) (\<lambda>ts.
     bindM getContext (\<lambda>context.
     returnM (TypeModelRef (normalizeTypeParameters ck context t (Some decl) ts refName)
                refName None))))))))"
  unfolding makeAliasRef_def registerAlias_def
  by (simp only: bindM_assoc)

lemma preserves_registerStep:
  assumes rec: "\<And>c. preserves (rec c)"
  shows "preserves (bindM getContext (\<lambda>context.
              if \<not> hasKey context name then
                bindM (registerAlias ck hp rec decl name) (\<lambda>_. returnM (Some name))
              else returnM (Some name)))"
  unfolding preserves_def
  by (auto simp: bindM_eq_Some dest: registerAlias_frame [OF rec] not_hasKey_fresh split: if_splits)

lemma preserves_makeAliasRef [pres]:
  assumes rec: "\<And>c. preserves (rec c)"
  shows "preserves (makeAliasRef ck hp rec t name)"
  unfolding makeAliasRef_unfold
  by (intro pres preserves_registerStep rec)

lemma preserves_visitBody:
  assumes rec: "\<And>c. preserves (rec c)"
  shows "preserves (visitBody ck hp rec n c)"
proof (cases c)
  case (CIncludeType t)
  show ?thesis unfolding visitBody_def CIncludeType call.case includeTypeBody_def
    by (intro pres rec)
next
  case (CGetTypeModel t name)
  show ?thesis unfolding visitBody_def CGetTypeModel call.case getTypeModelBody_def
    by (intro pres rec)
next
  case (CIncludeAnonymous t)
  show ?thesis unfolding visitBody_def CIncludeAnonymous call.case includeAnonymousBody_def
    by (intro pres rec)
qed

lemma preserves_run: "preserves (run ck hp n c)"
proof (induction n arbitrary: c)
  case 0
  show ?case by (simp add: pres)
next
  case (Suc n)
  show ?case unfolding run.simps by (rule preserves_visitBody) (rule Suc)
qed





lemma bindM_Some_imp:
  "(bindM m f c = Some (r, c') \<longrightarrow> Q) \<longleftrightarrow>
   (\<forall>x c1. m c = Some (x, c1) \<longrightarrow> f x c1 = Some (r, c') \<longrightarrow> Q)"
  by (auto simp: bindM_eq_Some)

lemma includeBasic_no_match:
  "isTypeObject (object ck t) \<and> firstMatch (basicClassifiers ck hp) t = None \<longrightarrow>
     includeBasic ck hp rec t c = Some (NoNode, c)"
  unfolding includeBasic_def basicClassifiers_def Let_def callIsUnion_def firstMatch.simps
  by (cases "isTypeObject (object ck t)";
      cases "isUnion (object ck t)";
      (simp add: returnM_def split del: if_split)?;
      cases "hasFlag (flags (object ck t)) TypeFlags_Any";
      (simp add: returnM_def split del: if_split)?;
      cases "hasFlag (flags (object ck t)) TypeFlags_Unknown";
      (simp add: returnM_def split del: if_split)?;
      cases "isStringLiteral (object ck t)";
      (simp add: returnM_def split del: if_split)?;
      cases "isNumberLiteral (object ck t)";
      (simp add: returnM_def split del: if_split)?;
      cases "hasFlag (flags (object ck t)) TypeFlags_BooleanLiteral";
      (simp add: returnM_def split del: if_split)?;
      cases "hasFlag (flags (object ck t)) TypeFlags_EnumLiteral";
      (simp add: returnM_def split del: if_split)?;
      cases "hasFlag (flags (object ck t)) TypeFlags_Enum";
      (simp add: returnM_def split del: if_split)?;
      cases "isBigIntLiteral hp t";
      (simp add: returnM_def split del: if_split)?;
      cases "hasFlag (flags (object ck t)) TypeFlags_String";
      (simp add: returnM_def split del: if_split)?;
      cases "hasFlag (flags (object ck t)) TypeFlags_Boolean";
      (simp add: returnM_def split del: if_split)?;
      cases "hasFlag (flags (object ck t)) TypeFlags_Number";
      (simp add: returnM_def split del: if_split)?;
      cases "hasFlag (flags (object ck t)) TypeFlags_BigInt";
      (simp add: returnM_def split del: if_split)?;
      cases "hasFlag (flags (object ck t)) TypeFlags_ESSymbol";
      (simp add: returnM_def split del: if_split)?;
      cases "hasFlag (flags (object ck t)) TypeFlags_UniqueESSymbol";
      (simp add: returnM_def split del: if_split)?;
      cases "hasFlag (flags (object ck t)) TypeFlags_Void";
      (simp add: returnM_def split del: if_split)?;
      cases "hasFlag (flags (object ck t)) TypeFlags_Undefined";
      (simp add: returnM_def split del: if_split)?;
      cases "hasFlag (flags (object ck t)) TypeFlags_Null";
      (simp add: returnM_def split del: if_split)?;
      cases "hasFlag (flags (object ck t)) TypeFlags_Never";
      (simp add: returnM_def split del: if_split)?;
      cases "isConditionalType hp t";
      (simp add: returnM_def split del: if_split)?;
      cases "isSubstitutionType hp t";
      (simp add: returnM_def split del: if_split)?;
      cases "hasFlag (flags (object ck t)) TypeFlags_NonPrimitive";
      (simp add: returnM_def split del: if_split)?)

lemma includeBasic_first_match:
  "includeBasic ck hp rec t c = Some (r, c') \<longrightarrow>
     (case firstMatch (basicClassifiers ck hp) t of
        None \<Rightarrow> r = NoNode \<and> c' = c
      | Some k \<Rightarrow> kindOf r = k)"
  unfolding includeBasic_def basicClassifiers_def Let_def callIsUnion_def firstMatch.simps
  by (cases "isTypeObject (object ck t)";
      cases "isUnion (object ck t)";
      (simp add: bindM_Some_imp split del: if_split)?;
      cases "hasFlag (flags (object ck t)) TypeFlags_Any";
      (simp add: bindM_Some_imp split del: if_split)?;
      cases "hasFlag (flags (object ck t)) TypeFlags_Unknown";
      (simp add: bindM_Some_imp split del: if_split)?;
      cases "isStringLiteral (object ck t)";
      (simp add: bindM_Some_imp split del: if_split)?;
      cases "isNumberLiteral (object ck t)";
      (simp add: bindM_Some_imp split del: if_split)?;
      cases "hasFlag (flags (object ck t)) TypeFlags_BooleanLiteral";
      (simp add: bindM_Some_imp split del: if_split)?;
      cases "hasFlag (flags (object ck t)) TypeFlags_EnumLiteral";
      (simp add: bindM_Some_imp split del: if_split)?;
      cases "hasFlag (flags (object ck t)) TypeFlags_Enum";
      (simp add: bindM_Some_imp split del: if_split)?;
      cases "isBigIntLiteral hp t";
      (simp add: bindM_Some_imp split del: if_split)?;
      cases "hasFlag (flags (object ck t)) TypeFlags_String";
      (simp add: bindM_Some_imp split del: if_split)?;
      cases "hasFlag (flags (object ck t)) TypeFlags_Boolean";
      (simp add: bindM_Some_imp split del: if_split)?;
      cases "hasFlag (flags (object ck t)) TypeFlags_Number";
      (simp add: bindM_Some_imp split del: if_split)?;
      cases "hasFlag (flags (object ck t)) TypeFlags_BigInt";
      (simp add: bindM_Some_imp split del: if_split)?;
      cases "hasFlag (flags (object ck t)) TypeFlags_ESSymbol";
      (simp add: bindM_Some_imp split del: if_split)?;
      cases "hasFlag (flags (object ck t)) TypeFlags_UniqueESSymbol";
      (simp add: bindM_Some_imp split del: if_split)?;
      cases "hasFlag (flags (object ck t)) TypeFlags_Void";
      (simp add: bindM_Some_imp split del: if_split)?;
      cases "hasFlag (flags (object ck t)) TypeFlags_Undefined";
      (simp add: bindM_Some_imp split del: if_split)?;
      cases "hasFlag (flags (object ck t)) TypeFlags_Null";
      (simp add: bindM_Some_imp split del: if_split)?;
      cases "hasFlag (flags (object ck t)) TypeFlags_Never";
      (simp add: bindM_Some_imp split del: if_split)?;
      cases "isConditionalType hp t";
      (simp add: bindM_Some_imp split del: if_split)?;
      cases "isSubstitutionType hp t";
      (simp add: bindM_Some_imp split del: if_split)?;
      cases "hasFlag (flags (object ck t)) TypeFlags_NonPrimitive";
      (simp add: bindM_Some_imp split del: if_split)?)

lemma includeBasic_stages:
  assumes ty: "isTypeObject (object ck t)"
  shows "includeBasic ck hp rec t = firstStage (basicStages ck hp rec) t"
  unfolding includeBasic_def basicStages_def basicClassifiers_def basicConstructors_def Let_def
    callIsUnion_def enumLiteralNode_def enumNode_def conditionalNode_def substitutionNode_def
  using ty
  by (cases "hasFlag (flags (object ck t)) TypeFlags_EnumLiteral";
      cases "hasFlag (flags (object ck t)) TypeFlags_Enum";
      cases "isUnion (object ck t)";
      simp split del: if_split cong: if_cong)

lemma basicStages_classifiers:
  "map fst (basicStages ck hp rec) = basicClassifiers ck hp"
  by (simp add: basicStages_def basicClassifiers_def basicConstructors_def)

lemma basicClassifiers_kinds: "map fst (basicClassifiers ck hp) = basicKinds"
  by (simp add: basicClassifiers_def basicKinds_def)


lemma declarations0_eq_Some [simp]:
  "declarations0 sy c = Some (d, c') \<longleftrightarrow>
     (\<exists>ds. declarations sy = Some ds \<and> d = (case ds of [] \<Rightarrow> None | x # _ \<Rightarrow> Some x) \<and> c' = c)"
  by (auto simp: declarations0_def split: option.splits)


lemma includeRef_result:
  "includeRef ck rec t refName ext c = Some (r, c') \<Longrightarrow> \<exists>ts. r = TypeModelRef ts refName ext"
  by (auto simp: includeRef_def bindM_eq_Some)

lemma registerAlias_eq_Some:
  "registerAlias ck hp rec decl name c0 = Some (u, c3) \<longleftrightarrow>
     (\<exists>tps c1 child c2.
        getTypeParameters ck hp rec (typeParameters (object ck decl))
          (c0\<lparr>refs := (refs c0)(name \<mapsto> placeholder name)\<rparr>) = Some (tps, c1)
      \<and> rec (CIncludeAnonymous (getTypeAtLocation ck (Some decl))) c1 = Some (child, c2)
      \<and> c3 = c2\<lparr>refs := (refs c2)(name \<mapsto>
                 TypeModelAlias (getComment (symbol (object ck decl))) tps child)\<rparr>)"
  unfolding registerAlias_def getTypeParameters_def
  by (auto simp: bindM_eq_Some)

lemma makeRef_register_then_fill:
  assumes rec: "\<And>d. preserves (rec d)" and cb: "\<And>a. preserves (cb a)"
    and fresh: "\<not> hasKey c name"
    and run: "makeRef ck hp rec t name cb c = Some (r, c')"
  shows "\<exists>t' node c1 ts.
      cb t' (c\<lparr>refs := (refs c)(name \<mapsto> placeholder name)\<rparr>) = Some (node, c1)
    \<and> refs c1 name = Some (placeholder name)
    \<and> includeRef ck rec t (Some name) None (c1\<lparr>refs := (refs c1)(name \<mapsto> node)\<rparr>) = Some (r, c')
    \<and> refs c' name = Some node
    \<and> r = TypeModelRef ts (Some name) None"
proof -
  from run obtain t' node c1 where
    cbrun: "cb t' (c\<lparr>refs := (refs c)(name \<mapsto> placeholder name)\<rparr>) = Some (node, c1)" and
    last: "includeRef ck rec t (Some name) None (c1\<lparr>refs := (refs c1)(name \<mapsto> node)\<rparr>) = Some (r, c')"
    by (auto simp: makeRef_absent [OF fresh] split: option.splits if_splits)
  from preservesD [OF cb cbrun] have "refs c1 name = Some (placeholder name)"
    by (auto intro: map_le_lookup)
  moreover from preservesD [OF preserves_includeRef [OF rec] last]
  have "refs c' name = Some node"
    by (auto intro: map_le_lookup)
  moreover from includeRef_result [OF last] obtain ts where "r = TypeModelRef ts (Some name) None"
    by blast
  ultimately show ?thesis using cbrun last by blast
qed

lemma makeRef_again:
  assumes rec: "\<And>d. preserves (rec d)"
    and present: "refs c name = Some node"
    and run: "makeRef ck hp rec t name cb c = Some (r, c')"
  shows "(\<exists>ts. r = TypeModelRef ts (Some name) None) \<and> refs c' name = Some node
     \<and> includeRef ck rec t (Some name) None c = Some (r, c')"
proof -
  from present run have last: "includeRef ck rec t (Some name) None c = Some (r, c')"
    by (simp add: makeRef_present hasKey_own)
  from preservesD [OF preserves_includeRef [OF rec] last] present
  have "refs c' name = Some node" by (auto intro: map_le_lookup)
  with includeRef_result [OF last] last show ?thesis by blast
qed

lemma makeAliasRef_result:
  "makeAliasRef ck hp rec t name c = Some (r, c') \<Longrightarrow> \<exists>ts refName. r = TypeModelRef ts refName None"
  by (auto simp: makeAliasRef_def bindM_eq_Some)

lemma makeAliasRef_register_then_fill:
  assumes rec: "\<And>d. preserves (rec d)"
    and al: "aliasSymbol (object ck t) = Some alias" "declarations alias = Some (decl # ds)"
    and ext: "includeExternal ck hp rec decl c = Some (ext, c0)" "ext = NoNode \<or> kindOf ext \<noteq> ''ref''"
    and fresh: "\<not> hasKey c0 name"
    and run: "makeAliasRef ck hp rec t name c = Some (r, c')"
  shows "\<exists>tps c1 child c2 ts.
      getTypeParameters ck hp rec (typeParameters (object ck decl))
        (c0\<lparr>refs := (refs c0)(name \<mapsto> placeholder name)\<rparr>) = Some (tps, c1)
    \<and> rec (CIncludeAnonymous (getTypeAtLocation ck (Some decl))) c1 = Some (child, c2)
    \<and> refs c2 name = Some (placeholder name)
    \<and> refs c' name = Some (TypeModelAlias (getComment (symbol (object ck decl))) tps child)
    \<and> r = TypeModelRef ts (Some name) None"
proof -
  let ?targs = "case aliasTypeArguments (object ck t) of
              None \<Rightarrow> returnM []
            | Some targs \<Rightarrow> mapM (\<lambda>a. rec (CIncludeType a)) targs"
  have pt: "preserves ?targs" using rec by (intro pres)
  from run al ext fresh obtain u c3 ts0 where
    reg: "registerAlias ck hp rec decl name c0 = Some (u, c3)" and
    targs: "?targs c3 = Some (ts0, c')" and
    r: "r = TypeModelRef (normalizeTypeParameters ck c' t (Some decl) ts0 (Some name)) (Some name) None"
    unfolding makeAliasRef_unfold
    by (auto simp: bindM_eq_Some split: if_splits)
  from reg obtain tps c1 child c2 where
    tps: "getTypeParameters ck hp rec (typeParameters (object ck decl))
          (c0\<lparr>refs := (refs c0)(name \<mapsto> placeholder name)\<rparr>) = Some (tps, c1)" and
    child: "rec (CIncludeAnonymous (getTypeAtLocation ck (Some decl))) c1 = Some (child, c2)" and
    c3: "c3 = c2\<lparr>refs := (refs c2)(name \<mapsto>
                 TypeModelAlias (getComment (symbol (object ck decl))) tps child)\<rparr>"
    unfolding registerAlias_eq_Some by blast
  from preservesD [OF preserves_getTypeParameters [OF rec] tps]
  have "refs c1 name = Some (placeholder name)" by (auto intro: map_le_lookup)
  with preservesD [OF rec child] have ph: "refs c2 name = Some (placeholder name)"
    by (auto intro: map_le_lookup)
  from preservesD [OF pt targs] c3
  have "refs c' name = Some (TypeModelAlias (getComment (symbol (object ck decl))) tps child)"
    by (auto intro: map_le_lookup)
  with tps child ph r show ?thesis by blast
qed

lemma makeAliasRef_again:
  assumes rec: "\<And>d. preserves (rec d)"
    and al: "aliasSymbol (object ck t) = Some alias" "declarations alias = Some (decl # ds)"
    and ext: "includeExternal ck hp rec decl c = Some (ext, c0)" "ext = NoNode \<or> kindOf ext \<noteq> ''ref''"
    and present: "refs c name = Some node"
    and run: "makeAliasRef ck hp rec t name c = Some (r, c')"
  shows "(\<exists>ts. r = TypeModelRef ts (Some name) None) \<and> refs c' name = Some node"
proof -
  from preservesD [OF preserves_makeAliasRef [OF rec] run] present
  have keep: "refs c' name = Some node" by (auto intro: map_le_lookup)
  from preservesD [OF preserves_includeExternal [OF rec] ext(1)] present
  have "refs c0 name = Some node" by (auto intro: map_le_lookup)
  then have "hasKey c0 name" by (rule hasKey_own)
  with run al ext have "\<exists>ts. r = TypeModelRef ts (Some name) None"
    unfolding makeAliasRef_unfold
    by (auto simp: bindM_eq_Some split: if_splits)
  with keep show ?thesis by blast
qed


text \<open>What \<^verbatim>\<open>makeRef\<close> and \<^verbatim>\<open>makeAliasRef\<close> do for a name that is not a key of the
  registry, own or inherited, and for a name that is one.\<close>

lemma register_then_fill:
  "(\<not> hasKey c name
      \<and> makeRef ck hp (run ck hp n) t name (includeNamed ck hp (run ck hp n) k) c = Some (r, c') \<longrightarrow>
      (\<exists>t' node c1 ts.
          includeNamed ck hp (run ck hp n) k t' (c\<lparr>refs := (refs c)(name \<mapsto> placeholder name)\<rparr>)
            = Some (node, c1)
        \<and> refs c1 name = Some (placeholder name)
        \<and> refs c' name = Some node
        \<and> r = TypeModelRef ts (Some name) None
        \<and> (\<forall>r2 c2. makeRef ck hp (run ck hp n) t name (includeNamed ck hp (run ck hp n) k) c'
                      = Some (r2, c2) \<longrightarrow>
               (\<exists>ts2. r2 = TypeModelRef ts2 (Some name) None) \<and> refs c2 name = Some node)))
   \<and> (\<forall>cx. hasKey cx name \<longrightarrow>
          makeRef ck hp (run ck hp n) t name (includeNamed ck hp (run ck hp n) k) cx
            = includeRef ck (run ck hp n) t (Some name) None cx)
   \<and> (aliasSymbol (object ck t) = Some al \<and> declarations al = Some (decl # ds)
        \<and> includeExternal ck hp (run ck hp n) decl c = Some (ext, c0)
        \<and> (ext = NoNode \<or> kindOf ext \<noteq> ''ref'') \<and> \<not> hasKey c0 name
        \<and> makeAliasRef ck hp (run ck hp n) t name c = Some (r, c') \<longrightarrow>
      (\<exists>tps c1 child c2 ts.
          getTypeParameters ck hp (run ck hp n) (typeParameters (object ck decl))
            (c0\<lparr>refs := (refs c0)(name \<mapsto> placeholder name)\<rparr>) = Some (tps, c1)
        \<and> includeAnonymous ck hp n (getTypeAtLocation ck (Some decl)) c1 = Some (child, c2)
        \<and> refs c2 name = Some (placeholder name)
        \<and> refs c' name = Some (TypeModelAlias (getComment (symbol (object ck decl))) tps child)
        \<and> r = TypeModelRef ts (Some name) None))
   \<and> (aliasSymbol (object ck t) = Some al \<and> declarations al = Some (decl # ds)
        \<and> includeExternal ck hp (run ck hp n) decl c = Some (ext, c0)
        \<and> (ext = NoNode \<or> kindOf ext \<noteq> ''ref'') \<and> refs c name = Some node0
        \<and> makeAliasRef ck hp (run ck hp n) t name c = Some (r, c') \<longrightarrow>
      (\<exists>ts. r = TypeModelRef ts (Some name) None) \<and> refs c' name = Some node0)"
proof -
  have rec: "\<And>d. preserves (run ck hp n d)" by (rule preserves_run)
  have cb: "\<And>a. preserves (includeNamed ck hp (run ck hp n) k a)"
    by (rule preserves_includeNamed) (rule rec)
  have p1: "\<not> hasKey c name
      \<and> makeRef ck hp (run ck hp n) t name (includeNamed ck hp (run ck hp n) k) c = Some (r, c') \<longrightarrow>
      (\<exists>t' node c1 ts.
          includeNamed ck hp (run ck hp n) k t' (c\<lparr>refs := (refs c)(name \<mapsto> placeholder name)\<rparr>)
            = Some (node, c1)
        \<and> refs c1 name = Some (placeholder name)
        \<and> refs c' name = Some node
        \<and> r = TypeModelRef ts (Some name) None
        \<and> (\<forall>r2 c2. makeRef ck hp (run ck hp n) t name (includeNamed ck hp (run ck hp n) k) c'
                      = Some (r2, c2) \<longrightarrow>
               (\<exists>ts2. r2 = TypeModelRef ts2 (Some name) None) \<and> refs c2 name = Some node))"
  proof (intro impI, elim conjE)
    assume fresh: "\<not> hasKey c name"
      and run: "makeRef ck hp (run ck hp n) t name (includeNamed ck hp (run ck hp n) k) c = Some (r, c')"
    from makeRef_register_then_fill [OF rec cb fresh run] obtain t' node c1 ts where
      f: "includeNamed ck hp (run ck hp n) k t' (c\<lparr>refs := (refs c)(name \<mapsto> placeholder name)\<rparr>)
            = Some (node, c1)"
        "refs c1 name = Some (placeholder name)" "refs c' name = Some node"
        "r = TypeModelRef ts (Some name) None"
      by blast
    have "\<forall>r2 c2. makeRef ck hp (run ck hp n) t name (includeNamed ck hp (run ck hp n) k) c'
                      = Some (r2, c2) \<longrightarrow>
               (\<exists>ts2. r2 = TypeModelRef ts2 (Some name) None) \<and> refs c2 name = Some node"
      using makeRef_again [where rec = "run ck hp n", OF rec f(3)] by blast
    with f show "\<exists>t' node c1 ts.
          includeNamed ck hp (run ck hp n) k t' (c\<lparr>refs := (refs c)(name \<mapsto> placeholder name)\<rparr>)
            = Some (node, c1)
        \<and> refs c1 name = Some (placeholder name)
        \<and> refs c' name = Some node
        \<and> r = TypeModelRef ts (Some name) None
        \<and> (\<forall>r2 c2. makeRef ck hp (run ck hp n) t name (includeNamed ck hp (run ck hp n) k) c'
                      = Some (r2, c2) \<longrightarrow>
               (\<exists>ts2. r2 = TypeModelRef ts2 (Some name) None) \<and> refs c2 name = Some node)"
      by blast
  qed
  have p2: "\<forall>cx. hasKey cx name \<longrightarrow>
          makeRef ck hp (run ck hp n) t name (includeNamed ck hp (run ck hp n) k) cx
            = includeRef ck (run ck hp n) t (Some name) None cx"
    by (simp add: makeRef_present)
  have p3: "aliasSymbol (object ck t) = Some al \<and> declarations al = Some (decl # ds)
        \<and> includeExternal ck hp (run ck hp n) decl c = Some (ext, c0)
        \<and> (ext = NoNode \<or> kindOf ext \<noteq> ''ref'') \<and> \<not> hasKey c0 name
        \<and> makeAliasRef ck hp (run ck hp n) t name c = Some (r, c') \<longrightarrow>
      (\<exists>tps c1 child c2 ts.
          getTypeParameters ck hp (run ck hp n) (typeParameters (object ck decl))
            (c0\<lparr>refs := (refs c0)(name \<mapsto> placeholder name)\<rparr>) = Some (tps, c1)
        \<and> includeAnonymous ck hp n (getTypeAtLocation ck (Some decl)) c1 = Some (child, c2)
        \<and> refs c2 name = Some (placeholder name)
        \<and> refs c' name = Some (TypeModelAlias (getComment (symbol (object ck decl))) tps child)
        \<and> r = TypeModelRef ts (Some name) None)"
    unfolding includeAnonymous_def
    using makeAliasRef_register_then_fill [where rec = "run ck hp n", OF rec]
    by blast
  have p4: "aliasSymbol (object ck t) = Some al \<and> declarations al = Some (decl # ds)
        \<and> includeExternal ck hp (run ck hp n) decl c = Some (ext, c0)
        \<and> (ext = NoNode \<or> kindOf ext \<noteq> ''ref'') \<and> refs c name = Some node0
        \<and> makeAliasRef ck hp (run ck hp n) t name c = Some (r, c') \<longrightarrow>
      (\<exists>ts. r = TypeModelRef ts (Some name) None) \<and> refs c' name = Some node0"
    using makeAliasRef_again [where rec = "run ck hp n", OF rec]
    by blast
  from p1 p2 p3 p4 show ?thesis by (intro conjI)
qed


subsection \<open>Normalizing type arguments\<close>

lemma popWhileLonger_take: "popWhileLonger m ts = take m ts"
proof (induction m ts rule: popWhileLonger.induct)
  case (1 m ts)
  show ?case
  proof (cases "length ts > m")
    case True
    have "popWhileLonger m ts = popWhileLonger m (butlast ts)"
      by (subst popWhileLonger.simps) (simp only: True if_True)
    also have "\<dots> = take m (butlast ts)" using True by (rule "1.IH")
    also have "\<dots> = take m ts" using True by (simp only: take_butlast)
    finally show ?thesis .
  next
    case False
    have "popWhileLonger m ts = ts"
      by (subst popWhileLonger.simps) (simp only: False if_False)
    with False show ?thesis by simp
  qed
qed


lemma popDefaults_take:
  "popDefaults k defaults supplied ts =
     take (length ts - length (takeWhile (suppliedDefault defaults supplied) (rev [0..<k]))) ts"
proof (induction k arbitrary: ts)
  case 0
  show ?case by simp
next
  case (Suc k)
  let ?P = "suppliedDefault defaults supplied"
  let ?j = "length (takeWhile ?P (rev [0..<k]))"
  show ?case
  proof (cases "?P k")
    case False
    then have "\<not> truthyId (idAt defaults k) \<or> idAt defaults k \<noteq> idAt supplied k"
      unfolding suppliedDefault_def by blast
    then have "popDefaults (Suc k) defaults supplied ts = ts"
      unfolding popDefaults.simps Let_def by (rule if_P)
    moreover have "takeWhile ?P (rev [0..<Suc k]) = []" using False by simp
    ultimately show ?thesis by simp
  next
    case True
    then have "\<not> (\<not> truthyId (idAt defaults k) \<or> idAt defaults k \<noteq> idAt supplied k)"
      unfolding suppliedDefault_def by blast
    then have "popDefaults (Suc k) defaults supplied ts = popDefaults k defaults supplied (butlast ts)"
      unfolding popDefaults.simps Let_def by (rule if_not_P)
    also have "\<dots> = take (length (butlast ts) - ?j) (butlast ts)" by (rule Suc.IH)
    also have "\<dots> = take (length ts - Suc ?j) ts"
    proof (cases ts rule: rev_cases)
      case Nil
      then show ?thesis by simp
    next
      case (snoc ys y)
      then show ?thesis by simp
    qed
    also have "Suc ?j = length (takeWhile ?P (rev [0..<Suc k]))" using True by simp
    finally show ?thesis .
  qed
qed

lemma maxTypes_count:
  "maxTypes c refName =
     (case registeredParameterCount c refName of None \<Rightarrow> MAX_SAFE_INTEGER | Some m \<Rightarrow> m)"
  unfolding maxTypes_def registeredParameterCount_def
  by (cases "refs c (propertyKey refName)") (simp_all split: option.splits)

lemma truncate_registered:
  assumes "length ts \<le> MAX_SAFE_INTEGER"
  shows "popWhileLonger (maxTypes c refName) ts = truncateToRegistered c refName ts"
proof (cases "registeredParameterCount c refName")
  case None
  with assms show ?thesis
    unfolding popWhileLonger_take maxTypes_count truncateToRegistered_def by simp
next
  case (Some m)
  then show ?thesis
    unfolding popWhileLonger_take maxTypes_count truncateToRegistered_def by simp
qed

lemma normalizeTypeParameters_eq:
  assumes len: "length ts \<le> MAX_SAFE_INTEGER"
  shows "normalizeTypeParameters ck c t decl ts refName =
           dropTrailingDefaults (typeParameterIds ck decl) (typeArgumentIds ck t)
             (truncateToRegistered c refName ts)"
  unfolding normalizeTypeParameters_def dropTrailingDefaults_def trailingDefaults_def
  by (simp only: truncate_registered [OF len] popDefaults_take)

lemma includeType_generic_instances: "map_option fst (bindM (includeType genericChecker (exHelpers genericObjects) 12 8) (\<lambda>a.
                 bindM (includeType genericChecker (exHelpers genericObjects) 12 9) (\<lambda>b.
                 bindM getContext (\<lambda>c. returnM (a, b, refs c ''G'')))) emptyContext)
        = Some (TypeModelRef [TypeModelBasic ''number''] (Some ''G'') None,
                TypeModelRef [TypeModelBasic ''number'', TypeModelBasic ''boolean''] (Some ''G'') None,
                Some genericNode)"
  by code_simp

lemma placeholder_drops_all_arguments:
  "normalizeTypeParameters genericChecker
     (emptyContext\<lparr>refs := [''G'' \<mapsto> placeholder ''G'']\<rparr>) 1 (Some 10)
     [TypeModelRef [] (Some ''T'') None, TypeModelRef [] (Some ''U'') None] (Some ''G'') = []"
  by code_simp


subsection \<open>Inherited member ids\<close>

lemma interface_not_ClassOrObject:
  "\<not> isClassOrObject (Some (TypeModelInterface es cm ps ts m))"
  by (simp add: isClassOrObject_def allowedBaseTypes_def)

lemma getAllPropIds_registered_interface:
  "refs c name = Some (TypeModelInterface es cm ps ts m) \<Longrightarrow>
   getAllPropIds (Suc n) ck c [TypeModelRef targs (Some name) None] = Some []"
  by (simp add: interface_not_ClassOrObject propertyKey_def)


subsection \<open>Types that no stage recognizes\<close>

lemma orElse_NoNode:
  "a c = Some (NoNode, c1) \<Longrightarrow> orElse a b c = b c1"
  by (simp add: orElse_def bindM_def)

lemma includeCombinator_no_match:
  "\<not> isTupleType hp t \<Longrightarrow> \<not> isReferenceType hp t
   \<Longrightarrow> \<not> (isTypeObject (object ck t) \<and> isUnion (object ck t))
   \<Longrightarrow> \<not> (isTypeObject (object ck t) \<and> isIntersection (object ck t))
   \<Longrightarrow> \<not> isIndexType hp t
   \<Longrightarrow> includeCombinator ck hp rec t c = Some (NoNode, c)"
  by (auto simp: includeCombinator_def Let_def returnM_def)

lemma includeHiddenAnonymous_no_match:
  "\<not> isAnonymous hp (map_option symbol_name (symbol (object ck t)))
   \<Longrightarrow> includeHiddenAnonymous ck hp rec t c = Some (NoNode, c)"
  by (simp add: includeHiddenAnonymous_def Let_def returnM_def)

lemma includeObject_no_match:
  "\<not> isObjectType hp t \<Longrightarrow> includeObject ck hp rec n t c = Some (NoNode, c)"
  by (simp add: includeObject_def returnM_def)

lemma includeReference_no_match:
  "kind (object ck t) \<noteq> Some TypeAliasDeclaration
   \<Longrightarrow> includeReference ck hp rec t c = Some (NoNode, c)"
  by (simp add: includeReference_def Let_def returnM_def)

lemma includeAnonymous_unidentified:
  assumes "includeBasic ck hp (run ck hp n) t c = Some (NoNode, c1)"
    and "includeCombinator ck hp (run ck hp n) t c1 = Some (NoNode, c2)"
    and "includeHiddenAnonymous ck hp (run ck hp n) t c2 = Some (NoNode, c3)"
    and "includeObject ck hp (run ck hp n) n t c3 = Some (NoNode, c4)"
  shows "includeAnonymous ck hp (Suc n) t c = Some (TypeModelBasic ''unidentified'', c4)"
proof -
  let ?rec = "run ck hp n"
  have 1: "orElse (includeBasic ck hp ?rec t) (includeCombinator ck hp ?rec t) c = Some (NoNode, c2)"
    using assms(1,2) by (simp add: orElse_NoNode)
  have 2: "orElse (orElse (includeBasic ck hp ?rec t) (includeCombinator ck hp ?rec t))
             (includeHiddenAnonymous ck hp ?rec t) c = Some (NoNode, c3)"
    using 1 assms(3) by (simp add: orElse_NoNode)
  have 3: "orElse (orElse (orElse (includeBasic ck hp ?rec t) (includeCombinator ck hp ?rec t))
             (includeHiddenAnonymous ck hp ?rec t)) (includeObject ck hp ?rec n t) c
           = Some (NoNode, c4)"
    using 2 assms(4) by (simp add: orElse_NoNode)
  show ?thesis
    unfolding includeAnonymous_def run.simps visitBody_def call.case includeAnonymousBody_def
    using 3 by (simp add: orElse_NoNode returnM_def)
qed

lemma includeNamed_no_node:
  assumes "includeBasic ck hp rec t c = Some (NoNode, c1)"
    and "includeObject ck hp rec k t c1 = Some (NoNode, c2)"
    and "includeReference ck hp rec t c2 = Some (NoNode, c3)"
  shows "includeNamed ck hp rec k t c = Some (NoNode, c3)"
proof -
  have "orElse (includeBasic ck hp rec t) (includeObject ck hp rec k t) c = Some (NoNode, c2)"
    using assms(1,2) by (simp add: orElse_NoNode)
  then show ?thesis
    unfolding includeNamed_def using assms(3) by (simp add: orElse_NoNode)
qed

lemma makeRef_no_node_eq:
  assumes fresh: "\<not> hasKey c name"
    and notref: "\<not> (isObjectType hp t \<and> isReferenceType hp t)"
    and cb: "cb t (c\<lparr>refs := (refs c)(name \<mapsto> placeholder name)\<rparr>) = Some (NoNode, cz)"
  shows "makeRef ck hp rec t name cb c
           = includeRef ck rec t (Some name) None (cz\<lparr>refs := (refs cz)(name \<mapsto> NoNode)\<rparr>)"
  using notref cb by (auto simp: makeRef_absent [OF fresh])

lemma makeRef_no_node_result:
  assumes rec: "\<And>d. preserves (rec d)"
    and fresh: "\<not> hasKey c name"
    and notref: "\<not> (isObjectType hp t \<and> isReferenceType hp t)"
    and cb: "cb t (c\<lparr>refs := (refs c)(name \<mapsto> placeholder name)\<rparr>) = Some (NoNode, cz)"
    and run: "makeRef ck hp rec t name cb c = Some (r, c')"
  shows "(\<exists>ts. r = TypeModelRef ts (Some name) None) \<and> refs c' name = Some NoNode"
proof -
  from run makeRef_no_node_eq [where cb = cb and rec = rec and ck = ck, OF fresh notref cb]
  have last: "includeRef ck rec t (Some name) None (cz\<lparr>refs := (refs cz)(name \<mapsto> NoNode)\<rparr>)
      = Some (r, c')" by simp
  from preservesD [OF preserves_includeRef [OF rec] last]
  have "refs c' name = Some NoNode" by (auto intro: map_le_lookup)
  with includeRef_result [OF last] show ?thesis by blast
qed


subsection \<open>Index and call members\<close>

lemma someInheritedIndex_eq:
  "someInheritedIndex ck getter a ms = Some b \<Longrightarrow> b = list_ex (reportsIndex ck getter a) ms"
proof (induction ms)
  case Nil
  then show ?case by simp
next
  case (Cons m ms)
  show ?case
  proof (cases "externalField m")
    case None
    with Cons show ?thesis by (simp add: reportsIndex_def split: if_splits)
  next
    case (Some e)
    with Cons show ?thesis by (auto simp: reportsIndex_def split: if_splits)
  qed
qed

lemma includeIndexSignature_members:
  assumes "includeIndexSignature ck hp rec getter keyType info t inherited c = Some (xs, c')"
  shows "indexMembers ck hp rec getter keyType info t inherited xs"
proof (cases "getter (object ck t)")
  case None
  with assms show ?thesis by (simp add: includeIndexSignature_def indexMembers_def)
next
  case (Some a)
  with assms obtain found where
    f: "someInheritedIndex ck getter a inherited = Some found"
    and rest: "(if found then returnM []
                else bindM (getIndexType hp rec a keyType info) (\<lambda>ix. returnM [ix])) c
               = Some (xs, c')"
    by (auto simp: includeIndexSignature_def bindM_eq_Some)
  from someInheritedIndex_eq [OF f] have fe: "found = list_ex (reportsIndex ck getter a) inherited" .
  show ?thesis
  proof (cases found)
    case True
    with rest fe Some show ?thesis by (simp add: indexMembers_def)
  next
    case False
    with rest obtain v where "rec (CIncludeType a) c = Some (v, c')"
      and "xs = [indexMember hp info keyType v]"
      by (auto simp: getIndexType_def indexMember_def bindM_eq_Some)
    with False fe Some show ?thesis by (auto simp: indexMembers_def)
  qed
qed

lemma mapM_all:
  assumes "\<And>x c v c'. f x c = Some (v, c') \<Longrightarrow> P v"
  shows "mapM f xs c = Some (vs, c') \<Longrightarrow> list_all P vs \<and> length vs = length xs"
proof (induction xs arbitrary: c vs)
  case Nil
  then show ?case by simp
next
  case (Cons x xs)
  from Cons.prems obtain y c1 ys where
    fx: "f x c = Some (y, c1)" and rest: "mapM f xs c1 = Some (ys, c')" and vs: "vs = y # ys"
    by (auto simp: bindM_eq_Some)
  from assms [OF fx] Cons.IH [OF rest] vs show ?case by simp
qed

lemma getPropType_kind:
  "getPropType ck hp rec prop c = Some (v, c') \<Longrightarrow> kindOf v = ''prop''"
  by (auto simp: getPropType_def bindM_eq_Some)

lemma getFunctionType_kind:
  "getFunctionType ck hp rec sign c = Some (v, c') \<Longrightarrow> kindOf v = ''function''"
  by (auto simp: getFunctionType_def bindM_eq_Some)

lemma callMembers:
  assumes "(case callSignatures ty of
              None \<Rightarrow> returnM []
            | Some signs \<Rightarrow> mapM (getFunctionType ck hp rec) signs) c = Some (calls, c')"
  shows "list_all (\<lambda>x. kindOf x = ''function'') calls \<and> length calls = length (signaturesOf ty)"
proof (cases "callSignatures ty")
  case None
  with assms show ?thesis by (simp add: signaturesOf_def)
next
  case (Some signs)
  with assms have "mapM (getFunctionType ck hp rec) signs c = Some (calls, c')" by simp
  from mapM_all [where P = "\<lambda>x. kindOf x = ''function''", OF getFunctionType_kind this] Some
  show ?thesis by (simp add: signaturesOf_def)
qed

lemma standardObjectFields_eq_Some:
  assumes "standardObjectFields ck hp rec n t c = Some ((ext, comment, props, tps), c')"
  shows "\<exists>impl c0 targets ps own c1 numberIndex c2 stringIndex c3 calls c4.
      includeInheritedTypes ck rec t c = Some ((ext, impl), c0)
    \<and> mapM (getPropType ck hp rec) (filter (\<lambda>prop. propId prop \<notin> set targets) ps) c0
        = Some (own, c1)
    \<and> includeIndexSignature ck hp rec numberIndexType (TypeModelBasic ''number'')
        (declaredNumberIndexInfo (object ck t)) t (ext @ impl) c1 = Some (numberIndex, c2)
    \<and> includeIndexSignature ck hp rec stringIndexType (TypeModelBasic ''string'')
        (declaredStringIndexInfo (object ck t)) t (ext @ impl) c2 = Some (stringIndex, c3)
    \<and> (case callSignatures (object ck t) of
          None \<Rightarrow> returnM []
        | Some signs \<Rightarrow> mapM (getFunctionType ck hp rec) signs) c3 = Some (calls, c4)
    \<and> props = own @ numberIndex @ stringIndex @ calls"
  using assms unfolding standardObjectFields_def Let_def
  by (simp add: bindM_eq_Some) blast


subsection \<open>The object builders\<close>

lemma includeStandardObject_shape:
  "includeStandardObject ck hp rec n t c = Some (r, c') \<Longrightarrow>
     \<exists>es cm ps ts. r = TypeModelInterface es cm ps ts NoNode"
  by (auto simp: includeStandardObject_def bindM_eq_Some split: prod.splits)

lemma includeClassObject_shape:
  "includeClassObject ck hp rec n t c = Some (r, c') \<Longrightarrow>
     \<exists>es cm ps ts is. r = TypeModelClass es cm ps ts NoNode is"
  by (auto simp: includeClassObject_def bindM_eq_Some split: prod.splits)

lemma includeMappedObject_shape:
  "includeMappedObject ck hp rec t c = Some (r, c') \<Longrightarrow>
     \<exists>cm name cn opt v. r = TypeModelInterface [] cm [] [] (TypeModelMapped name cn opt v)"
  unfolding includeMappedObject_def Let_def
  by (auto simp: bindM_eq_Some)

lemma objectFlags_distinct:
  "ObjectFlags_Mapped \<noteq> ObjectFlags_Class OR ObjectFlags_Reference"
  "ObjectFlags_Class \<noteq> ObjectFlags_Mapped"
  "ObjectFlags_Class \<noteq> ObjectFlags_Class OR ObjectFlags_Reference"
  "ObjectFlags_Mapped OR ObjectFlags_Anonymous \<noteq> ObjectFlags_Mapped"
  "ObjectFlags_Mapped OR ObjectFlags_Anonymous \<noteq> ObjectFlags_Class OR ObjectFlags_Reference"
  "ObjectFlags_Mapped OR ObjectFlags_Instantiated \<noteq> ObjectFlags_Mapped"
  "ObjectFlags_Mapped OR ObjectFlags_Instantiated \<noteq> ObjectFlags_Class OR ObjectFlags_Reference"
  by (simp_all add: ObjectFlags_Mapped_def ObjectFlags_Class_def ObjectFlags_Reference_def
      ObjectFlags_Anonymous_def ObjectFlags_Instantiated_def)

lemma includeMappedObject_eq:
  assumes "typeParameter (object ck t) = Some tp" "symbol (object ck tp) = Some tpSymbol"
    "declarations tpSymbol = Some (d # ds)" "parent (object ck d) = Some par"
    "symbol (object ck t) = Some sy" "declarations sy = Some (e # es)"
    "typeParameter (object ck par) = Some index" "symbol (object ck index) = Some indexSymbol"
  shows "includeMappedObject ck hp rec t =
           bindM (includeConstraint ck hp rec index) (\<lambda>cn.
           bindM (rec (CIncludeType (getTypeFromTypeNode ck (obj_type (object ck e))))) (\<lambda>v.
           returnM (TypeModelInterface [] (getComment (Some sy)) [] []
                      (TypeModelMapped (symbol_name indexSymbol) cn
                         (questionToken (object ck par)) v))))"
  unfolding includeMappedObject_def Let_def using assms
  by (simp add: bindM_def deref_def returnM_def declarations0_def fun_eq_iff)

lemma includeMappedObject_eq_Some:
  assumes m: "includeMappedObject ck hp (run ck hp n) t c = Some (r, c')"
  shows "\<exists>tp tpSymbol d ds par index indexSymbol sy e es cn c1 v.
       typeParameter (object ck t) = Some tp \<and> symbol (object ck tp) = Some tpSymbol
     \<and> declarations tpSymbol = Some (d # ds) \<and> parent (object ck d) = Some par
     \<and> typeParameter (object ck par) = Some index \<and> symbol (object ck index) = Some indexSymbol
     \<and> symbol (object ck t) = Some sy \<and> declarations sy = Some (e # es)
     \<and> includeConstraint ck hp (run ck hp n) index c = Some (cn, c1)
     \<and> includeType ck hp n (getTypeFromTypeNode ck (obj_type (object ck e))) c1 = Some (v, c')
     \<and> r = TypeModelInterface [] (getComment (Some sy)) [] []
             (TypeModelMapped (symbol_name indexSymbol) cn (questionToken (object ck par)) v)"
proof -
  from m obtain tp tpSymbol ds0 d par sy es0 e index indexSymbol cn c1 v where
    f: "typeParameter (object ck t) = Some tp" "symbol (object ck tp) = Some tpSymbol"
      "declarations tpSymbol = Some ds0" "Some d = (case ds0 of [] \<Rightarrow> None | x # _ \<Rightarrow> Some x)"
      "parent (object ck d) = Some par" "symbol (object ck t) = Some sy"
      "declarations sy = Some es0" "Some e = (case es0 of [] \<Rightarrow> None | x # _ \<Rightarrow> Some x)"
      "typeParameter (object ck par) = Some index" "symbol (object ck index) = Some indexSymbol"
      "includeConstraint ck hp (run ck hp n) index c = Some (cn, c1)"
      "run ck hp n (CIncludeType (getTypeFromTypeNode ck (obj_type (object ck e)))) c1 = Some (v, c')"
      "r = TypeModelInterface [] (getComment (Some sy)) [] []
             (TypeModelMapped (symbol_name indexSymbol) cn (questionToken (object ck par)) v)"
    unfolding includeMappedObject_def Let_def
    by (auto simp: bindM_eq_Some)
  from f(4) obtain ds where ds: "ds0 = d # ds" by (cases ds0) auto
  from f(8) obtain es where es: "es0 = e # es" by (cases es0) auto
  from f ds es show ?thesis
    unfolding includeType_def by blast
qed

section \<open>The claims\<close>

text \<open>
  Claim C1. \<^verbatim>\<open>export interface toString { a: string }\<close>, walked with an empty registry:
  the registry has no entry \<^verbatim>\<open>toString\<close> of its own, but \<^verbatim>\<open>'toString' in context.refs\<close>
  is true, so \<^verbatim>\<open>makeRef\<close> stores no placeholder and builds nothing. The walk returns a
  \<^verbatim>\<open>ref\<close> to \<^verbatim>\<open>toString\<close> and leaves the registry without an entry for it, and so does
  \<^verbatim>\<open>includeExportedType\<close>; the interface \<^verbatim>\<open>Base\<close>, which differs in its name only, is
  registered with its node.
\<close>

theorem C1_inherited_key_not_registered:
  "refs emptyContext ''toString'' = None
   \<and> hasKey emptyContext ''toString''
   \<and> map_option (\<lambda>(r, c). (r, refs c ''toString''))
        (includeType protoChecker (stdHelpers protoObjects) 12 1 emptyContext)
      = Some (TypeModelRef [] (Some ''toString'') None, None)
   \<and> map_option (\<lambda>(u, c). refs c ''toString'')
        (includeExportedType protoChecker (stdHelpers protoObjects) 12 1 emptyContext)
      = Some None
   \<and> map_option (\<lambda>(r, c). (r, refs c ''Base''))
        (includeType inhChecker (stdHelpers inhObjects) 12 1 emptyContext)
      = Some (TypeModelRef [] (Some ''Base'') None, Some baseNode)"
  by code_simp

text \<open>
  Claim C2. \<^verbatim>\<open>export interface Box<T> { next: Box<T> }\<close>: the interface declares one
  parameter, without a default, and the type of \<^verbatim>\<open>next\<close> supplies one argument, \<^verbatim>\<open>T\<close>. While
  \<^verbatim>\<open>Box\<close> is being built its registry entry is the placeholder, whose \<^verbatim>\<open>types\<close> list is
  empty, and \<^verbatim>\<open>normalizeTypeParameters\<close> cuts the arguments to the length of that list:
  the \<^verbatim>\<open>ref\<close> registered for \<^verbatim>\<open>next\<close> has no argument. The \<^verbatim>\<open>ref\<close> that the walk returns
  once the entry is filled keeps \<^verbatim>\<open>T\<close>.
\<close>

theorem C2_self_reference_loses_arguments:
  "typeParameters (object boxChecker 10) = Some [11]
   \<and> typeParameterIds boxChecker (Some 10) = [None]
   \<and> typeArguments (object boxChecker 1) = Some [2]
   \<and> normalizeTypeParameters boxChecker
        (emptyContext\<lparr>refs := [''Box'' \<mapsto> placeholder ''Box'']\<rparr>) 1 (Some 10)
        [TypeModelRef [] (Some ''T'') None] (Some ''Box'') = []
   \<and> map_option (\<lambda>(r, c). (r, refs c ''Box''))
        (includeType boxChecker (stdHelpers boxObjects) 12 1 emptyContext)
      = Some (TypeModelRef [TypeModelRef [] (Some ''T'') None] (Some ''Box'') None, Some boxNode)"
  by code_simp

text \<open>
  Claim C3. \<^verbatim>\<open>interface Base { a: string }\<close> and
  \<^verbatim>\<open>interface Derived extends Base { b: number }\<close>, both of the program's own file: the
  node registered for \<^verbatim>\<open>Derived\<close> has \<^verbatim>\<open>Base\<close> in its \<^verbatim>\<open>extends\<close> list and both \<^verbatim>\<open>b\<close> and
  the inherited \<^verbatim>\<open>a\<close> among its props, because \<^verbatim>\<open>getAllPropIds\<close> collects no id from the
  registered \<^verbatim>\<open>interface\<close> node of \<^verbatim>\<open>Base\<close>.
\<close>

theorem C3_inherited_member_emitted:
  "map_option (\<lambda>(u, c). (refs c ''Base'', refs c ''Derived''))
     (includeExportedType inhChecker (stdHelpers inhObjects) 12 2 emptyContext)
   = Some (Some baseNode, Some derivedNode)
   \<and> getAllPropIds 12 inhChecker (emptyContext\<lparr>refs := [''Base'' \<mapsto> baseNode]\<rparr>)
        [TypeModelRef [] (Some ''Base'') None] = Some []"
  by code_simp

text \<open>
  Claim C4. A type that the primitive classifier, the combinator builder, the hidden
  anonymous lookup and the object builder all leave unrecognized is classified, as an
  anonymous type, by the terminal node \<^verbatim>\<open>unidentified\<close>. For a named type,
  \<^verbatim>\<open>includeNamed\<close> has no such last case: when the primitive classifier, the object
  builder and the alias-declaration case all leave the type unrecognized it returns
  \<^verbatim>\<open>undefined\<close>, which \<^verbatim>\<open>makeRef\<close> stores in the registry under the name before it
  returns a \<^verbatim>\<open>ref\<close> with that name. Neither case fails.
\<close>

theorem C4_unrecognized:
  "(includeBasic ck hp (run ck hp n) t c = Some (NoNode, c1)
      \<and> includeCombinator ck hp (run ck hp n) t c1 = Some (NoNode, c2)
      \<and> includeHiddenAnonymous ck hp (run ck hp n) t c2 = Some (NoNode, c3)
      \<and> includeObject ck hp (run ck hp n) n t c3 = Some (NoNode, c4) \<longrightarrow>
        includeAnonymous ck hp (Suc n) t c = Some (TypeModelBasic ''unidentified'', c4))
   \<and> (includeBasic ck hp (run ck hp n) t c = Some (NoNode, c1)
      \<and> includeObject ck hp (run ck hp n) k t c1 = Some (NoNode, c2)
      \<and> includeReference ck hp (run ck hp n) t c2 = Some (NoNode, c3) \<longrightarrow>
        includeNamed ck hp (run ck hp n) k t c = Some (NoNode, c3))
   \<and> (\<not> hasKey c name \<and> \<not> (isObjectType hp t \<and> isReferenceType hp t)
      \<and> includeNamed ck hp (run ck hp n) k t (c\<lparr>refs := (refs c)(name \<mapsto> placeholder name)\<rparr>)
          = Some (NoNode, c3) \<longrightarrow>
        makeRef ck hp (run ck hp n) t name (includeNamed ck hp (run ck hp n) k) c
          = includeRef ck (run ck hp n) t (Some name) None (c3\<lparr>refs := (refs c3)(name \<mapsto> NoNode)\<rparr>)
      \<and> (makeRef ck hp (run ck hp n) t name (includeNamed ck hp (run ck hp n) k) c = Some (r, c') \<longrightarrow>
           (\<exists>ts. r = TypeModelRef ts (Some name) None) \<and> refs c' name = Some NoNode))"
proof -
  have rec: "\<And>d. preserves (run ck hp n d)" by (rule preserves_run)
  show ?thesis
    using includeAnonymous_unidentified [of ck hp n t c c1 c2 c3 c4]
      includeNamed_no_node [of ck hp "run ck hp n" t c c1 k c2 c3]
      makeRef_no_node_eq [where rec = "run ck hp n" and cb = "includeNamed ck hp (run ck hp n) k"
        and c = c and name = name and hp = hp and t = t and ck = ck and cz = c3]
      makeRef_no_node_result [where rec = "run ck hp n"
        and cb = "includeNamed ck hp (run ck hp n) k"
        and c = c and name = name and hp = hp and t = t and ck = ck and cz = c3 and r = r
        and c' = c', OF rec]
    by blast
qed

theorem C4_unrecognized_witness:
  "includeBasic mappedChecker (exHelpers mappedObjects)
       (run mappedChecker (exHelpers mappedObjects) 2) 4 emptyContext = Some (NoNode, emptyContext)
   \<and> includeCombinator mappedChecker (exHelpers mappedObjects)
       (run mappedChecker (exHelpers mappedObjects) 2) 4 emptyContext = Some (NoNode, emptyContext)
   \<and> includeHiddenAnonymous mappedChecker (exHelpers mappedObjects)
       (run mappedChecker (exHelpers mappedObjects) 2) 4 emptyContext = Some (NoNode, emptyContext)
   \<and> includeObject mappedChecker (exHelpers mappedObjects)
       (run mappedChecker (exHelpers mappedObjects) 2) 2 4 emptyContext = Some (NoNode, emptyContext)
   \<and> includeAnonymous mappedChecker (exHelpers mappedObjects) 3 4 emptyContext
       = Some (TypeModelBasic ''unidentified'', emptyContext)
   \<and> includeReference mappedChecker (exHelpers mappedObjects)
       (run mappedChecker (exHelpers mappedObjects) 2) 4 emptyContext = Some (NoNode, emptyContext)
   \<and> includeNamed mappedChecker (exHelpers mappedObjects)
       (run mappedChecker (exHelpers mappedObjects) 2) 2 4 emptyContext = Some (NoNode, emptyContext)
   \<and> \<not> hasKey emptyContext ''V''
   \<and> \<not> isObjectType (exHelpers mappedObjects) 4
   \<and> (\<exists>c'. makeRef mappedChecker (exHelpers mappedObjects)
               (run mappedChecker (exHelpers mappedObjects) 2) 4 ''V''
               (includeNamed mappedChecker (exHelpers mappedObjects)
                  (run mappedChecker (exHelpers mappedObjects) 2) 2) emptyContext
             = Some (TypeModelRef [] (Some ''V'') None, c')
           \<and> refs c' ''V'' = Some NoNode)"
proof -
  let ?hp = "exHelpers mappedObjects"
  let ?rec = "run mappedChecker ?hp 2"
  let ?cp = "emptyContext\<lparr>refs := (refs emptyContext)(''V'' \<mapsto> placeholder ''V'')\<rparr>"
  have ty: "isTypeObject (object mappedChecker 4)"
    and fm: "firstMatch (basicClassifiers mappedChecker ?hp) 4 = None"
    and nobj: "\<not> isObjectType ?hp 4"
    and ntup: "\<not> isTupleType ?hp 4"
    and nref: "\<not> isReferenceType ?hp 4"
    and nuni: "\<not> isUnion (object mappedChecker 4)"
    and nint: "\<not> isIntersection (object mappedChecker 4)"
    and nidx: "\<not> isIndexType ?hp 4"
    and nanon: "\<not> isAnonymous ?hp (map_option symbol_name (symbol (object mappedChecker 4)))"
    and nalias: "kind (object mappedChecker 4) \<noteq> Some TypeAliasDeclaration"
    by code_simp+
  have fresh: "\<not> hasKey emptyContext ''V''"
    by (simp add: hasKey_def emptyContext_def objectPrototypeKeys_def)
  have b: "includeBasic mappedChecker ?hp ?rec 4 c = Some (NoNode, c)" for c
    using includeBasic_no_match [of mappedChecker 4 ?hp ?rec c] ty fm by simp
  have cm: "includeCombinator mappedChecker ?hp ?rec 4 c = Some (NoNode, c)" for c
    using ntup nref nuni nint nidx by (simp add: includeCombinator_no_match)
  have h: "includeHiddenAnonymous mappedChecker ?hp ?rec 4 c = Some (NoNode, c)" for c
    using nanon by (rule includeHiddenAnonymous_no_match)
  have ob: "includeObject mappedChecker ?hp ?rec k 4 c = Some (NoNode, c)" for k c
    using nobj by (rule includeObject_no_match)
  have rf: "includeReference mappedChecker ?hp ?rec 4 c = Some (NoNode, c)" for c
    using nalias by (rule includeReference_no_match)
  have an: "includeAnonymous mappedChecker ?hp 3 4 emptyContext
      = Some (TypeModelBasic ''unidentified'', emptyContext)"
    using C4_unrecognized [of mappedChecker ?hp 2 4 emptyContext emptyContext emptyContext
        emptyContext emptyContext] b cm h ob
    by (simp add: numeral_3_eq_3 eval_nat_numeral)
  have nm: "includeNamed mappedChecker ?hp ?rec 2 4 c = Some (NoNode, c)" for c
    using C4_unrecognized [of mappedChecker ?hp 2 4 c c c c c 2] b ob rf by simp
  have "case makeRef mappedChecker ?hp ?rec 4 ''V'' (includeNamed mappedChecker ?hp ?rec 2)
               emptyContext of
          None \<Rightarrow> False | Some (r, c') \<Rightarrow> r = TypeModelRef [] (Some ''V'') None"
    by code_simp
  then obtain c' where run: "makeRef mappedChecker ?hp ?rec 4 ''V''
      (includeNamed mappedChecker ?hp ?rec 2) emptyContext
      = Some (TypeModelRef [] (Some ''V'') None, c')"
    by (auto split: option.splits)
  have "refs c' ''V'' = Some NoNode"
    using C4_unrecognized [where ck = mappedChecker and hp = ?hp and n = 2 and t = 4
        and c = emptyContext and name = "''V''" and k = 2 and ?c3.0 = ?cp and c' = c'
        and r = "TypeModelRef [] (Some ''V'') None"]
      fresh nobj nm [of ?cp] run
    by blast
  with b cm h ob an rf nm fresh nobj run show ?thesis by blast
qed

text \<open>A type parameter \<^verbatim>\<open>V\<close> requested under its name: no stage of \<open>includeNamed\<close>
  recognizes it, the request returns a \<open>ref\<close> and the registry holds \<open>undefined\<close> under
  \<^verbatim>\<open>V\<close>, not an \<open>unidentified\<close> node; the same type requested anonymously gives
  \<open>unidentified\<close>.\<close>

theorem C4_counterexample:
  "firstMatch (basicClassifiers mappedChecker (exHelpers mappedObjects)) 4 = None
   \<and> \<not> isObjectType (exHelpers mappedObjects) 4
   \<and> map_option (\<lambda>(r, c). (r, refs c ''V''))
        (getTypeModel mappedChecker (exHelpers mappedObjects) 3 4 (Some ''V'') emptyContext)
      = Some (TypeModelRef [] (Some ''V'') None, Some NoNode)
   \<and> map_option fst
        (getTypeModel mappedChecker (exHelpers mappedObjects) 3 4 None emptyContext)
      = Some (TypeModelBasic ''unidentified'')"
  by code_simp

text \<open>
  Claim C5. On a type of the oracle, \<^verbatim>\<open>includeBasic\<close> is the constructor of the first
  stage, in the order any, unknown, string literal, number literal, boolean literal,
  enum-literal union, enum union, bigint literal, string, boolean, number, bigint, symbol,
  unique symbol, void, undefined, null, never, conditional, substitution, non-primitive,
  whose test the type passes: it returns the node of that kind, whatever later tests the
  type passes too. The node it returns has the kind of the first test passed, and a type
  that passes no test gives \<^verbatim>\<open>undefined\<close> in the same context, not an error.
\<close>

theorem C5_basic_priority:
  "(isTypeObject (object ck t) \<longrightarrow>
      includeBasic ck hp rec t = firstStage (basicStages ck hp rec) t)
   \<and> map fst (basicStages ck hp rec) = basicClassifiers ck hp
   \<and> map fst (basicClassifiers ck hp) = basicKinds
   \<and> (includeBasic ck hp rec t c = Some (r, c') \<longrightarrow>
        (case firstMatch (basicClassifiers ck hp) t of
           None \<Rightarrow> r = NoNode \<and> c' = c
         | Some k \<Rightarrow> kindOf r = k))
   \<and> (isTypeObject (object ck t) \<and> firstMatch (basicClassifiers ck hp) t = None \<longrightarrow>
        includeBasic ck hp rec t c = Some (NoNode, c))"
  using includeBasic_stages [of ck t hp rec] basicStages_classifiers [of ck hp rec]
    basicClassifiers_kinds [of ck hp] includeBasic_first_match [of ck hp rec t c r c']
    includeBasic_no_match [of ck t hp rec c]
  by blast

theorem C5_basic_priority_witness:
  "isTypeObject (object basicChecker 5)
   \<and> hasFlag (flags (object basicChecker 5)) TypeFlags_String
   \<and> hasFlag (flags (object basicChecker 5)) TypeFlags_Number
   \<and> hasFlag (flags (object basicChecker 5)) TypeFlags_NonPrimitive
   \<and> firstMatch (basicClassifiers basicChecker (exHelpers basicObjects)) 5 = Some ''string''
   \<and> map_option fst (includeBasic basicChecker (exHelpers basicObjects)
        (run basicChecker (exHelpers basicObjects) 3) 5 emptyContext)
      = Some (TypeModelBasic ''string'')
   \<and> isTypeObject (object basicChecker 8)
   \<and> isStringLiteral (object basicChecker 8)
   \<and> hasFlag (flags (object basicChecker 8)) TypeFlags_String
   \<and> map_option fst (includeBasic basicChecker (exHelpers basicObjects)
        (run basicChecker (exHelpers basicObjects) 3) 8 emptyContext)
      = Some (TypeModelLiteral (VString ''b''))
   \<and> isTypeObject (object basicChecker 6)
   \<and> hasFlag (flags (object basicChecker 6)) TypeFlags_EnumLiteral
   \<and> hasFlag (flags (object basicChecker 6)) TypeFlags_Enum
   \<and> isUnion (object basicChecker 6)
   \<and> map_option fst (includeBasic basicChecker (exHelpers basicObjects)
        (run basicChecker (exHelpers basicObjects) 3) 6 emptyContext)
      = Some (TypeModelEnumLiteral False (Some [])
                [TypeMemberModel ''A'' (TypeModelLiteral (VString ''a'')) (Some [])])
   \<and> isTypeObject (object basicChecker 1)
   \<and> map_option fst (includeBasic basicChecker (exHelpers basicObjects)
        (run basicChecker (exHelpers basicObjects) 3) 1 emptyContext)
      = Some (TypeModelBasic ''boolean'')
   \<and> isTypeObject (object basicChecker 4)
   \<and> firstMatch (basicClassifiers basicChecker (exHelpers basicObjects)) 4 = None
   \<and> includeBasic basicChecker (exHelpers basicObjects)
        (run basicChecker (exHelpers basicObjects) 3) 4 emptyContext
      = Some (NoNode, emptyContext)"
proof -
  let ?hp = "exHelpers basicObjects"
  let ?rec = "run basicChecker ?hp 3"
  let ?st = "basicStages basicChecker ?hp ?rec"
  have ty: "isTypeObject (object basicChecker 5)" "isTypeObject (object basicChecker 8)"
    "isTypeObject (object basicChecker 6)" "isTypeObject (object basicChecker 1)"
    "isTypeObject (object basicChecker 4)"
    by code_simp+
  have fl: "hasFlag (flags (object basicChecker 5)) TypeFlags_String"
    "hasFlag (flags (object basicChecker 5)) TypeFlags_Number"
    "hasFlag (flags (object basicChecker 5)) TypeFlags_NonPrimitive"
    "isStringLiteral (object basicChecker 8)"
    "hasFlag (flags (object basicChecker 8)) TypeFlags_String"
    "hasFlag (flags (object basicChecker 6)) TypeFlags_EnumLiteral"
    "hasFlag (flags (object basicChecker 6)) TypeFlags_Enum"
    "isUnion (object basicChecker 6)"
    by code_simp+
  have fm: "firstMatch (basicClassifiers basicChecker ?hp) 5 = Some ''string''"
    "firstMatch (basicClassifiers basicChecker ?hp) 4 = None"
    by code_simp+
  have eq: "includeBasic basicChecker ?hp ?rec t = firstStage ?st t"
    if "isTypeObject (object basicChecker t)" for t
    using C5_basic_priority [of basicChecker t ?hp ?rec] that by blast
  have e5: "map_option fst (firstStage ?st 5 emptyContext) = Some (TypeModelBasic ''string'')"
    and e8: "map_option fst (firstStage ?st 8 emptyContext) = Some (TypeModelLiteral (VString ''b''))"
    and e6: "map_option fst (firstStage ?st 6 emptyContext)
      = Some (TypeModelEnumLiteral False (Some [])
                [TypeMemberModel ''A'' (TypeModelLiteral (VString ''a'')) (Some [])])"
    and e1: "map_option fst (firstStage ?st 1 emptyContext) = Some (TypeModelBasic ''boolean'')"
    by code_simp+
  have r4: "includeBasic basicChecker ?hp ?rec 4 emptyContext = Some (NoNode, emptyContext)"
    using C5_basic_priority [of basicChecker 4 ?hp ?rec emptyContext NoNode emptyContext] ty(5) fm(2)
    by blast
  from ty fl fm e5 e8 e6 e1 r4 show ?thesis
    by (simp only: eq [OF ty(1), symmetric] eq [OF ty(2), symmetric] eq [OF ty(3), symmetric]
        eq [OF ty(4), symmetric] simp_thms)
qed

text \<open>
  Claim C6. The member list of an object shape is the own properties, then the number
  index member, then the string index member, then one \<^verbatim>\<open>function\<close> member for each call
  signature. An index member is present if and only if the type has that index type and
  no inherited reference that carries a live oracle type (\<^verbatim>\<open>external\<close>) reports the
  identical index type object; it has one parameter, named by the oracle's index
  parameter name and typed \<^verbatim>\<open>number\<close> or \<^verbatim>\<open>string\<close>, and its value is the classification
  of the index type.
\<close>

theorem C6_index_and_call_members:
  assumes "standardObjectFields ck hp rec n t c = Some ((ext, comment, props, tps), c')"
  shows "\<exists>impl c0 own numberIndex stringIndex calls.
      includeInheritedTypes ck rec t c = Some ((ext, impl), c0)
    \<and> props = own @ numberIndex @ stringIndex @ calls
    \<and> list_all (\<lambda>x. kindOf x = ''prop'') own
    \<and> indexMembers ck hp rec numberIndexType (TypeModelBasic ''number'')
        (declaredNumberIndexInfo (object ck t)) t (ext @ impl) numberIndex
    \<and> indexMembers ck hp rec stringIndexType (TypeModelBasic ''string'')
        (declaredStringIndexInfo (object ck t)) t (ext @ impl) stringIndex
    \<and> list_all (\<lambda>x. kindOf x = ''function'') calls
    \<and> length calls = length (signaturesOf (object ck t))"
proof -
  from standardObjectFields_eq_Some [OF assms]
  obtain impl c0 targets ps own c1 numberIndex c2 stringIndex c3 calls c4 where
    inh: "includeInheritedTypes ck rec t c = Some ((ext, impl), c0)"
    and own: "mapM (getPropType ck hp rec) (filter (\<lambda>prop. propId prop \<notin> set targets) ps) c0
        = Some (own, c1)"
    and ni: "includeIndexSignature ck hp rec numberIndexType (TypeModelBasic ''number'')
        (declaredNumberIndexInfo (object ck t)) t (ext @ impl) c1 = Some (numberIndex, c2)"
    and si: "includeIndexSignature ck hp rec stringIndexType (TypeModelBasic ''string'')
        (declaredStringIndexInfo (object ck t)) t (ext @ impl) c2 = Some (stringIndex, c3)"
    and calls: "(case callSignatures (object ck t) of
          None \<Rightarrow> returnM []
        | Some signs \<Rightarrow> mapM (getFunctionType ck hp rec) signs) c3 = Some (calls, c4)"
    and props: "props = own @ numberIndex @ stringIndex @ calls"
    by blast
  from mapM_all [where P = "\<lambda>x. kindOf x = ''prop''", OF getPropType_kind own]
  have o: "list_all (\<lambda>x. kindOf x = ''prop'') own" by simp
  from inh props o includeIndexSignature_members [OF ni] includeIndexSignature_members [OF si]
    callMembers [OF calls]
  show ?thesis by blast
qed

theorem C6_index_and_call_members_witness:
  "map_option fst (standardObjectFields indexChecker indexHelpers
       (run indexChecker indexHelpers 6) 6 2 emptyContext)
     = Some ([TypeModelRef [] (Some ''ExtBase'') (Some 1)], Some [],
             [numberIndexMember, callMember], [])
   \<and> stringIndexType (object indexChecker 2) = Some 4
   \<and> stringIndexType (object indexChecker 1) = Some 4
   \<and> numberIndexType (object indexChecker 2) = Some 5
   \<and> numberIndexType (object indexChecker 1) = None
   \<and> (\<exists>c0. includeInheritedTypes indexChecker (run indexChecker indexHelpers 6) 2 emptyContext
              = Some (([TypeModelRef [] (Some ''ExtBase'') (Some 1)], []), c0))
   \<and> indexMembers indexChecker indexHelpers (run indexChecker indexHelpers 6) numberIndexType
        (TypeModelBasic ''number'') None 2 [TypeModelRef [] (Some ''ExtBase'') (Some 1)]
        [numberIndexMember]
   \<and> indexMembers indexChecker indexHelpers (run indexChecker indexHelpers 6) stringIndexType
        (TypeModelBasic ''string'') None 2 [TypeModelRef [] (Some ''ExtBase'') (Some 1)] []"
proof -
  let ?rec = "run indexChecker indexHelpers 6"
  let ?ref = "TypeModelRef [] (Some ''ExtBase'') (Some 1)"
  have ev: "map_option fst (standardObjectFields indexChecker indexHelpers ?rec 6 2 emptyContext)
     = Some ([?ref], Some [], [numberIndexMember, callMember], [])"
    by code_simp
  then obtain c' where run: "standardObjectFields indexChecker indexHelpers ?rec 6 2 emptyContext
     = Some (([?ref], Some [], [numberIndexMember, callMember], []), c')"
    by auto
  have inh: "map_option fst (includeInheritedTypes indexChecker ?rec 2 emptyContext)
      = Some ([?ref], [])"
    by code_simp
  have s2: "stringIndexType (object indexChecker 2) = Some 4"
    and s1: "stringIndexType (object indexChecker 1) = Some 4"
    and n2: "numberIndexType (object indexChecker 2) = Some 5"
    and n1: "numberIndexType (object indexChecker 1) = None"
    and dn: "declaredNumberIndexInfo (object indexChecker 2) = None"
    and ds: "declaredStringIndexInfo (object indexChecker 2) = None"
    and sg: "length (signaturesOf (object indexChecker 2)) = 1"
    by code_simp+
  from C6_index_and_call_members [OF run]
  obtain impl c0 own numberIndex stringIndex calls where
    i: "includeInheritedTypes indexChecker ?rec 2 emptyContext = Some (([?ref], impl), c0)"
    and p: "[numberIndexMember, callMember] = own @ numberIndex @ stringIndex @ calls"
    and ni: "indexMembers indexChecker indexHelpers ?rec numberIndexType
        (TypeModelBasic ''number'') (declaredNumberIndexInfo (object indexChecker 2)) 2
        ([?ref] @ impl) numberIndex"
    and si: "indexMembers indexChecker indexHelpers ?rec stringIndexType
        (TypeModelBasic ''string'') (declaredStringIndexInfo (object indexChecker 2)) 2
        ([?ref] @ impl) stringIndex"
    and cl: "length calls = length (signaturesOf (object indexChecker 2))"
    by blast
  from i inh have impl: "impl = []" by simp
  from si s2 s1 impl have se: "stringIndex = []"
    by (simp add: indexMembers_def reportsIndex_def)
  from ni n2 n1 impl obtain v where nv: "numberIndex = [indexMember indexHelpers None
      (TypeModelBasic ''number'') v]"
    by (auto simp: indexMembers_def reportsIndex_def dn)
  from cl sg obtain f where calls: "calls = [f]"
    by (cases calls) auto
  from p se nv calls have "own = []" by (cases own) auto
  with p se nv calls have "numberIndex = [numberIndexMember]" by simp
  with ni si se impl dn ds ev s2 s1 n2 n1 i show ?thesis by auto
qed

text \<open>\<^verbatim>\<open>interface Local { [key: string]: number }\<close> and
  \<^verbatim>\<open>interface Sub extends Local {}\<close> in the same file: the base \<^verbatim>\<open>Local\<close> defines the
  identical string index type, the reference to it has no \<^verbatim>\<open>external\<close>, and \<^verbatim>\<open>Sub\<close> gets
  the index member again.\<close>

theorem C6_counterexample:
  "stringIndexType (object indexChecker 6) = Some 4
   \<and> stringIndexType (object indexChecker 3) = Some 4
   \<and> getTypeAtLocation indexChecker (Some 41) = 3
   \<and> map_option (\<lambda>(r, c). (r, refs c ''Local'', refs c ''Sub''))
        (includeType indexChecker indexHelpers 8 6 emptyContext)
      = Some (TypeModelRef [] (Some ''Sub'') None,
              Some (TypeModelInterface [] (Some []) [stringIndexMember] [] NoNode),
              Some (TypeModelInterface [TypeModelRef [] (Some ''Local'') None] (Some [])
                      [stringIndexMember] [] NoNode))"
  by code_simp



text \<open>
  Claim C8. For an object type whose object flags are exactly \<^verbatim>\<open>Mapped\<close>,
  \<^verbatim>\<open>includeObject\<close> classifies the constraint of the index variable and then the value
  type, and returns an \<^verbatim>\<open>interface\<close> node with no \<^verbatim>\<open>extends\<close>, no \<^verbatim>\<open>props\<close>, no type
  parameters and a \<^verbatim>\<open>mapped\<close> descriptor that holds the name of the index variable, the
  classified constraint, the flag \<^verbatim>\<open>optional\<close>, which is true exactly when the mapped
  declaration has a question token, and the classified value type; whenever it returns,
  the declarations it read are there and the node is this one.
\<close>

theorem C8_mapped_shape:
  assumes obj: "isObjectType hp t"
    and mapped: "objectFlags (object ck t) = Some ObjectFlags_Mapped"
  shows "(typeParameter (object ck t) = Some tp \<and> symbol (object ck tp) = Some tpSymbol
          \<and> declarations tpSymbol = Some (d # ds) \<and> parent (object ck d) = Some par
          \<and> symbol (object ck t) = Some sy \<and> declarations sy = Some (e # es)
          \<and> typeParameter (object ck par) = Some index
          \<and> symbol (object ck index) = Some indexSymbol \<longrightarrow>
          includeObject ck hp (run ck hp n) k t =
            bindM (includeConstraint ck hp (run ck hp n) index) (\<lambda>cn.
            bindM (includeType ck hp n (getTypeFromTypeNode ck (obj_type (object ck e)))) (\<lambda>v.
            returnM (TypeModelInterface [] (getComment (Some sy)) [] []
                       (TypeModelMapped (symbol_name indexSymbol) cn
                          (questionToken (object ck par)) v)))))
       \<and> (includeObject ck hp (run ck hp n) k t c = Some (r, c') \<longrightarrow>
           (\<exists>tp tpSymbol d ds par index indexSymbol sy e es cn c1 v.
               typeParameter (object ck t) = Some tp \<and> symbol (object ck tp) = Some tpSymbol
             \<and> declarations tpSymbol = Some (d # ds) \<and> parent (object ck d) = Some par
             \<and> typeParameter (object ck par) = Some index
             \<and> symbol (object ck index) = Some indexSymbol
             \<and> symbol (object ck t) = Some sy \<and> declarations sy = Some (e # es)
             \<and> includeConstraint ck hp (run ck hp n) index c = Some (cn, c1)
             \<and> includeType ck hp n (getTypeFromTypeNode ck (obj_type (object ck e))) c1
                 = Some (v, c')
             \<and> r = TypeModelInterface [] (getComment (Some sy)) [] []
                     (TypeModelMapped (symbol_name indexSymbol) cn
                        (questionToken (object ck par)) v)))"
proof -
  have io: "includeObject ck hp (run ck hp n) k t = includeMappedObject ck hp (run ck hp n) t"
    using obj mapped by (simp add: includeObject_def)
  have it: "includeType ck hp n = (\<lambda>a. run ck hp n (CIncludeType a))"
    by (simp add: includeType_def fun_eq_iff)
  show ?thesis
    unfolding io
    using includeMappedObject_eq [of ck t tp tpSymbol d ds par sy e es index indexSymbol hp
        "run ck hp n"]
      includeMappedObject_eq_Some [of ck hp n t c r c']
    by (simp add: it)
qed

theorem C8_mapped_shape_witness:
  "isObjectType (exHelpers mappedObjects) 1
   \<and> objectFlags (object mappedChecker 1) = Some ObjectFlags_Mapped
   \<and> questionToken (object mappedChecker 10)
   \<and> includeObject mappedChecker (exHelpers mappedObjects)
        (run mappedChecker (exHelpers mappedObjects) 8) 8 1
      = bindM (includeConstraint mappedChecker (exHelpers mappedObjects)
                 (run mappedChecker (exHelpers mappedObjects) 8) 11) (\<lambda>cn.
        bindM (includeType mappedChecker (exHelpers mappedObjects) 8 4) (\<lambda>v.
        returnM (TypeModelInterface [] (Some []) [] [] (TypeModelMapped ''K'' cn True v))))
   \<and> map_option fst (includeObject mappedChecker (exHelpers mappedObjects)
        (run mappedChecker (exHelpers mappedObjects) 8) 8 1 emptyContext)
      = Some mappedNode
   \<and> isObjectType (exHelpers requiredObjects) 1
   \<and> objectFlags (object requiredChecker 1) = Some ObjectFlags_Mapped
   \<and> \<not> questionToken (object requiredChecker 10)
   \<and> includeObject requiredChecker (exHelpers requiredObjects)
        (run requiredChecker (exHelpers requiredObjects) 8) 8 1
      = bindM (includeConstraint requiredChecker (exHelpers requiredObjects)
                 (run requiredChecker (exHelpers requiredObjects) 8) 11) (\<lambda>cn.
        bindM (includeType requiredChecker (exHelpers requiredObjects) 8 4) (\<lambda>v.
        returnM (TypeModelInterface [] (Some []) [] [] (TypeModelMapped ''K'' cn False v))))
   \<and> map_option fst (includeObject requiredChecker (exHelpers requiredObjects)
        (run requiredChecker (exHelpers requiredObjects) 8) 8 1 emptyContext)
      = Some requiredNode"
proof -
  let ?hm = "exHelpers mappedObjects"
  let ?rm = "run mappedChecker ?hm 8"
  let ?hr = "exHelpers requiredObjects"
  let ?rr = "run requiredChecker ?hr 8"
  have o: "isObjectType ?hm 1" "isObjectType ?hr 1" by code_simp+
  have q: "questionToken (object mappedChecker 10)" "\<not> questionToken (object requiredChecker 10)"
    by code_simp+
  have m: "objectFlags (object mappedChecker 1) = Some ObjectFlags_Mapped"
    "objectFlags (object requiredChecker 1) = Some ObjectFlags_Mapped"
    by (simp_all add: mappedChecker_def mappedObjects_def emptyObj_def requiredChecker_def
        requiredObjects_def)
  have fm: "typeParameter (object mappedChecker 1) = Some 2"
    "symbol (object mappedChecker 2) = Some symK" "declarations symK = Some [11]"
    "parent (object mappedChecker 11) = Some 10"
    "symbol (object mappedChecker 1) = Some symMappedType" "declarations symMappedType = Some [10]"
    "typeParameter (object mappedChecker 10) = Some 11"
    "symbol (object mappedChecker 11) = Some symK"
    "getTypeFromTypeNode mappedChecker (obj_type (object mappedChecker 10)) = 4"
    "getComment (Some symMappedType) = Some []" "symbol_name symK = ''K''"
    by (simp_all add: mappedChecker_def mappedObjects_def emptyObj_def symK_def symMappedType_def
        emptySymbol_def getComment_def joinLines.simps)
  have fr: "typeParameter (object requiredChecker 1) = Some 2"
    "symbol (object requiredChecker 2) = Some symK"
    "parent (object requiredChecker 11) = Some 10"
    "symbol (object requiredChecker 1) = Some symMappedType"
    "typeParameter (object requiredChecker 10) = Some 11"
    "symbol (object requiredChecker 11) = Some symK"
    "getTypeFromTypeNode requiredChecker (obj_type (object requiredChecker 10)) = 4"
    by (simp_all add: requiredChecker_def requiredObjects_def mappedChecker_def mappedObjects_def
        emptyObj_def)
  have em: "includeObject mappedChecker ?hm ?rm 8 1
      = bindM (includeConstraint mappedChecker ?hm ?rm 11) (\<lambda>cn.
        bindM (includeType mappedChecker ?hm 8 4) (\<lambda>v.
        returnM (TypeModelInterface [] (Some []) [] [] (TypeModelMapped ''K'' cn True v))))"
    using C8_mapped_shape [OF o(1) m(1), of 2 symK 11 "[]" 10 symMappedType 10 "[]" 11 symK 8 8]
      fm q(1)
    by simp
  have er: "includeObject requiredChecker ?hr ?rr 8 1
      = bindM (includeConstraint requiredChecker ?hr ?rr 11) (\<lambda>cn.
        bindM (includeType requiredChecker ?hr 8 4) (\<lambda>v.
        returnM (TypeModelInterface [] (Some []) [] [] (TypeModelMapped ''K'' cn False v))))"
    using C8_mapped_shape [OF o(2) m(2), of 2 symK 11 "[]" 10 symMappedType 10 "[]" 11 symK 8 8]
      fr fm(3,6,10,11) q(2)
    by simp
  have vm: "map_option fst (includeObject mappedChecker ?hm ?rm 8 1 emptyContext) = Some mappedNode"
    and vr: "map_option fst (includeObject requiredChecker ?hr ?rr 8 1 emptyContext)
      = Some requiredNode"
    by code_simp+
  from o q m em er vm vr show ?thesis by simp
qed

text \<open>An instantiated mapped type such as \<^verbatim>\<open>Partial<{ a: string }>\<close> has the object flags
  \<^verbatim>\<open>Mapped | Instantiated\<close>: it is built by the standard builder, with the property
  \<^verbatim>\<open>a\<close> in its list and no \<^verbatim>\<open>mapped\<close> descriptor.\<close>

theorem C8_counterexample:
  "isObjectType (stdHelpers dispatchObjects) 6
   \<and> objectFlags (object dispatchChecker 6)
       = Some (ObjectFlags_Mapped OR ObjectFlags_Instantiated)
   \<and> hasFlag (ObjectFlags_Mapped OR ObjectFlags_Instantiated) ObjectFlags_Mapped
   \<and> map_option fst (includeObject dispatchChecker (stdHelpers dispatchObjects)
        (run dispatchChecker (stdHelpers dispatchObjects) 6) 6 6 emptyContext)
      = Some (TypeModelInterface [] (Some []) [propA] [] NoNode)"
  by code_simp

text \<open>
  Claim C9. \<^verbatim>\<open>includeObject\<close> switches on the whole of \<^verbatim>\<open>objectFlags\<close>: on an object type
  it is the mapped builder when the flags are exactly \<^verbatim>\<open>Mapped\<close>, the class builder when
  they are exactly \<^verbatim>\<open>Class | Reference\<close>, and the standard builder with any other flags,
  such as \<^verbatim>\<open>Class\<close> alone or \<^verbatim>\<open>Mapped | Anonymous\<close>. The mapped builder returns an
  \<^verbatim>\<open>interface\<close> node with a \<^verbatim>\<open>mapped\<close> descriptor, the class builder a \<^verbatim>\<open>class\<close> node and
  the standard builder an \<^verbatim>\<open>interface\<close> node without a \<^verbatim>\<open>mapped\<close> descriptor.
\<close>

theorem C9_object_dispatch:
  assumes obj: "isObjectType hp t"
  shows "(objectFlags (object ck t) = Some ObjectFlags_Mapped \<longrightarrow>
            includeObject ck hp rec n t = includeMappedObject ck hp rec t)
       \<and> (objectFlags (object ck t) = Some (ObjectFlags_Class OR ObjectFlags_Reference) \<longrightarrow>
            includeObject ck hp rec n t = includeClassObject ck hp rec n t)
       \<and> (objectFlags (object ck t) \<noteq> Some ObjectFlags_Mapped
            \<and> objectFlags (object ck t) \<noteq> Some (ObjectFlags_Class OR ObjectFlags_Reference) \<longrightarrow>
            includeObject ck hp rec n t = includeStandardObject ck hp rec n t)
       \<and> (objectFlags (object ck t) = Some ObjectFlags_Class
            \<or> objectFlags (object ck t) = Some (ObjectFlags_Mapped OR ObjectFlags_Anonymous) \<longrightarrow>
            includeObject ck hp rec n t = includeStandardObject ck hp rec n t)
       \<and> (includeMappedObject ck hp rec t c = Some (r, c') \<longrightarrow>
            (\<exists>cm name cn opt v.
               r = TypeModelInterface [] cm [] [] (TypeModelMapped name cn opt v)))
       \<and> (includeClassObject ck hp rec n t c = Some (r, c') \<longrightarrow>
            (\<exists>es cm ps ts is. r = TypeModelClass es cm ps ts NoNode is))
       \<and> (includeStandardObject ck hp rec n t c = Some (r, c') \<longrightarrow>
            (\<exists>es cm ps ts. r = TypeModelInterface es cm ps ts NoNode))"
proof -
  have d: "includeObject ck hp rec n t =
           (if objectFlags (object ck t) = Some ObjectFlags_Mapped
            then includeMappedObject ck hp rec t
            else if objectFlags (object ck t) = Some (ObjectFlags_Class OR ObjectFlags_Reference)
            then includeClassObject ck hp rec n t
            else includeStandardObject ck hp rec n t)"
    using obj by (simp add: includeObject_def)
  show ?thesis
    by (intro conjI impI)
       (auto simp: d objectFlags_distinct objectFlags_distinct [symmetric]
          dest: includeMappedObject_shape includeClassObject_shape includeStandardObject_shape)
qed

theorem C9_object_dispatch_witness:
  "isObjectType (stdHelpers dispatchObjects) 1
   \<and> objectFlags (object dispatchChecker 1) = Some (ObjectFlags_Class OR ObjectFlags_Reference)
   \<and> includeObject dispatchChecker (stdHelpers dispatchObjects)
        (run dispatchChecker (stdHelpers dispatchObjects) 6) 6 1
      = includeClassObject dispatchChecker (stdHelpers dispatchObjects)
          (run dispatchChecker (stdHelpers dispatchObjects) 6) 6 1
   \<and> map_option fst (includeObject dispatchChecker (stdHelpers dispatchObjects)
        (run dispatchChecker (stdHelpers dispatchObjects) 6) 6 1 emptyContext)
      = Some (TypeModelClass [] (Some []) [propA] [] NoNode [])
   \<and> isObjectType (stdHelpers dispatchObjects) 2
   \<and> objectFlags (object dispatchChecker 2) = Some ObjectFlags_Class
   \<and> includeObject dispatchChecker (stdHelpers dispatchObjects)
        (run dispatchChecker (stdHelpers dispatchObjects) 6) 6 2
      = includeStandardObject dispatchChecker (stdHelpers dispatchObjects)
          (run dispatchChecker (stdHelpers dispatchObjects) 6) 6 2
   \<and> map_option fst (includeObject dispatchChecker (stdHelpers dispatchObjects)
        (run dispatchChecker (stdHelpers dispatchObjects) 6) 6 2 emptyContext)
      = Some (TypeModelInterface [] (Some []) [propA] [] NoNode)
   \<and> isObjectType (stdHelpers dispatchObjects) 5
   \<and> objectFlags (object dispatchChecker 5) = Some (ObjectFlags_Mapped OR ObjectFlags_Anonymous)
   \<and> includeObject dispatchChecker (stdHelpers dispatchObjects)
        (run dispatchChecker (stdHelpers dispatchObjects) 6) 6 5
      = includeStandardObject dispatchChecker (stdHelpers dispatchObjects)
          (run dispatchChecker (stdHelpers dispatchObjects) 6) 6 5
   \<and> map_option fst (includeObject dispatchChecker (stdHelpers dispatchObjects)
        (run dispatchChecker (stdHelpers dispatchObjects) 6) 6 5 emptyContext)
      = Some (TypeModelInterface [] (Some []) [propA] [] NoNode)
   \<and> isObjectType (exHelpers mappedObjects) 1
   \<and> objectFlags (object mappedChecker 1) = Some ObjectFlags_Mapped
   \<and> includeObject mappedChecker (exHelpers mappedObjects)
        (run mappedChecker (exHelpers mappedObjects) 8) 8 1
      = includeMappedObject mappedChecker (exHelpers mappedObjects)
          (run mappedChecker (exHelpers mappedObjects) 8) 1
   \<and> map_option fst (includeObject mappedChecker (exHelpers mappedObjects)
        (run mappedChecker (exHelpers mappedObjects) 8) 8 1 emptyContext)
      = Some mappedNode"
proof -
  let ?hp = "stdHelpers dispatchObjects"
  let ?rec = "run dispatchChecker ?hp 6"
  let ?hm = "exHelpers mappedObjects"
  let ?rm = "run mappedChecker ?hm 8"
  have o: "isObjectType ?hp 1" "isObjectType ?hp 2" "isObjectType ?hp 5" "isObjectType ?hm 1"
    by code_simp+
  have f: "objectFlags (object dispatchChecker 1) = Some (ObjectFlags_Class OR ObjectFlags_Reference)"
    "objectFlags (object dispatchChecker 2) = Some ObjectFlags_Class"
    "objectFlags (object dispatchChecker 5) = Some (ObjectFlags_Mapped OR ObjectFlags_Anonymous)"
    "objectFlags (object mappedChecker 1) = Some ObjectFlags_Mapped"
    by (simp_all add: dispatchChecker_def dispatchObjects_def mappedChecker_def mappedObjects_def
        emptyObj_def)
  have e1: "includeObject dispatchChecker ?hp ?rec 6 1 = includeClassObject dispatchChecker ?hp ?rec 6 1"
    using C9_object_dispatch [OF o(1), of dispatchChecker ?rec 6] f(1) by blast
  have e2: "includeObject dispatchChecker ?hp ?rec 6 2 = includeStandardObject dispatchChecker ?hp ?rec 6 2"
    using C9_object_dispatch [OF o(2), of dispatchChecker ?rec 6] f(2) by blast
  have e5: "includeObject dispatchChecker ?hp ?rec 6 5 = includeStandardObject dispatchChecker ?hp ?rec 6 5"
    using C9_object_dispatch [OF o(3), of dispatchChecker ?rec 6] f(3) by blast
  have em: "includeObject mappedChecker ?hm ?rm 8 1 = includeMappedObject mappedChecker ?hm ?rm 1"
    using C9_object_dispatch [OF o(4), of mappedChecker ?rm 8] f(4) by blast
  have v1: "map_option fst (includeClassObject dispatchChecker ?hp ?rec 6 1 emptyContext)
      = Some (TypeModelClass [] (Some []) [propA] [] NoNode [])"
    and v2: "map_option fst (includeStandardObject dispatchChecker ?hp ?rec 6 2 emptyContext)
      = Some (TypeModelInterface [] (Some []) [propA] [] NoNode)"
    and v5: "map_option fst (includeStandardObject dispatchChecker ?hp ?rec 6 5 emptyContext)
      = Some (TypeModelInterface [] (Some []) [propA] [] NoNode)"
    and vm: "map_option fst (includeMappedObject mappedChecker ?hm ?rm 1 emptyContext)
      = Some mappedNode"
    by code_simp+
  from o f e1 e2 e5 em v1 v2 v5 vm show ?thesis by simp
qed

text \<open>
  Claim C10. \<^verbatim>\<open>includeExportedType\<close> classifies the type and then writes the node under
  the symbol's name only when the node is not a \<^verbatim>\<open>ref\<close>; when it is a \<^verbatim>\<open>ref\<close> the
  context is the one the classification left. The classification itself changes no
  entry that was in the registry before the call, so a filled entry is not overwritten.
\<close>

theorem C10_exported_type_frame:
  assumes sy: "symbol (object ck t) = Some sy"
    and walk: "includeType ck hp n t c = Some (node, c1)"
  shows "includeExportedType ck hp n t c =
           (if node = NoNode then None
            else if kindOf node \<noteq> ''ref''
              then Some ((), c1\<lparr>refs := (refs c1)(symbol_name sy \<mapsto> node)\<rparr>)
            else Some ((), c1))
       \<and> refs c \<subseteq>\<^sub>m refs c1"
proof
  show "includeExportedType ck hp n t c =
           (if node = NoNode then None
            else if kindOf node \<noteq> ''ref''
              then Some ((), c1\<lparr>refs := (refs c1)(symbol_name sy \<mapsto> node)\<rparr>)
            else Some ((), c1))"
    using sy walk
    by (simp add: includeExportedType_def bindM_def deref_def returnM_def throwM_def setRef_def)
  from walk show "refs c \<subseteq>\<^sub>m refs c1"
    unfolding includeType_def using preserves_run by (rule preservesD [rotated])
qed


theorem C10_exported_type_frame_witness:
  "symbol (object inhChecker 2) = Some symDerived
   \<and> (\<exists>node c1. includeType inhChecker (stdHelpers inhObjects) 12 2 emptyContext = Some (node, c1)
        \<and> kindOf node = ''ref''
        \<and> includeExportedType inhChecker (stdHelpers inhObjects) 12 2 emptyContext = Some ((), c1)
        \<and> refs emptyContext \<subseteq>\<^sub>m refs c1)"
proof -
  have s: "symbol (object inhChecker 2) = Some symDerived"
    by (simp add: inhChecker_def inhObjects_def emptyObj_def)
  have "(case includeType inhChecker (stdHelpers inhObjects) 12 2 emptyContext of
           None \<Rightarrow> False | Some (node, c1) \<Rightarrow> kindOf node = ''ref'')"
    by code_simp
  then obtain node c1 where
    w: "includeType inhChecker (stdHelpers inhObjects) 12 2 emptyContext = Some (node, c1)"
    and k: "kindOf node = ''ref''"
    by (auto split: option.splits)
  from k have "node \<noteq> NoNode" by auto
  with C10_exported_type_frame [OF s w] k s w show ?thesis by simp
qed

end
